theory Spec2Isabelle
  imports Complex_Main "HOL-Library.Word" "HOL-Library.AList"
begin

section \<open>Machine integers and constants of main.go\<close>

text \<open>
  Go's \<open>int64\<close> (and \<open>int\<close> on the 64-bit targets of the build scripts) is modelled as
  \<open>int\<close> with the two's complement wrap-around written out; Go's integer division
  truncates towards zero.
\<close>

type_synonym byte = "8 word"

definition is_int64 :: "int \<Rightarrow> bool" where
  "is_int64 x \<longleftrightarrow> - (2 ^ 63) \<le> x \<and> x < 2 ^ 63"

definition wrap64 :: "int \<Rightarrow> int" where
  "wrap64 x = (x + 2 ^ 63) mod 2 ^ 64 - 2 ^ 63"

definition tdiv :: "int \<Rightarrow> int \<Rightarrow> int" where
  "tdiv a b = sgn a * sgn b * (\<bar>a\<bar> div \<bar>b\<bar>)"

definition MaxFileSize :: int where
  "MaxFileSize = 100 * 1024 * 1024 * 1024"

definition ChunkSize :: int where
  "ChunkSize = 1024 * 1024 * 5"

definition TempDir :: string where
  "TempDir = ''../temp''"

definition ConfigDir :: string where
  "ConfigDir = ''../temp''"

text \<open>
  \<open>filepath.Join(dir, name)\<close> for a clean file name. The normalisation that
  \<open>filepath.Join\<close> applies to names holding separators or dots is not modelled: paths
  are only used as keys of the disk.
\<close>

definition Join :: "string \<Rightarrow> string \<Rightarrow> string" where
  "Join dir name = dir @ ''/'' @ name"

definition tempFilePathOf :: "string \<Rightarrow> string \<Rightarrow> string" where
  "tempFilePathOf sessionID fileName = Join TempDir (sessionID @ ''_'' @ fileName)"

definition configPathOf :: "string \<Rightarrow> string \<Rightarrow> string" where
  "configPathOf sessionID fileName = Join ConfigDir (sessionID @ ''_'' @ fileName @ ''.json'')"

section \<open>Data model\<close>

record FileInfo =
  Name :: string
  Size :: int
  TempFilePath :: string

text \<open>
  \<open>ChunkInfo\<close> and \<open>ResumableFileConfig\<close>, the manifest. The Go map \<open>Chunks\<close> has the key
  \<open>strconv.Itoa(i)\<close> for chunk \<open>i\<close>; \<open>Itoa\<close> is injective, and the model keys the
  association list by \<open>i\<close> itself. Time stamps are natural numbers.
\<close>

record ChunkInfo =
  ChunkIndex :: int
  ciSize :: int
  Hash :: string
  Completed :: bool
  Offset :: int

record ResumableFileConfig =
  FileName :: string
  FileSize :: int
  FileHash :: string
  cfgChunkSize :: int
  TotalChunks :: int
  Chunks :: "(int \<times> ChunkInfo) list"
  cfgTempFilePath :: string
  CreatedAt :: nat
  UpdatedAt :: nat

datatype MsgData = NoData | DataString string | DataBytes "byte list"

record Message =
  mType :: string
  mContent :: string
  mName :: string
  mSize :: int
  mData :: MsgData
  mSessionID :: string
  mTimestamp :: nat
  mClients :: int
  mTotalChunks :: int
  mCurrentChunk :: int
  mIsLastChunk :: bool
  mTempFilePath :: string

text \<open>
  \<open>ReceivingFile\<close>: the receiver of the WebSocket \<open>file_chunk\<close> path. \<open>TempFileOpen\<close>
  says whether the handle \<open>TempFile\<close> is still open.
\<close>

record ReceivingFile =
  rfName :: string
  rfSize :: int
  rfChunks :: "(int \<times> byte list) list"
  rfTotalChunks :: int
  ReceivedChunks :: int
  TempFileOpen :: bool

text \<open>
  A client is a handle (a number) with its \<open>send\<close> channel, the list of frames queued and
  not yet written to the socket; the channel holds 1024 frames.
\<close>

type_synonym Client = nat

record Session =
  ID :: string
  Clients :: "(Client \<times> Message list) list"
  TextContent :: string
  SessionFileInfo :: "FileInfo option"
  ReceivedFiles :: "(string \<times> FileInfo) list"
  ReceivingFiles :: "(string \<times> ReceivingFile) list"

type_synonym SessionStore = "string \<rightharpoonup> Session"

section \<open>The disk\<close>

text \<open>
  A file holds bytes, or the JSON of a manifest written by \<open>saveResumableConfig\<close>, kept
  as the manifest it encodes. The functions of the Go standard library that the program
  calls on file contents are parameters: MD5 and SHA-256 (as hex strings), the JSON
  encoding of a manifest, and the JSON decoding of arbitrary bytes.
\<close>

datatype fileContent = Bytes "byte list" | ConfigJSON ResumableFileConfig

type_synonym disk = "string \<rightharpoonup> fileContent"

record codec =
  md5hex :: "byte list \<Rightarrow> string"
  sha256hex :: "byte list \<Rightarrow> string"
  jsonMarshal :: "ResumableFileConfig \<Rightarrow> byte list"
  jsonUnmarshal :: "byte list \<Rightarrow> ResumableFileConfig option"

definition bytesOf :: "codec \<Rightarrow> fileContent \<Rightarrow> byte list" where
  "bytesOf E fc = (case fc of Bytes b \<Rightarrow> b | ConfigJSON c \<Rightarrow> jsonMarshal E c)"

text \<open>
  The outcome of each system call that can fail is an input of the model.
  \<open>os.WriteFile\<close> opens with truncation and then writes: it fails before the file is
  touched (\<open>WriteFileOpenErr\<close>) or after \<open>k\<close> bytes (\<open>WriteFileWriteErr k\<close>).
  \<open>WriteAt\<close> on the backing file fails at the open, after \<open>k\<close> bytes, returns a short
  count without an error, or succeeds with a failing \<open>Sync\<close>.
\<close>

datatype WriteFileOutcome = WriteFileOk | WriteFileOpenErr | WriteFileWriteErr nat

datatype WriteAtOutcome = WriteAtOk | OpenFileErr | WriteAtErr nat | ShortCount nat | SyncErr

record Faults =
  readFileErr :: bool
  writeFile :: WriteFileOutcome
  createErr :: bool
  truncateErr :: bool
  formOpenErr :: bool
  formReadErr :: bool
  writeAt :: WriteAtOutcome
  removeErr :: "string \<Rightarrow> bool"
  hashOpenErr :: bool
  hashCopyErr :: bool
  readDirErr :: bool

definition noFaults :: Faults where
  "noFaults = \<lparr>readFileErr = False, writeFile = WriteFileOk, createErr = False,
     truncateErr = False, formOpenErr = False, formReadErr = False, writeAt = WriteAtOk,
     removeErr = (\<lambda>_. False), hashOpenErr = False, hashCopyErr = False,
     readDirErr = False\<rparr>"

record World =
  store :: SessionStore
  disk :: disk

text \<open>\<open>saveResumableConfig\<close>: the error flag and the disk after the call.\<close>

definition saveResumableConfig ::
  "codec \<Rightarrow> WriteFileOutcome \<Rightarrow> disk \<Rightarrow> string \<Rightarrow> ResumableFileConfig \<Rightarrow> bool \<times> disk" where
  "saveResumableConfig E out d configPath config =
     (case out of
        WriteFileOk \<Rightarrow> (False, d(configPath \<mapsto> ConfigJSON config))
      | WriteFileOpenErr \<Rightarrow> (True, d)
      | WriteFileWriteErr k \<Rightarrow>
          (True, d(configPath \<mapsto>
             (if length (jsonMarshal E config) \<le> k then ConfigJSON config
              else Bytes (take k (jsonMarshal E config))))))"

text \<open>\<open>loadResumableConfig\<close>: \<open>None\<close> is the error return.\<close>

definition loadResumableConfig ::
  "codec \<Rightarrow> bool \<Rightarrow> disk \<Rightarrow> string \<Rightarrow> ResumableFileConfig option" where
  "loadResumableConfig E readErr d configPath =
     (if readErr then None
      else case d configPath of
             None \<Rightarrow> None
           | Some (ConfigJSON c) \<Rightarrow> Some c
           | Some (Bytes b) \<Rightarrow> jsonUnmarshal E b)"

section \<open>The session registry\<close>

definition newSession :: "string \<Rightarrow> Session" where
  "newSession sessionID = \<lparr>ID = sessionID, Clients = [], TextContent = [],
     SessionFileInfo = None, ReceivedFiles = [], ReceivingFiles = []\<rparr>"

definition GetOrCreateSession :: "SessionStore \<Rightarrow> string \<Rightarrow> Session \<times> SessionStore" where
  "GetOrCreateSession s sessionID =
     (case s sessionID of
        Some session \<Rightarrow> (session, s)
      | None \<Rightarrow> (newSession sessionID, s(sessionID \<mapsto> newSession sessionID)))"

section \<open>HTTP responses\<close>

datatype ErrorMsg =
    ErrBind | ErrSaveConfig | ErrCreateTemp | ErrPrealloc | ErrPanic
  | ErrMissingParams | ErrBadIndex | ErrNoChunkFile | ErrConfigNotFound
  | ErrIndexOutOfRange | ErrOpenChunk | ErrReadChunk | ErrSizeMismatch | ErrWriteChunk
  | ErrHashVerify | ErrFileNotFound

record UploadStartRequest =
  reqSessionID :: string
  reqFileName :: string
  reqFileSize :: int
  reqFileHash :: string

record UploadStartResponse =
  UploadID :: string
  rspChunkSize :: int
  rspTotalChunks :: int
  MissingChunks :: "int list"
  ConfigPath :: string

text \<open>The body \<open>startResumableUpload\<close> returns for a file that is already received.\<close>

record AlreadyCompleteResponse =
  acUploadID :: string
  acFileName :: string
  acFileSize :: int
  acTotalChunks :: int
  acChunkSize :: int
  acChunks :: "(int \<times> bool) list"
  acTempFilePath :: string
  acProgress :: rat
  acMissingChunks :: "int list"
  acCompleted :: bool

record ChunkUploadResponse =
  rChunkIndex :: int
  rCompleted :: bool
  rProgress :: rat

record UploadStatusResponse =
  sUploadID :: string
  sFileName :: string
  sFileSize :: int
  sChunkSize :: int
  sTotalChunks :: int
  sCompletedChunks :: int
  sMissingChunks :: "int list"
  sProgress :: rat
  sCompleted :: bool

datatype Body =
    ErrorBody ErrorMsg
  | StartBody UploadStartResponse
  | AlreadyCompleteBody AlreadyCompleteResponse
  | ChunkBody ChunkUploadResponse
  | StatusBody UploadStatusResponse
  | CompleteBody string int
  | IncompleteBody int
  | HistoryBody "string option" "FileInfo option"
  | FileBody string fileContent

type_synonym Response = "nat \<times> Body"

section \<open>startResumableUpload\<close>

text \<open>
  \<open>ShouldBindJSON\<close> with the \<open>binding:"required"\<close> tags: the three required fields are
  present and not the zero value, and the number fits the field's type.
\<close>

definition bindStartOK :: "UploadStartRequest \<Rightarrow> bool" where
  "bindStartOK req \<longleftrightarrow>
     reqSessionID req \<noteq> [] \<and> reqFileName req \<noteq> [] \<and> reqFileSize req \<noteq> 0
     \<and> is_int64 (reqFileSize req)"

definition totalChunksOf :: "int \<Rightarrow> int" where
  "totalChunksOf fileSize = tdiv (wrap64 (fileSize + ChunkSize - 1)) ChunkSize"

definition initChunk :: "int \<Rightarrow> int \<Rightarrow> int \<Rightarrow> ChunkInfo" where
  "initChunk fileSize totalChunks i =
     \<lparr>ChunkIndex = i,
      ciSize = (if i = totalChunks - 1 then wrap64 (fileSize - wrap64 (i * ChunkSize))
                else ChunkSize),
      Hash = [], Completed = False, Offset = wrap64 (i * ChunkSize)\<rparr>"

definition initChunks :: "int \<Rightarrow> int \<Rightarrow> (int \<times> ChunkInfo) list" where
  "initChunks fileSize totalChunks =
     map (\<lambda>i. (i, initChunk fileSize totalChunks i)) [0..totalChunks - 1]"

definition buildConfig :: "nat \<Rightarrow> UploadStartRequest \<Rightarrow> ResumableFileConfig" where
  "buildConfig now req =
     \<lparr>FileName = reqFileName req, FileSize = reqFileSize req, FileHash = reqFileHash req,
      cfgChunkSize = ChunkSize, TotalChunks = totalChunksOf (reqFileSize req),
      Chunks = initChunks (reqFileSize req) (totalChunksOf (reqFileSize req)),
      cfgTempFilePath = tempFilePathOf (reqSessionID req) (reqFileName req),
      CreatedAt = now, UpdatedAt = now\<rparr>"

definition alreadyComplete :: "UploadStartRequest \<Rightarrow> FileInfo \<Rightarrow> AlreadyCompleteResponse" where
  "alreadyComplete req existingFile =
     \<lparr>acUploadID = reqSessionID req, acFileName = reqFileName req,
      acFileSize = Size existingFile, acTotalChunks = 1, acChunkSize = Size existingFile,
      acChunks = [(0, True)], acTempFilePath = TempFilePath existingFile,
      acProgress = 100, acMissingChunks = [], acCompleted = True\<rparr>"

text \<open>
  The handler, with the time \<open>now\<close> and the generated \<open>uploadID\<close> as inputs.
  \<open>Truncate\<close> fails on a negative size; \<open>make\<close> with a negative capacity panics, which
  gin's recovery turns into a 500.
\<close>

definition startResumableUpload ::
  "codec \<Rightarrow> Faults \<Rightarrow> nat \<Rightarrow> string \<Rightarrow> UploadStartRequest \<Rightarrow> World \<Rightarrow> Response \<times> World" where
  "startResumableUpload E F now uploadID req w =
     (if \<not> bindStartOK req then ((400, ErrorBody ErrBind), w)
      else
        let (session, st) = GetOrCreateSession (store w) (reqSessionID req);
            w0 = w\<lparr>store := st\<rparr>
        in case map_of (ReceivedFiles session) (reqFileName req) of
             Some existingFile \<Rightarrow>
               ((200, AlreadyCompleteBody (alreadyComplete req existingFile)), w0)
           | None \<Rightarrow>
               let config = buildConfig now req;
                   configPath = configPathOf (reqSessionID req) (reqFileName req);
                   (err, d1) = saveResumableConfig E (writeFile F) (disk w0) configPath config
               in if err then ((500, ErrorBody ErrSaveConfig), w0\<lparr>disk := d1\<rparr>)
                  else if createErr F then ((500, ErrorBody ErrCreateTemp), w0\<lparr>disk := d1\<rparr>)
                  else
                    let d2 = d1(cfgTempFilePath config \<mapsto> Bytes [])
                    in if truncateErr F \<or> reqFileSize req < 0
                       then ((500, ErrorBody ErrPrealloc), w0\<lparr>disk := d2\<rparr>)
                       else
                         let d3 = d2(cfgTempFilePath config \<mapsto>
                                     Bytes (replicate (nat (reqFileSize req)) 0))
                         in if TotalChunks config < 0
                            then ((500, ErrorBody ErrPanic), w0\<lparr>disk := d3\<rparr>)
                            else ((200, StartBody
                                    \<lparr>UploadID = uploadID, rspChunkSize = ChunkSize,
                                     rspTotalChunks = TotalChunks config,
                                     MissingChunks = [0..TotalChunks config - 1],
                                     ConfigPath = configPath\<rparr>),
                                  w0\<lparr>disk := d3\<rparr>))"

section \<open>Broadcast\<close>

text \<open>
  \<open>broadcastMessage\<close>: the non-blocking send to every client; a client whose channel is
  full (1024 frames) is closed and deleted from the session.
\<close>

definition emptyMessage :: Message where
  "emptyMessage = \<lparr>mType = [], mContent = [], mName = [], mSize = 0, mData = NoData,
     mSessionID = [], mTimestamp = 0, mClients = 0, mTotalChunks = 0, mCurrentChunk = 0,
     mIsLastChunk = False, mTempFilePath = []\<rparr>"

definition broadcastMessage :: "Message \<Rightarrow> Session \<Rightarrow> Session" where
  "broadcastMessage m s =
     s\<lparr>Clients := map (\<lambda>(c, q). (c, q @ [m]))
                     (filter (\<lambda>(c, q). length q < 1024) (Clients s))\<rparr>"

definition broadcastClientsCount :: "Session \<Rightarrow> Session" where
  "broadcastClientsCount s =
     broadcastMessage (emptyMessage\<lparr>mType := ''clients'', mClients := int (length (Clients s))\<rparr>) s"

text \<open>The text of the frames is Chinese in the source; the model keeps an ASCII rendering.\<close>

definition savedOnServer :: MsgData where
  "savedOnServer = DataString ''file saved on the server, get it by the download link''"

definition fileFrame :: "nat \<Rightarrow> string \<Rightarrow> string \<Rightarrow> int \<Rightarrow> string \<Rightarrow> Message" where
  "fileFrame now sessionID name sz path =
     emptyMessage\<lparr>mType := ''file'', mName := name, mSize := sz, mSessionID := sessionID,
       mTimestamp := now, mTempFilePath := path, mData := savedOnServer\<rparr>"

section \<open>uploadChunk\<close>

text \<open>
  A positioned write of \<open>data\<close> at \<open>off\<close> into a file holding \<open>old\<close>: the file grows (with
  zeros in a gap) when the write ends beyond its length.
\<close>

definition pwrite :: "byte list \<Rightarrow> nat \<Rightarrow> byte list \<Rightarrow> byte list" where
  "pwrite old off data =
     take off old @ replicate (off - length old) 0 @ data @ drop (off + length data) old"

definition writeBytesAt :: "codec \<Rightarrow> disk \<Rightarrow> string \<Rightarrow> nat \<Rightarrow> byte list \<Rightarrow> disk" where
  "writeBytesAt E d filePath off data =
     (case d filePath of
        None \<Rightarrow> d
      | Some fc \<Rightarrow> if data = [] then d
                   else d(filePath \<mapsto> Bytes (pwrite (bytesOf E fc) off data)))"

text \<open>
  \<open>writeChunkSafely\<close>: the error flag and the disk after the call. \<open>os.OpenFile\<close> has no
  \<open>O_CREATE\<close>, so a missing file is an error; \<open>WriteAt\<close> refuses a negative offset.
\<close>

definition writeChunkSafely ::
  "codec \<Rightarrow> WriteAtOutcome \<Rightarrow> disk \<Rightarrow> string \<Rightarrow> byte list \<Rightarrow> int \<Rightarrow> bool \<times> disk" where
  "writeChunkSafely E out d filePath data offset =
     (if d filePath = None \<or> out = OpenFileErr then (True, d)
      else if offset < 0 then (True, d)
      else case out of
             WriteAtErr k \<Rightarrow> (True, writeBytesAt E d filePath (nat offset) (take k data))
           | ShortCount k \<Rightarrow>
               (k < length data, writeBytesAt E d filePath (nat offset) (take k data))
           | SyncErr \<Rightarrow> (True, writeBytesAt E d filePath (nat offset) data)
           | _ \<Rightarrow> (False, writeBytesAt E d filePath (nat offset) data))"

definition completedChunks :: "ResumableFileConfig \<Rightarrow> nat" where
  "completedChunks config = length (filter (\<lambda>(k, chunk). Completed chunk) (Chunks config))"

text \<open>
  \<open>calculateProgress\<close> returns a \<open>float64\<close> in the source; the model keeps the exact
  quotient, of which the value of the source is the rounding.
\<close>

definition calculateProgress :: "ResumableFileConfig \<Rightarrow> rat" where
  "calculateProgress config =
     (if TotalChunks config = 0 then 0
      else of_nat (completedChunks config) / of_int (TotalChunks config) * 100)"

text \<open>
  The multipart form of a chunk request. \<open>chunkIndex\<close> is absent or empty, not a decimal
  number that \<open>strconv.Atoi\<close> accepts, or a number; the part \<open>chunk\<close> may be missing.
\<close>

datatype FormInt = FormMissing | FormInvalid | FormInt int

record ChunkForm =
  fSessionID :: string
  fFileName :: string
  fChunkIndex :: FormInt
  fUploadID :: string
  fChunk :: "byte list option"

definition uploadDoneFrame :: "nat \<Rightarrow> string \<Rightarrow> ResumableFileConfig \<Rightarrow> string \<Rightarrow> Message" where
  "uploadDoneFrame now sessionID config fileName =
     emptyMessage\<lparr>mType := ''file'', mContent := ''file upload complete: '' @ fileName,
       mName := fileName, mSize := FileSize config, mSessionID := sessionID,
       mTimestamp := now, mTempFilePath := cfgTempFilePath config\<rparr>"

definition markCompleted ::
  "codec \<Rightarrow> nat \<Rightarrow> int \<Rightarrow> ChunkInfo \<Rightarrow> byte list \<Rightarrow> ResumableFileConfig \<Rightarrow> ResumableFileConfig" where
  "markCompleted E now chunkIndex chunkInfo chunkData config =
     config\<lparr>Chunks := AList.update chunkIndex
                 (chunkInfo\<lparr>Hash := md5hex E chunkData, Completed := True\<rparr>) (Chunks config),
            UpdatedAt := now\<rparr>"

definition registerFile :: "string \<Rightarrow> ResumableFileConfig \<Rightarrow> Session \<Rightarrow> Session" where
  "registerFile fileName config session =
     session\<lparr>ReceivedFiles := AList.update fileName
        \<lparr>Name = fileName, Size = FileSize config, TempFilePath = cfgTempFilePath config\<rparr>
        (ReceivedFiles session)\<rparr>"

definition removeFile :: "Faults \<Rightarrow> disk \<Rightarrow> string \<Rightarrow> disk" where
  "removeFile F d path = (if removeErr F path then d else d(path := None))"

definition uploadChunk ::
  "codec \<Rightarrow> Faults \<Rightarrow> nat \<Rightarrow> ChunkForm \<Rightarrow> World \<Rightarrow> Response \<times> World" where
  "uploadChunk E F now form w =
     (if fSessionID form = [] \<or> fFileName form = [] \<or> fChunkIndex form = FormMissing
         \<or> fUploadID form = []
      then ((400, ErrorBody ErrMissingParams), w)
      else case fChunkIndex form of
        FormMissing \<Rightarrow> ((400, ErrorBody ErrMissingParams), w)
      | FormInvalid \<Rightarrow> ((400, ErrorBody ErrBadIndex), w)
      | FormInt chunkIndex \<Rightarrow>
         (case fChunk form of
            None \<Rightarrow> ((400, ErrorBody ErrNoChunkFile), w)
          | Some chunkData \<Rightarrow>
             let configPath = configPathOf (fSessionID form) (fFileName form)
             in (case loadResumableConfig E (readFileErr F) (disk w) configPath of
                  None \<Rightarrow> ((404, ErrorBody ErrConfigNotFound), w)
                | Some config \<Rightarrow>
                   (case map_of (Chunks config) chunkIndex of
                      None \<Rightarrow> ((400, ErrorBody ErrIndexOutOfRange), w)
                    | Some chunkInfo \<Rightarrow>
                       if Completed chunkInfo
                       then ((200, ChunkBody \<lparr>rChunkIndex = chunkIndex, rCompleted = False,
                                rProgress = calculateProgress config\<rparr>), w)
                       else if formOpenErr F then ((500, ErrorBody ErrOpenChunk), w)
                       else if formReadErr F then ((500, ErrorBody ErrReadChunk), w)
                       else if int (length chunkData) \<noteq> ciSize chunkInfo
                       then ((400, ErrorBody ErrSizeMismatch), w)
                       else
                         let (werr, d1) = writeChunkSafely E (writeAt F) (disk w)
                                            (cfgTempFilePath config) chunkData (Offset chunkInfo)
                         in if werr then ((500, ErrorBody ErrWriteChunk), w\<lparr>disk := d1\<rparr>)
                            else
                              let config' = markCompleted E now chunkIndex chunkInfo chunkData config;
                                  (serr, d2) = saveResumableConfig E (writeFile F) d1 configPath config'
                              in if serr then ((500, ErrorBody ErrSaveConfig), w\<lparr>disk := d2\<rparr>)
                                 else
                                   let allCompleted = list_all (\<lambda>(k, chunk). Completed chunk) (Chunks config');
                                       response = (200, ChunkBody \<lparr>rChunkIndex = chunkIndex,
                                          rCompleted = allCompleted,
                                          rProgress = calculateProgress config'\<rparr>)
                                   in if allCompleted
                                      then
                                        let (session, st) = GetOrCreateSession (store w) (fSessionID form);
                                            session1 = registerFile (fFileName form) config' session;
                                            d3 = removeFile F d2 configPath;
                                            session2 = broadcastMessage
                                               (uploadDoneFrame now (fSessionID form) config' (fFileName form)) session1
                                        in (response, \<lparr>store = (st(fSessionID form \<mapsto> session2)), disk = d3\<rparr>)
                                      else (response, w\<lparr>disk := d2\<rparr>)))))"

section \<open>getUploadStatus\<close>

definition chunkDone :: "ResumableFileConfig \<Rightarrow> int \<Rightarrow> bool" where
  "chunkDone config i = (case map_of (Chunks config) i of None \<Rightarrow> False | Some chunk \<Rightarrow> Completed chunk)"

definition getUploadStatus :: "codec \<Rightarrow> Faults \<Rightarrow> string \<Rightarrow> string \<Rightarrow> World \<Rightarrow> Response" where
  "getUploadStatus E F sessionID fileName w =
     (if sessionID = [] \<or> fileName = [] then (400, ErrorBody ErrMissingParams)
      else case loadResumableConfig E (readFileErr F) (disk w) (configPathOf sessionID fileName) of
             None \<Rightarrow> (404, ErrorBody ErrConfigNotFound)
           | Some config \<Rightarrow>
               let finished = filter (chunkDone config) [0..TotalChunks config - 1];
                   missing = filter (\<lambda>i. \<not> chunkDone config i) [0..TotalChunks config - 1]
               in (200, StatusBody
                    \<lparr>sUploadID = sessionID, sFileName = FileName config,
                     sFileSize = FileSize config, sChunkSize = cfgChunkSize config,
                     sTotalChunks = TotalChunks config, sCompletedChunks = int (length finished),
                     sMissingChunks = missing, sProgress = calculateProgress config,
                     sCompleted = (int (length finished) = TotalChunks config)\<rparr>))"

section \<open>completeUpload\<close>

datatype HashError = HashOpenFailed | UnsupportedLength nat | HashCopyFailed | HashMismatch string string

definition verifyFileHash :: "codec \<Rightarrow> Faults \<Rightarrow> disk \<Rightarrow> string \<Rightarrow> string \<Rightarrow> HashError option" where
  "verifyFileHash E F d filePath expectedHash =
     (case d filePath of
        None \<Rightarrow> Some HashOpenFailed
      | Some fc \<Rightarrow>
          if hashOpenErr F then Some HashOpenFailed
          else if length expectedHash \<noteq> 32 \<and> length expectedHash \<noteq> 64
          then Some (UnsupportedLength (length expectedHash))
          else if hashCopyErr F then Some HashCopyFailed
          else
            let actualHash = (if length expectedHash = 32 then md5hex E (bytesOf E fc)
                              else sha256hex E (bytesOf E fc))
            in if actualHash \<noteq> expectedHash then Some (HashMismatch expectedHash actualHash)
               else None)"

definition incompleteChunks :: "ResumableFileConfig \<Rightarrow> nat" where
  "incompleteChunks config = length (filter (\<lambda>(k, chunk). \<not> Completed chunk) (Chunks config))"

definition completeUpload ::
  "codec \<Rightarrow> Faults \<Rightarrow> string \<Rightarrow> string \<Rightarrow> World \<Rightarrow> Response \<times> World" where
  "completeUpload E F sessionID fileName w =
     (if sessionID = [] \<or> fileName = [] then ((400, ErrorBody ErrMissingParams), w)
      else case loadResumableConfig E (readFileErr F) (disk w) (configPathOf sessionID fileName) of
        None \<Rightarrow> ((404, ErrorBody ErrConfigNotFound), w)
      | Some config \<Rightarrow>
         let (session, st) = GetOrCreateSession (store w) sessionID;
             w0 = w\<lparr>store := st\<rparr>
         in (case map_of (ReceivedFiles session) fileName of
              Some existingFile \<Rightarrow> ((200, CompleteBody fileName (Size existingFile)), w0)
            | None \<Rightarrow>
               if incompleteChunks config > 0
               then ((400, IncompleteBody (int (incompleteChunks config))), w0)
               else if FileHash config \<noteq> []
                       \<and> verifyFileHash E F (disk w) (cfgTempFilePath config) (FileHash config) \<noteq> None
               then ((400, ErrorBody ErrHashVerify), w0)
               else ((200, CompleteBody fileName (FileSize config)),
                     w0\<lparr>store := (st(sessionID \<mapsto> registerFile fileName config session))\<rparr>)))"

section \<open>RemoveClient and the teardown of a session\<close>

text \<open>
  The entries of the temp directory are the paths \<open>../temp/name\<close>.
  \<open>cleanupResumableConfigs\<close> removes every entry whose name is longer than the session ID
  and starts with it; a removal that fails leaves the file (the retry five seconds later
  only removes files, and is not modelled).
\<close>

definition dirEntry :: "string \<Rightarrow> string option" where
  "dirEntry path =
     (let n = length TempDir + 1
      in if take n path = TempDir @ ''/'' \<and> drop n path \<noteq> [] \<and> CHR ''/'' \<notin> set (drop n path)
         then Some (drop n path) else None)"

definition cleanupResumableConfigs :: "Faults \<Rightarrow> string \<Rightarrow> disk \<Rightarrow> disk" where
  "cleanupResumableConfigs F sessionID d =
     (if readDirErr F then d
      else (\<lambda>path. case dirEntry path of
                      None \<Rightarrow> d path
                    | Some fileName \<Rightarrow>
                        if length sessionID < length fileName
                           \<and> take (length sessionID) fileName = sessionID
                           \<and> \<not> removeErr F path
                        then None else d path))"

definition teardownDisk :: "Faults \<Rightarrow> string \<Rightarrow> Session \<Rightarrow> disk \<Rightarrow> disk" where
  "teardownDisk F sessionID session d =
     (let d1 = (case SessionFileInfo session of
                  None \<Rightarrow> d
                | Some fi \<Rightarrow> if TempFilePath fi \<noteq> [] then removeFile F d (TempFilePath fi) else d);
          d2 = foldl (removeFile F) d1
                 (map (\<lambda>(name, rf). tempFilePathOf (ID session) (rfName rf)) (ReceivingFiles session));
          d3 = foldl (removeFile F) d2
                 (filter (\<lambda>path. path \<noteq> []) (map (\<lambda>(name, fi). TempFilePath fi) (ReceivedFiles session)))
      in cleanupResumableConfigs F sessionID d3)"

definition RemoveClient :: "Faults \<Rightarrow> Client \<Rightarrow> string \<Rightarrow> World \<Rightarrow> World" where
  "RemoveClient F client sessionID w =
     (case store w sessionID of
        None \<Rightarrow> w
      | Some session \<Rightarrow>
          if map_of (Clients session) client = None then w
          else if AList.delete client (Clients session) = []
          then \<lparr>store = (store w)(sessionID \<mapsto>
                   session\<lparr>Clients := [],
                     SessionFileInfo := map_option (\<lambda>fi. fi\<lparr>TempFilePath := []\<rparr>) (SessionFileInfo session),
                     ReceivedFiles := [], ReceivingFiles := []\<rparr>),
                disk = teardownDisk F sessionID session (disk w)\<rparr>
          else w\<lparr>store := (store w)(sessionID \<mapsto>
                   session\<lparr>Clients := AList.delete client (Clients session)\<rparr>)\<rparr>)"

section \<open>The WebSocket hub\<close>

text \<open>
  \<open>handleWebSocket\<close> for a connection that upgraded: the new client is registered with
  the replay frames in its channel, the count is broadcast, and the welcome frame is sent.
  The blocking sends of the join are modelled as appends.
\<close>

definition textFrame :: "nat \<Rightarrow> string \<Rightarrow> string \<Rightarrow> Message" where
  "textFrame now sessionID content =
     emptyMessage\<lparr>mType := ''text'', mContent := content, mSessionID := sessionID, mTimestamp := now\<rparr>"

definition historyFrames :: "nat \<Rightarrow> string \<Rightarrow> Session \<Rightarrow> Message list" where
  "historyFrames now sessionID session =
     (if TextContent session \<noteq> [] then [textFrame now sessionID (TextContent session)] else [])
     @ (case SessionFileInfo session of
          None \<Rightarrow> []
        | Some fi \<Rightarrow>
            [emptyMessage\<lparr>mType := ''file'', mName := Name fi, mSize := Size fi,
               mSessionID := sessionID, mTimestamp := now, mTempFilePath := TempFilePath fi,
               mData := (if TempFilePath fi \<noteq> [] then savedOnServer else NoData)\<rparr>])
     @ map (\<lambda>(name, fi). fileFrame now sessionID (Name fi) (Size fi) (TempFilePath fi))
         (ReceivedFiles session)"

definition sendTo :: "Client \<Rightarrow> Message \<Rightarrow> Session \<Rightarrow> Session" where
  "sendTo client m s =
     s\<lparr>Clients := map (\<lambda>(c, q). if c = client then (c, q @ [m]) else (c, q)) (Clients s)\<rparr>"

definition handleWebSocket :: "nat \<Rightarrow> Client \<Rightarrow> string \<Rightarrow> World \<Rightarrow> World" where
  "handleWebSocket now client sessionID w =
     (let (session, st) = GetOrCreateSession (store w) sessionID;
          session1 = session\<lparr>Clients :=
             AList.update client (historyFrames now sessionID session) (Clients session)\<rparr>;
          session2 = broadcastClientsCount session1;
          session3 = sendTo client
             (emptyMessage\<lparr>mType := ''system'', mContent := ''connected'',
                mSessionID := sessionID, mTimestamp := now\<rparr>) session2
      in w\<lparr>store := (st(sessionID \<mapsto> session3))\<rparr>)"

text \<open>One round of \<open>writePump\<close>: the first frame of the channel goes to the socket.\<close>

definition writePump :: "Client \<Rightarrow> string \<Rightarrow> World \<Rightarrow> World" where
  "writePump client sessionID w =
     (case store w sessionID of
        None \<Rightarrow> w
      | Some session \<Rightarrow>
          w\<lparr>store := (store w)(sessionID \<mapsto>
              session\<lparr>Clients := map (\<lambda>(c, q). if c = client then (c, tl q) else (c, q))
                                    (Clients session)\<rparr>)\<rparr>)"

text \<open>
  The message loop of \<open>readPump\<close>. The array \<open>data\<close> arrives as the bytes it converts
  to; any other \<open>data\<close> gives no bytes. In every error branch of the cases \<open>file\<close> and
  \<open>file_chunk\<close> the code unlocks the session and leaves the \<open>switch\<close> with \<open>break\<close>, so the
  unlock after the \<open>switch\<close> runs on an unlocked mutex, which is a fatal error of the Go
  runtime: the result \<open>None\<close> is the end of the process.
\<close>

definition msgBytes :: "Message \<Rightarrow> byte list" where
  "msgBytes msg = (case mData msg of DataBytes b \<Rightarrow> b | _ \<Rightarrow> [])"

definition wsWriteFails :: "Faults \<Rightarrow> bool" where
  "wsWriteFails F = (case writeAt F of WriteAtErr k \<Rightarrow> True | _ \<Rightarrow> False)"

definition expectedChunks :: "ReceivingFile \<Rightarrow> int" where
  "expectedChunks rf = tdiv (wrap64 (rfSize rf + ChunkSize - 1)) ChunkSize"

definition allChunksReceived :: "ReceivingFile \<Rightarrow> bool" where
  "allChunksReceived rf =
     (if rfTotalChunks rf > 0 then ReceivedChunks rf = rfTotalChunks rf
      else ReceivedChunks rf = expectedChunks rf)"

definition openReceiver ::
  "Faults \<Rightarrow> string \<Rightarrow> Message \<Rightarrow> Session \<Rightarrow> disk \<Rightarrow> (ReceivingFile \<times> disk) option" where
  "openReceiver F sessionID msg session d =
     (case map_of (ReceivingFiles session) (mName msg) of
        None \<Rightarrow>
          if createErr F then None
          else if truncateErr F \<or> mSize msg < 0 then None
          else Some (\<lparr>rfName = mName msg, rfSize = mSize msg, rfChunks = [],
                       rfTotalChunks = mTotalChunks msg, ReceivedChunks = 0, TempFileOpen = True\<rparr>,
                     d(tempFilePathOf sessionID (mName msg) \<mapsto> Bytes (replicate (nat (mSize msg)) 0)))
      | Some receivingFile \<Rightarrow>
          Some (if rfTotalChunks receivingFile = 0 \<and> mTotalChunks msg > 0
                then receivingFile\<lparr>rfTotalChunks := mTotalChunks msg\<rparr> else receivingFile, d))"

definition storeChunk :: "Message \<Rightarrow> ReceivingFile \<Rightarrow> ReceivingFile" where
  "storeChunk msg rf =
     rf\<lparr>rfChunks := AList.update (mCurrentChunk msg) (msgBytes msg) (rfChunks rf),
        ReceivedChunks := ReceivedChunks rf + 1\<rparr>"

definition chunkOffset :: "Message \<Rightarrow> int" where
  "chunkOffset msg = (if mCurrentChunk msg = 0 then 0 else wrap64 (mCurrentChunk msg * ChunkSize))"

definition finishReceiving :: "nat \<Rightarrow> string \<Rightarrow> ReceivingFile \<Rightarrow> Session \<Rightarrow> Session" where
  "finishReceiving now sessionID rf session =
     (let path = tempFilePathOf sessionID (rfName rf);
          session1 = session\<lparr>ReceivedFiles := AList.update (rfName rf)
             \<lparr>Name = rfName rf, Size = rfSize rf, TempFilePath = path\<rparr> (ReceivedFiles session)\<rparr>;
          session2 = broadcastMessage (fileFrame now sessionID (rfName rf) (rfSize rf) path) session1
      in session2\<lparr>ReceivingFiles := AList.delete (rfName rf) (ReceivingFiles session2)\<rparr>)"

definition handleFileChunk ::
  "codec \<Rightarrow> Faults \<Rightarrow> nat \<Rightarrow> string \<Rightarrow> Message \<Rightarrow> Session \<Rightarrow> disk \<Rightarrow> (Session \<times> disk) option" where
  "handleFileChunk E F now sessionID msg session d =
     (case openReceiver F sessionID msg session d of
        None \<Rightarrow> None
      | Some (rf0, d1) \<Rightarrow>
          let receivingFile = storeChunk msg rf0
          in if \<not> TempFileOpen receivingFile \<or> chunkOffset msg < 0 \<or> wsWriteFails F then None
             else
               let d2 = writeBytesAt E d1 (tempFilePathOf sessionID (mName msg))
                          (nat (chunkOffset msg)) (msgBytes msg)
               in if allChunksReceived receivingFile \<and> ReceivedChunks receivingFile > 0
                  then Some (finishReceiving now sessionID receivingFile
                               (session\<lparr>ReceivingFiles := AList.update (mName msg) receivingFile
                                                            (ReceivingFiles session)\<rparr>), d2)
                  else Some (session\<lparr>ReceivingFiles := AList.update (mName msg) receivingFile
                                                           (ReceivingFiles session)\<rparr>, d2))"

definition handleFile ::
  "Faults \<Rightarrow> nat \<Rightarrow> string \<Rightarrow> Message \<Rightarrow> Session \<Rightarrow> disk \<Rightarrow> (Session \<times> disk) option" where
  "handleFile F now sessionID msg session d =
     (if createErr F \<or> wsWriteFails F then None
      else
        let path = tempFilePathOf sessionID (mName msg);
            session1 = session\<lparr>ReceivedFiles := AList.update (mName msg)
               \<lparr>Name = mName msg, Size = mSize msg, TempFilePath = path\<rparr> (ReceivedFiles session)\<rparr>
        in Some (broadcastMessage (fileFrame now sessionID (mName msg) (mSize msg) path) session1,
                 d(path \<mapsto> Bytes (msgBytes msg))))"

definition handleMessage ::
  "codec \<Rightarrow> Faults \<Rightarrow> nat \<Rightarrow> string \<Rightarrow> Message \<Rightarrow> World \<Rightarrow> World option" where
  "handleMessage E F now sessionID msg w =
     (let (session, st) = GetOrCreateSession (store w) sessionID
      in if mType msg = ''text''
         then Some (w\<lparr>store := (st(sessionID \<mapsto>
                      broadcastMessage msg (session\<lparr>TextContent := mContent msg\<rparr>)))\<rparr>)
         else if mType msg = ''file''
         then map_option (\<lambda>(s', d'). \<lparr>store = (st(sessionID \<mapsto> s')), disk = d'\<rparr>)
                (handleFile F now sessionID msg session (disk w))
         else if mType msg = ''file_chunk''
         then map_option (\<lambda>(s', d'). \<lparr>store = (st(sessionID \<mapsto> s')), disk = d'\<rparr>)
                (handleFileChunk E F now sessionID msg session (disk w))
         else Some (w\<lparr>store := st\<rparr>))"

text \<open>The exit of \<open>readPump\<close>, when the connection of the client ends.\<close>

definition readPumpExit :: "Faults \<Rightarrow> Client \<Rightarrow> string \<Rightarrow> World \<Rightarrow> World" where
  "readPumpExit F client sessionID w =
     (let w1 = RemoveClient F client sessionID w;
          (session, st) = GetOrCreateSession (store w1) sessionID
      in w1\<lparr>store := (st(sessionID \<mapsto> broadcastClientsCount session))\<rparr>)"

section \<open>History and download\<close>

definition getSessionHistory :: "string \<Rightarrow> World \<Rightarrow> Response \<times> World" where
  "getSessionHistory sessionID w =
     (let (session, st) = GetOrCreateSession (store w) sessionID
      in ((200, HistoryBody (if TextContent session \<noteq> [] then Some (TextContent session) else None)
                  (SessionFileInfo session)),
          w\<lparr>store := st\<rparr>))"

definition download :: "string \<Rightarrow> string \<Rightarrow> World \<Rightarrow> Response \<times> World" where
  "download sessionID filename w =
     (let (session, st) = GetOrCreateSession (store w) sessionID
      in case map_of (ReceivedFiles session) filename of
           None \<Rightarrow> ((404, ErrorBody ErrFileNotFound), w\<lparr>store := st\<rparr>)
         | Some fileInfo \<Rightarrow>
             (case disk w (TempFilePath fileInfo) of
                None \<Rightarrow> ((404, ErrorBody ErrFileNotFound), w\<lparr>store := st\<rparr>)
              | Some fc \<Rightarrow> ((200, FileBody filename fc), w\<lparr>store := st\<rparr>)))"

section \<open>The server as a transition system\<close>

text \<open>
  One operation is one request, one WebSocket event or one round of a pump; each runs
  alone (the locks of the program are not modelled). An operation comes with the outcome
  of its system calls and the time. \<open>None\<close> is the end of the process.
\<close>

datatype Op =
    Connect Client string
  | Disconnect Client string
  | Recv string Message
  | WritePump Client string
  | History string
  | Download string string
  | Start string UploadStartRequest
  | Chunk ChunkForm
  | Status string string
  | Complete string string

fun step :: "codec \<Rightarrow> Faults \<Rightarrow> nat \<Rightarrow> Op \<Rightarrow> World \<Rightarrow> World option" where
  "step E F now (Connect c sid) w = Some (handleWebSocket now c sid w)"
| "step E F now (Disconnect c sid) w = Some (readPumpExit F c sid w)"
| "step E F now (Recv sid msg) w = handleMessage E F now sid msg w"
| "step E F now (WritePump c sid) w = Some (writePump c sid w)"
| "step E F now (History sid) w = Some (snd (getSessionHistory sid w))"
| "step E F now (Download sid filename) w = Some (snd (download sid filename w))"
| "step E F now (Start uploadID req) w = Some (snd (startResumableUpload E F now uploadID req w))"
| "step E F now (Chunk form) w = Some (snd (uploadChunk E F now form w))"
| "step E F now (Status sid fileName) w = Some w"
| "step E F now (Complete sid fileName) w = Some (snd (completeUpload E F sid fileName w))"

fun run :: "codec \<Rightarrow> (Faults \<times> nat \<times> Op) list \<Rightarrow> World \<Rightarrow> World option" where
  "run E [] w = Some w"
| "run E ((F, now, op) # ops) w =
     (case step E F now op w of None \<Rightarrow> None | Some w' \<Rightarrow> run E ops w')"

section \<open>Predicates used in the properties\<close>

text \<open>A file name is registered when the session exists and has it in \<open>ReceivedFiles\<close>.\<close>

definition registered :: "World \<Rightarrow> string \<Rightarrow> string \<Rightarrow> bool" where
  "registered w sid name \<longleftrightarrow>
     (case store w sid of None \<Rightarrow> False
      | Some session \<Rightarrow> map_of (ReceivedFiles session) name \<noteq> None)"

text \<open>A chunk request that reaches the look-up of the manifest.\<close>

definition validForm :: "ChunkForm \<Rightarrow> int \<Rightarrow> byte list \<Rightarrow> bool" where
  "validForm form i chunkData \<longleftrightarrow>
     fSessionID form \<noteq> [] \<and> fFileName form \<noteq> [] \<and> fChunkIndex form = FormInt i
     \<and> fUploadID form \<noteq> [] \<and> fChunk form = Some chunkData"

text \<open>The world without the manifest and the backing file of an upload.\<close>

definition forgetUpload :: "string \<Rightarrow> string \<Rightarrow> World \<Rightarrow> World" where
  "forgetUpload sessionID fileName w =
     w\<lparr>disk := (disk w)(configPathOf sessionID fileName := None,
                         tempFilePathOf sessionID fileName := None)\<rparr>"

text \<open>
  The check of step 3 of \<open>complete\<close> in the words of the specification: MD5 for a hash of
  32 characters, SHA-256 for a hash of 64 characters, and nothing else passes.
\<close>

definition specHashCheck :: "codec \<Rightarrow> byte list \<Rightarrow> string \<Rightarrow> bool" where
  "specHashCheck E bytes fileHash \<longleftrightarrow>
     (length fileHash = 32 \<and> md5hex E bytes = fileHash)
     \<or> (length fileHash = 64 \<and> sha256hex E bytes = fileHash)"

text \<open>A session keeps its entry, and an empty client set stays empty.\<close>

definition keeps :: "string \<Rightarrow> World \<Rightarrow> World \<Rightarrow> bool" where
  "keeps sid w w' \<longleftrightarrow>
     (case store w sid of
        None \<Rightarrow> True
      | Some s \<Rightarrow> (case store w' sid of
                     None \<Rightarrow> False
                   | Some s' \<Rightarrow> Clients s = [] \<longrightarrow> Clients s' = []))"

text \<open>The client is the only client of the session.\<close>

definition lastClient :: "World \<Rightarrow> string \<Rightarrow> Client \<Rightarrow> bool" where
  "lastClient w sid c \<longleftrightarrow>
     (case store w sid of None \<Rightarrow> False | Some s \<Rightarrow> map fst (Clients s) = [c])"

text \<open>The operation is a WebSocket connection to the session.\<close>

definition connectsTo :: "string \<Rightarrow> Op \<Rightarrow> bool" where
  "connectsTo sid op = (case op of Connect c sid' \<Rightarrow> sid' = sid | _ \<Rightarrow> False)"

section \<open>Concrete inputs\<close>

text \<open>
  A stand-in for the codec, with constant hashes: the MD5 of every file is 32 zeros and
  the SHA-256 is 64 ones; a manifest encodes to two bytes, and no byte file decodes to a
  manifest.
\<close>

definition toyCodec :: codec where
  "toyCodec = \<lparr>md5hex = (\<lambda>b. replicate 32 (CHR ''0'')), sha256hex = (\<lambda>b. replicate 64 (CHR ''1'')),
     jsonMarshal = (\<lambda>c. [123, 125]), jsonUnmarshal = (\<lambda>b. None)\<rparr>"

text \<open>The server at its start, and a start request for the file \<open>f\<close> of session \<open>s\<close>.\<close>

definition emptyWorld :: World where
  "emptyWorld = \<lparr>store = Map.empty, disk = Map.empty\<rparr>"

definition startReq :: "int \<Rightarrow> UploadStartRequest" where
  "startReq n = \<lparr>reqSessionID = ''s'', reqFileName = ''f'', reqFileSize = n, reqFileHash = []\<rparr>"

text \<open>A server where the file \<open>f\<close> of 3 bytes is received.\<close>

definition receivedWorld :: World where
  "receivedWorld =
     \<lparr>store = [''s'' \<mapsto> (newSession ''s'')\<lparr>ReceivedFiles :=
                 [(''f'', \<lparr>Name = ''f'', Size = 3, TempFilePath = tempFilePathOf ''s'' ''f''\<rparr>)]\<rparr>],
      disk = [tempFilePathOf ''s'' ''f'' \<mapsto> Bytes [1, 2, 3]]\<rparr>"

text \<open>
  An upload of two chunks (5 MiB and one byte) of which the last chunk has arrived:
  \<open>twoChunkWorld\<close> after the start, \<open>openWorld\<close> after the chunk, \<open>openConfig\<close> its
  manifest.
\<close>

definition lastChunkForm :: ChunkForm where
  "lastChunkForm = \<lparr>fSessionID = ''s'', fFileName = ''f'', fChunkIndex = FormInt 1,
     fUploadID = ''u'', fChunk = Some [7]\<rparr>"

definition openWorld :: World where
  "openWorld = snd (uploadChunk toyCodec noFaults 1 lastChunkForm
                 (snd (startResumableUpload toyCodec noFaults 0 ''u'' (startReq 5242881) emptyWorld)))"

definition openConfig :: ResumableFileConfig where
  "openConfig = markCompleted toyCodec 1 1
      \<lparr>ChunkIndex = 1, ciSize = 1, Hash = [], Completed = False, Offset = 5242880\<rparr> [7]
      (buildConfig 0 (startReq 5242881))"

text \<open>
  An upload of one chunk of 3 bytes: \<open>startedWorld\<close> after the start, \<open>completeWorld\<close>
  after the chunk; \<open>doneConfig\<close> is the manifest with the chunk completed, and
  \<open>shortChunkForm\<close> the chunk request with one byte too few.
\<close>

definition onlyChunkForm :: ChunkForm where
  "onlyChunkForm = \<lparr>fSessionID = ''s'', fFileName = ''f'', fChunkIndex = FormInt 0,
     fUploadID = ''u'', fChunk = Some [1, 2, 3]\<rparr>"

definition startedWorld :: World where
  "startedWorld = snd (startResumableUpload toyCodec noFaults 0 ''u'' (startReq 3) emptyWorld)"

definition completeWorld :: World where
  "completeWorld = snd (uploadChunk toyCodec noFaults 1 onlyChunkForm startedWorld)"

definition doneConfig :: ResumableFileConfig where
  "doneConfig = markCompleted toyCodec 1 0
      \<lparr>ChunkIndex = 0, ciSize = 3, Hash = [], Completed = False, Offset = 0\<rparr> [1, 2, 3]
      (buildConfig 0 (startReq 3))"

definition receivedSession :: Session where
  "receivedSession = (newSession ''s'')\<lparr>ReceivedFiles :=
      [(''f'', \<lparr>Name = ''f'', Size = 3, TempFilePath = tempFilePathOf ''s'' ''f''\<rparr>)]\<rparr>"


definition shortChunkForm :: ChunkForm where
  "shortChunkForm = \<lparr>fSessionID = ''s'', fFileName = ''f'', fChunkIndex = FormInt 0,
     fUploadID = ''u'', fChunk = Some [1, 2]\<rparr>"

text \<open>The save of the manifest fails after the truncation and one byte.\<close>

definition truncFaults :: Faults where
  "truncFaults = noFaults\<lparr>writeFile := WriteFileWriteErr 1\<rparr>"

text \<open>A manifest with every chunk completed and a hash, the file not registered.\<close>

definition hashWorld :: "string \<Rightarrow> World" where
  "hashWorld fileHash =
     \<lparr>store = Map.empty,
      disk = [configPathOf ''s'' ''f'' \<mapsto> ConfigJSON (doneConfig\<lparr>FileHash := fileHash\<rparr>),
              tempFilePathOf ''s'' ''f'' \<mapsto> Bytes [1, 2, 3]]\<rparr>"

text \<open>
  An upload of one chunk of 3 bytes that is started with a hash the file does not have
  (the stand-in MD5 is 32 zeros), and whose only chunk arrives while no file can be
  removed: \<open>unverifiedWorld\<close> is the server after the chunk, \<open>unverifiedConfig\<close> the manifest
  that stays on disk.
\<close>

definition hashReq :: UploadStartRequest where
  "hashReq = \<lparr>reqSessionID = ''s'', reqFileName = ''f'', reqFileSize = 3,
     reqFileHash = replicate 32 (CHR ''9'')\<rparr>"

definition keepFaults :: Faults where
  "keepFaults = noFaults\<lparr>removeErr := (\<lambda>path. True)\<rparr>"

definition unverifiedWorld :: World where
  "unverifiedWorld = snd (uploadChunk toyCodec keepFaults 1 onlyChunkForm
       (snd (startResumableUpload toyCodec noFaults 0 ''u'' hashReq emptyWorld)))"

definition unverifiedConfig :: ResumableFileConfig where
  "unverifiedConfig = markCompleted toyCodec 1 0
      \<lparr>ChunkIndex = 0, ciSize = 3, Hash = [], Completed = False, Offset = 0\<rparr> [1, 2, 3]
      (buildConfig 0 hashReq)"

text \<open>
  The \<open>file_chunk\<close> message with \<open>currentChunk = 0\<close> for a file \<open>g\<close> of two chunks, and the
  receiver before and after the first message. The session \<open>s\<close> has two clients: client 1
  with an empty channel and client 2 with a full one. \<open>receivingSession\<close> and
  \<open>receivingDisk\<close> are the session and the disk after the first message, \<open>receivedFrame\<close>
  the file frame of the completion at time 2, and \<open>completedSession\<close> the session after
  the second message.
\<close>

definition dupChunkMsg :: Message where
  "dupChunkMsg = emptyMessage\<lparr>mType := ''file_chunk'', mName := ''g'', mSize := 5242881,
     mData := DataBytes [9], mSessionID := ''s'', mTotalChunks := 2, mCurrentChunk := 0\<rparr>"

definition freshReceiver :: ReceivingFile where
  "freshReceiver = \<lparr>rfName = ''g'', rfSize = 5242881, rfChunks = [], rfTotalChunks = 2,
     ReceivedChunks = 0, TempFileOpen = True\<rparr>"

definition oneChunkReceiver :: ReceivingFile where
  "oneChunkReceiver = \<lparr>rfName = ''g'', rfSize = 5242881, rfChunks = [(0, [9])], rfTotalChunks = 2,
     ReceivedChunks = 1, TempFileOpen = True\<rparr>"

definition joinedSession :: Session where
  "joinedSession = (newSession ''s'')\<lparr>Clients := [(1, []), (2, replicate 1024 emptyMessage)]\<rparr>"

definition receivingSession :: Session where
  "receivingSession = joinedSession\<lparr>ReceivingFiles := [(''g'', oneChunkReceiver)]\<rparr>"

definition receivingDisk :: disk where
  "receivingDisk = [tempFilePathOf ''s'' ''g'' \<mapsto> Bytes (9 # replicate 5242880 0)]"

definition receivedFrame :: Message where
  "receivedFrame = \<lparr>mType = ''file'', mContent = [], mName = ''g'', mSize = 5242881,
     mData = DataString ''file saved on the server, get it by the download link'',
     mSessionID = ''s'', mTimestamp = 2, mClients = 0, mTotalChunks = 0, mCurrentChunk = 0,
     mIsLastChunk = False, mTempFilePath = tempFilePathOf ''s'' ''g''\<rparr>"

definition completedSession :: Session where
  "completedSession = (newSession ''s'')\<lparr>Clients := [(1, [receivedFrame])],
     ReceivedFiles :=
       [(''g'', \<lparr>Name = ''g'', Size = 5242881, TempFilePath = tempFilePathOf ''s'' ''g''\<rparr>)]\<rparr>"

text \<open>
  The same message with \<open>totalChunks = -1\<close>, and the receiver that its first arrival
  creates in a session without clients.
\<close>

definition negChunkMsg :: Message where
  "negChunkMsg = dupChunkMsg\<lparr>mTotalChunks := - 1\<rparr>"

definition negReceiver :: ReceivingFile where
  "negReceiver = \<lparr>rfName = ''g'', rfSize = 5242881, rfChunks = [(0, [9])], rfTotalChunks = - 1,
     ReceivedChunks = 1, TempFileOpen = True\<rparr>"

text \<open>Requests on the session \<open>x\<close> that has no client, and the world they run in.\<close>

definition lookupOps :: "(Faults \<times> nat \<times> Op) list" where
  "lookupOps = [(noFaults, 1, Disconnect 7 ''x''), (noFaults, 2, Download ''x'' ''f''),
                (noFaults, 3, Status ''x'' ''f''), (noFaults, 4, Complete ''x'' ''f'')]"

definition lookedUpWorld :: World where
  "lookedUpWorld = \<lparr>store = [''x'' \<mapsto> newSession ''x''], disk = Map.empty\<rparr>"

section \<open>Properties: arithmetic of the chunk layout\<close>

lemma wrap64_id: "is_int64 x \<Longrightarrow> wrap64 x = x"
  by (simp add: is_int64_def wrap64_def)

lemma tdiv_nonneg: "0 \<le> a \<Longrightarrow> 0 < b \<Longrightarrow> tdiv a b = a div b"
  by (cases "a = 0") (simp_all add: tdiv_def)

lemma ceil_div_bounds:
  fixes n b :: int
  assumes "0 < b"
  defines "z \<equiv> (n + b - 1) div b"
  shows "n \<le> z * b" and "(z - 1) * b < n"
proof -
  have eq: "n + b - 1 = z * b + (n + b - 1) mod b"
    unfolding z_def by simp
  have r: "0 \<le> (n + b - 1) mod b" "(n + b - 1) mod b < b"
    using assms(1) by simp_all
  show "n \<le> z * b" using eq r by linarith
  have "(z - 1) * b = z * b - b" by (simp add: algebra_simps)
  then show "(z - 1) * b < n" using eq r by linarith
qed

lemma ceil_div:
  fixes n b :: int
  assumes "0 < b"
  shows "\<lceil>real_of_int n / real_of_int b\<rceil> = (n + b - 1) div b"
proof (rule ceiling_unique)
  let ?z = "(n + b - 1) div b"
  have b: "0 < real_of_int b" using assms by simp
  have "real_of_int ((?z - 1) * b) < real_of_int n"
    using ceil_div_bounds(2)[OF assms, of n] by (simp only: of_int_less_iff)
  then show "real_of_int ?z - 1 < real_of_int n / real_of_int b"
    using b by (simp add: pos_less_divide_eq)
  have "real_of_int n \<le> real_of_int (?z * b)"
    using ceil_div_bounds(1)[OF assms, of n] by (simp only: of_int_le_iff)
  then show "real_of_int n / real_of_int b \<le> real_of_int ?z"
    using b by (simp add: pos_divide_le_eq)
qed

lemma ChunkSize_pos: "0 < ChunkSize"
  by (simp add: ChunkSize_def)

lemma totalChunksOf_div:
  assumes "0 < n" "n \<le> 2 ^ 63 - ChunkSize"
  shows "totalChunksOf n = (n + ChunkSize - 1) div ChunkSize"
proof -
  have "is_int64 (n + ChunkSize - 1)"
    using assms by (simp add: is_int64_def ChunkSize_def)
  moreover have "0 \<le> n + ChunkSize - 1"
    using assms ChunkSize_pos by simp
  ultimately show ?thesis
    by (simp add: totalChunksOf_def wrap64_id tdiv_nonneg ChunkSize_pos)
qed

lemma totalChunksOf_ceiling:
  assumes "0 < n" "n \<le> 2 ^ 63 - ChunkSize"
  shows "totalChunksOf n = \<lceil>real_of_int n / real_of_int ChunkSize\<rceil>"
  using assms by (simp add: totalChunksOf_div ceil_div ChunkSize_pos)

text \<open>The bounds that place the last chunk.\<close>

lemma totalChunksOf_bounds:
  assumes "0 < n" "n \<le> 2 ^ 63 - ChunkSize"
  shows "n \<le> totalChunksOf n * ChunkSize"
    and "(totalChunksOf n - 1) * ChunkSize < n"
    and "0 < totalChunksOf n"
proof -
  show a: "n \<le> totalChunksOf n * ChunkSize"
    using ceil_div_bounds(1)[OF ChunkSize_pos, of n] assms by (simp add: totalChunksOf_div)
  show "(totalChunksOf n - 1) * ChunkSize < n"
    using ceil_div_bounds(2)[OF ChunkSize_pos, of n] assms by (simp add: totalChunksOf_div)
  show "0 < totalChunksOf n"
  proof (rule ccontr)
    assume "\<not> 0 < totalChunksOf n"
    then have "totalChunksOf n * ChunkSize \<le> 0"
      using ChunkSize_pos by (simp add: mult_le_0_iff)
    with a assms(1) show False by simp
  qed
qed

lemma chunk_offset_in_range:
  assumes "0 < n" "n \<le> 2 ^ 63 - ChunkSize" "0 \<le> i" "i < totalChunksOf n"
  shows "is_int64 (i * ChunkSize)" and "i * ChunkSize < n"
proof -
  have "i * ChunkSize \<le> (totalChunksOf n - 1) * ChunkSize"
    using assms(4) ChunkSize_pos by (simp add: mult_right_mono)
  with totalChunksOf_bounds(2)[OF assms(1,2)] show lt: "i * ChunkSize < n" by simp
  have "0 \<le> i * ChunkSize" using assms(3) ChunkSize_pos by simp
  with lt assms(2) ChunkSize_pos show "is_int64 (i * ChunkSize)"
    by (simp add: is_int64_def)
qed

lemma initChunk_in_range:
  assumes "0 < n" "n \<le> 2 ^ 63 - ChunkSize" "0 \<le> i" "i < totalChunksOf n"
  shows "initChunk n (totalChunksOf n) i =
           \<lparr>ChunkIndex = i,
            ciSize = (if i = totalChunksOf n - 1 then n - (totalChunksOf n - 1) * ChunkSize
                      else ChunkSize),
            Hash = [], Completed = False, Offset = i * ChunkSize\<rparr>"
proof -
  note r = chunk_offset_in_range[OF assms]
  have "0 \<le> i * ChunkSize" using assms(3) ChunkSize_pos by simp
  then have "is_int64 (n - i * ChunkSize)"
    using r assms(1,2) ChunkSize_pos by (simp add: is_int64_def)
  then have w: "wrap64 (n - wrap64 (i * ChunkSize)) = n - i * ChunkSize"
    using r(1) by (simp add: wrap64_id)
  show ?thesis
  proof (cases "i = totalChunksOf n - 1")
    case True
    with w r(1) show ?thesis by (simp add: initChunk_def wrap64_id)
  next
    case False
    with r(1) show ?thesis by (simp add: initChunk_def wrap64_id)
  qed
qed

lemma map_of_initChunks:
  "map_of (initChunks n t) i = (if 0 \<le> i \<and> i < t then Some (initChunk n t i) else None)"
proof -
  have "map_of (map (\<lambda>k. (k, initChunk n t k)) xs) i = (if i \<in> set xs then Some (initChunk n t i) else None)" for xs
    by (induction xs) auto
  then show ?thesis by (auto simp: initChunks_def)
qed

lemma initChunks_keys: "map fst (initChunks n t) = [0..t - 1]"
  by (simp add: initChunks_def comp_def)

lemma initChunks_not_completed: "(k, c) \<in> set (initChunks n t) \<Longrightarrow> \<not> Completed c"
  by (auto simp: initChunks_def initChunk_def)

lemma last_chunk_size:
  assumes "0 < n" "n \<le> 2 ^ 63 - ChunkSize"
  defines "t \<equiv> totalChunksOf n"
  shows "0 < n - (t - 1) * ChunkSize" and "n - (t - 1) * ChunkSize \<le> ChunkSize"
    and "n - (t - 1) * ChunkSize < ChunkSize \<longleftrightarrow> n mod ChunkSize \<noteq> 0"
proof -
  note b = totalChunksOf_bounds[OF assms(1,2), folded t_def]
  show "0 < n - (t - 1) * ChunkSize" using b(2) by simp
  have e: "(t - 1) * ChunkSize = t * ChunkSize - ChunkSize" by (simp add: algebra_simps)
  show le: "n - (t - 1) * ChunkSize \<le> ChunkSize" using b(1) e by linarith
  show "n - (t - 1) * ChunkSize < ChunkSize \<longleftrightarrow> n mod ChunkSize \<noteq> 0"
  proof
    assume "n - (t - 1) * ChunkSize < ChunkSize"
    then have "n < t * ChunkSize" using e by linarith
    show "n mod ChunkSize \<noteq> 0"
    proof
      assume "n mod ChunkSize = 0"
      then have "ChunkSize dvd n" by (simp add: mod_eq_0_iff_dvd)
      then obtain q where q: "n = q * ChunkSize" by (auto simp: dvd_def mult.commute)
      with \<open>n < t * ChunkSize\<close> have "q < t" using ChunkSize_pos by simp
      moreover from b(2) q have "t - 1 < q" using ChunkSize_pos by simp
      ultimately show False by simp
    qed
  next
    assume nz: "n mod ChunkSize \<noteq> 0"
    show "n - (t - 1) * ChunkSize < ChunkSize"
    proof (rule ccontr)
      assume "\<not> n - (t - 1) * ChunkSize < ChunkSize"
      with le have "n = t * ChunkSize" using e by linarith
      then show False using nz by simp
    qed
  qed
qed

section \<open>Paths\<close>

lemma temp_path_neq_config_path: "tempFilePathOf s f \<noteq> configPathOf s f"
proof
  assume "tempFilePathOf s f = configPathOf s f"
  then have "length (tempFilePathOf s f) = length (configPathOf s f)" by simp
  then show False
    by (simp add: tempFilePathOf_def configPathOf_def Join_def TempDir_def ConfigDir_def)
qed

section \<open>The registry\<close>

lemma GetOrCreateSession_existing:
  "s sid = Some session \<Longrightarrow> GetOrCreateSession s sid = (session, s)"
  by (simp add: GetOrCreateSession_def)

lemma GetOrCreateSession_absent:
  "s sid = None \<Longrightarrow> GetOrCreateSession s sid = (newSession sid, s(sid \<mapsto> newSession sid))"
  by (simp add: GetOrCreateSession_def)

lemma GetOrCreateSession_lookup:
  "snd (GetOrCreateSession s sid) sid = Some (fst (GetOrCreateSession s sid))"
  by (simp add: GetOrCreateSession_def split: option.splits)

section \<open>startResumableUpload\<close>

lemma not_registered_lookup:
  "\<not> registered w sid name \<Longrightarrow>
     map_of (ReceivedFiles (fst (GetOrCreateSession (store w) sid))) name = None"
  by (auto simp: registered_def GetOrCreateSession_def newSession_def split: option.splits)

lemma TotalChunks_buildConfig [simp]:
  "TotalChunks (buildConfig now req) = totalChunksOf (reqFileSize req)"
  by (simp add: buildConfig_def)

lemma cfgTempFilePath_buildConfig [simp]:
  "cfgTempFilePath (buildConfig now req) = tempFilePathOf (reqSessionID req) (reqFileName req)"
  by (simp add: buildConfig_def)

lemma Chunks_buildConfig [simp]:
  "Chunks (buildConfig now req) = initChunks (reqFileSize req) (totalChunksOf (reqFileSize req))"
  by (simp add: buildConfig_def)

text \<open>What a start does when the file is not registered and every system call succeeds.\<close>

lemma start_fresh:
  assumes bind: "bindStartOK req"
    and nreg: "\<not> registered w (reqSessionID req) (reqFileName req)"
    and ok: "writeFile F = WriteFileOk" "\<not> createErr F" "\<not> truncateErr F"
    and pos: "0 < reqFileSize req" and t: "0 \<le> totalChunksOf (reqFileSize req)"
  shows "startResumableUpload E F now uploadID req w =
     ((200, StartBody \<lparr>UploadID = uploadID, rspChunkSize = ChunkSize,
              rspTotalChunks = totalChunksOf (reqFileSize req),
              MissingChunks = [0..totalChunksOf (reqFileSize req) - 1],
              ConfigPath = configPathOf (reqSessionID req) (reqFileName req)\<rparr>),
      \<lparr>store = snd (GetOrCreateSession (store w) (reqSessionID req)),
       disk = (disk w)
         (configPathOf (reqSessionID req) (reqFileName req) \<mapsto> ConfigJSON (buildConfig now req),
          tempFilePathOf (reqSessionID req) (reqFileName req) \<mapsto>
            Bytes (replicate (nat (reqFileSize req)) 0))\<rparr>)"
proof -
  obtain session st where g: "GetOrCreateSession (store w) (reqSessionID req) = (session, st)"
    by (cases "GetOrCreateSession (store w) (reqSessionID req)")
  have nr: "map_of (ReceivedFiles session) (reqFileName req) = None"
    using not_registered_lookup[OF nreg] g by simp
  show ?thesis
    using bind ok pos t
    by (simp add: startResumableUpload_def g nr saveResumableConfig_def Let_def)
qed

lemma start_registered:
  assumes "bindStartOK req"
    and "store w (reqSessionID req) = Some session"
    and "map_of (ReceivedFiles session) (reqFileName req) = Some existingFile"
  shows "startResumableUpload E F now uploadID req w =
           ((200, AlreadyCompleteBody (alreadyComplete req existingFile)), w)"
  using assms
  by (simp add: startResumableUpload_def GetOrCreateSession_existing Let_def)

section \<open>Properties of startResumableUpload\<close>

text \<open>
  C7 (as amended): when the file name is already in the session's \<open>ReceivedFiles\<close>, a
  start request that passes the binding of the request (\<open>sessionID\<close> and \<open>fileName\<close> not
  empty, \<open>fileSize\<close> not zero) is answered 200 with the synthetic body (\<open>completed = true\<close>,
  no missing chunks, the one chunk \<open>0\<close> marked completed, \<open>totalChunks = 1\<close>), and the
  world is returned as it was: no manifest is written and no file is created or
  truncated, whatever the system calls would have done.
\<close>

theorem start_already_received:
  assumes "bindStartOK req"
    and "store w (reqSessionID req) = Some session"
    and "map_of (ReceivedFiles session) (reqFileName req) = Some existingFile"
  shows "\<exists>r. startResumableUpload E F now uploadID req w = ((200, AlreadyCompleteBody r), w)
           \<and> acCompleted r \<and> acMissingChunks r = [] \<and> acChunks r = [(0, True)]
           \<and> acTotalChunks r = 1"
  using start_registered[OF assms] by (simp add: alreadyComplete_def)

theorem start_already_received_witness:
  "bindStartOK (startReq 3)
   \<and> store receivedWorld (reqSessionID (startReq 3)) = Some ((newSession ''s'')\<lparr>ReceivedFiles :=
                 [(''f'', \<lparr>Name = ''f'', Size = 3, TempFilePath = tempFilePathOf ''s'' ''f''\<rparr>)]\<rparr>)
   \<and> (\<exists>r. startResumableUpload toyCodec noFaults 7 ''u'' (startReq 3) receivedWorld
              = ((200, AlreadyCompleteBody r), receivedWorld)
           \<and> acCompleted r \<and> acMissingChunks r = [] \<and> acChunks r = [(0, True)]
           \<and> acTotalChunks r = 1)"
proof -
  have b: "bindStartOK (startReq 3)"
    by (simp add: bindStartOK_def startReq_def is_int64_def)
  have s: "store receivedWorld (reqSessionID (startReq 3)) = Some ((newSession ''s'')\<lparr>ReceivedFiles :=
                 [(''f'', \<lparr>Name = ''f'', Size = 3, TempFilePath = tempFilePathOf ''s'' ''f''\<rparr>)]\<rparr>)"
    by (simp add: receivedWorld_def startReq_def)
  have m: "map_of (ReceivedFiles ((newSession ''s'')\<lparr>ReceivedFiles :=
                 [(''f'', \<lparr>Name = ''f'', Size = 3, TempFilePath = tempFilePathOf ''s'' ''f''\<rparr>)]\<rparr>))
             (reqFileName (startReq 3)) = Some \<lparr>Name = ''f'', Size = 3, TempFilePath = tempFilePathOf ''s'' ''f''\<rparr>"
    by (simp add: startReq_def)
  show ?thesis
    using b s start_already_received[OF b s m, of toyCodec noFaults 7 "''u''"] by simp
qed

lemma registered_receivedWorld: "registered receivedWorld ''s'' ''f''"
  by (simp add: registered_def receivedWorld_def)

text \<open>
  The claim as stated, for every start call on a file in \<open>ReceivedFiles\<close>, fails for the
  request with \<open>fileSize = 0\<close>: \<open>ShouldBindJSON\<close> rejects the zero value of a required field
  before the look-up of the session, and the call is answered 400 with no synthetic body.
\<close>

theorem start_zero_size_counterexample:
  "registered receivedWorld ''s'' ''f''
   \<and> reqSessionID (startReq 0) = ''s'' \<and> reqFileName (startReq 0) = ''f''
   \<and> reqFileSize (startReq 0) = 0
   \<and> startResumableUpload toyCodec noFaults 7 ''u'' (startReq 0) receivedWorld
        = ((400, ErrorBody ErrBind), receivedWorld)"
  by (simp add: registered_receivedWorld startResumableUpload_def bindStartOK_def startReq_def)

lemma start_panics:
  assumes bind: "bindStartOK req"
    and nreg: "\<not> registered w (reqSessionID req) (reqFileName req)"
    and ok: "writeFile F = WriteFileOk" "\<not> createErr F" "\<not> truncateErr F"
    and pos: "0 < reqFileSize req" and t: "totalChunksOf (reqFileSize req) < 0"
  shows "startResumableUpload E F now uploadID req w =
     ((500, ErrorBody ErrPanic),
      \<lparr>store = snd (GetOrCreateSession (store w) (reqSessionID req)),
       disk = (disk w)
         (configPathOf (reqSessionID req) (reqFileName req) \<mapsto> ConfigJSON (buildConfig now req),
          tempFilePathOf (reqSessionID req) (reqFileName req) \<mapsto>
            Bytes (replicate (nat (reqFileSize req)) 0))\<rparr>)"

proof -
  obtain session st where g: "GetOrCreateSession (store w) (reqSessionID req) = (session, st)"
    by (cases "GetOrCreateSession (store w) (reqSessionID req)")
  have nr: "map_of (ReceivedFiles session) (reqFileName req) = None"
    using not_registered_lookup[OF nreg] g by simp
  show ?thesis
    using bind ok pos t
    by (simp add: startResumableUpload_def g nr saveResumableConfig_def Let_def)

qed

lemma ChunkSize_val: "ChunkSize = 5242880"
  by (simp add: ChunkSize_def)

lemma bindStartOK_startReq: "n \<noteq> 0 \<Longrightarrow> is_int64 n \<Longrightarrow> bindStartOK (startReq n)"
  by (simp add: bindStartOK_def startReq_def)

lemma not_registered_emptyWorld: "\<not> registered emptyWorld sid name"
  by (simp add: registered_def emptyWorld_def)

lemma startReq_simps [simp]:
  "reqSessionID (startReq n) = ''s''" "reqFileName (startReq n) = ''f''"
  "reqFileSize (startReq n) = n" "reqFileHash (startReq n) = []"
  by (simp_all add: startReq_def)

lemma noFaults_simps [simp]:
  "\<not> readFileErr noFaults" "writeFile noFaults = WriteFileOk" "\<not> createErr noFaults"
  "\<not> truncateErr noFaults" "\<not> formOpenErr noFaults" "\<not> formReadErr noFaults"
  "writeAt noFaults = WriteAtOk" "\<not> removeErr noFaults p" "\<not> hashOpenErr noFaults"
  "\<not> hashCopyErr noFaults" "\<not> readDirErr noFaults"
  by (simp_all add: noFaults_def)

text \<open>
  The layout of the manifest within the range of \<open>int64\<close>: for a start request that passes
  binding with \<open>0 < fileSize \<le> 2^63 - chunkSize\<close>, whose file is not yet registered and
  whose manifest is saved, the manifest on disk is the one start built: \<open>totalChunks\<close> is
  the ceiling of \<open>fileSize / chunkSize\<close>, the chunks are those of index
  \<open>0 .. totalChunks - 1\<close>, chunk \<open>i\<close> is not completed and has offset \<open>i * chunkSize\<close>, every
  chunk but the last has size \<open>chunkSize\<close>, and the last has size
  \<open>fileSize - (totalChunks - 1) * chunkSize\<close>, which is positive, at most \<open>chunkSize\<close>, and
  smaller than \<open>chunkSize\<close> exactly when \<open>fileSize\<close> is not a multiple of \<open>chunkSize\<close>.
\<close>

lemma start_manifest_layout:
  fixes now :: nat
  assumes bind: "bindStartOK req"
    and nreg: "\<not> registered w (reqSessionID req) (reqFileName req)"
    and save: "writeFile F = WriteFileOk"
    and pos: "0 < reqFileSize req" and bound: "reqFileSize req \<le> 2 ^ 63 - ChunkSize"
  defines "n \<equiv> reqFileSize req"
    and "t \<equiv> \<lceil>real_of_int (reqFileSize req) / real_of_int ChunkSize\<rceil>"
    and "config \<equiv> buildConfig now req"
  shows "disk (snd (startResumableUpload E F now uploadID req w))
             (configPathOf (reqSessionID req) (reqFileName req)) = Some (ConfigJSON config)
         \<and> TotalChunks config = t
         \<and> map fst (Chunks config) = [0..t - 1]
         \<and> (\<forall>i\<in>{0..t - 1}. map_of (Chunks config) i =
               Some \<lparr>ChunkIndex = i,
                     ciSize = (if i = t - 1 then n - (t - 1) * ChunkSize else ChunkSize),
                     Hash = [], Completed = False, Offset = i * ChunkSize\<rparr>)
         \<and> 0 < n - (t - 1) * ChunkSize \<and> n - (t - 1) * ChunkSize \<le> ChunkSize
         \<and> (n - (t - 1) * ChunkSize < ChunkSize \<longleftrightarrow> n mod ChunkSize \<noteq> 0)"

proof -
  have t: "t = totalChunksOf n"
    unfolding t_def n_def using pos bound by (simp add: totalChunksOf_ceiling)
  obtain session st where g: "GetOrCreateSession (store w) (reqSessionID req) = (session, st)"
    by (cases "GetOrCreateSession (store w) (reqSessionID req)")
  have nr: "map_of (ReceivedFiles session) (reqFileName req) = None"
    using not_registered_lookup[OF nreg] g by simp
  have tpos: "0 < totalChunksOf n"
    using totalChunksOf_bounds(3)[OF pos bound] by (simp add: n_def)
  have d: "disk (snd (startResumableUpload E F now uploadID req w))
             (configPathOf (reqSessionID req) (reqFileName req)) = Some (ConfigJSON config)"
    using bind save tpos temp_path_neq_config_path[of "reqSessionID req" "reqFileName req"]
    by (simp add: startResumableUpload_def g nr saveResumableConfig_def Let_def n_def config_def)
  have chunks: "\<forall>i\<in>{0..t - 1}. map_of (Chunks config) i =
                 Some \<lparr>ChunkIndex = i,
                       ciSize = (if i = t - 1 then n - (t - 1) * ChunkSize else ChunkSize),
                       Hash = [], Completed = False, Offset = i * ChunkSize\<rparr>"
  proof
    fix i assume "i \<in> {0..t - 1}"
    then have i: "0 \<le> i" "i < totalChunksOf n" by (simp_all add: t)
    show "map_of (Chunks config) i =
                 Some \<lparr>ChunkIndex = i,
                       ciSize = (if i = t - 1 then n - (t - 1) * ChunkSize else ChunkSize),
                       Hash = [], Completed = False, Offset = i * ChunkSize\<rparr>"
      using i initChunk_in_range[OF pos bound, of i]
      by (simp add: map_of_initChunks t n_def config_def)
  qed
  note l = last_chunk_size[OF pos bound]
  show ?thesis
    using d chunks l by (simp add: t n_def initChunks_keys config_def)

qed

lemma start_manifest_layout_example:
  "bindStartOK (startReq 12582912) \<and> \<not> registered emptyWorld ''s'' ''f'' 
   \<and> writeFile noFaults = WriteFileOk \<and> 0 < reqFileSize (startReq 12582912)
   \<and> reqFileSize (startReq 12582912) \<le> 2 ^ 63 - ChunkSize
   \<and> disk (snd (startResumableUpload toyCodec noFaults 0 ''u'' (startReq 12582912) emptyWorld))
           (configPathOf ''s'' ''f'') = Some (ConfigJSON (buildConfig 0 (startReq 12582912)))
   \<and> TotalChunks (buildConfig 0 (startReq 12582912)) = 3
   \<and> map fst (Chunks (buildConfig 0 (startReq 12582912))) = [0, 1, 2]
   \<and> map_of (Chunks (buildConfig 0 (startReq 12582912))) 0 =
        Some \<lparr>ChunkIndex = 0, ciSize = 5242880, Hash = [], Completed = False, Offset = 0\<rparr>
   \<and> map_of (Chunks (buildConfig 0 (startReq 12582912))) 1 =
        Some \<lparr>ChunkIndex = 1, ciSize = 5242880, Hash = [], Completed = False, Offset = 5242880\<rparr>
   \<and> map_of (Chunks (buildConfig 0 (startReq 12582912))) 2 =
        Some \<lparr>ChunkIndex = 2, ciSize = 2097152, Hash = [], Completed = False, Offset = 10485760\<rparr>"

proof -
  have b: "bindStartOK (startReq 12582912)"
    by (simp add: bindStartOK_startReq is_int64_def)
  have r: "\<not> registered emptyWorld (reqSessionID (startReq 12582912)) (reqFileName (startReq 12582912))"
    by (rule not_registered_emptyWorld)
  have s: "writeFile noFaults = WriteFileOk" by simp
  have p: "0 < reqFileSize (startReq 12582912)" by simp
  have u: "reqFileSize (startReq 12582912) \<le> 2 ^ 63 - ChunkSize"
    by (simp add: ChunkSize_val)
  have c: "\<lceil>real_of_int (reqFileSize (startReq 12582912)) / real_of_int ChunkSize\<rceil> = 3"
    by (simp add: ChunkSize_val ceiling_eq_iff)
  have l: "[0..2::int] = [0, 1, 2]" by (simp add: upto.simps)
  have e: "{0..2::int} = {0, 1, 2}" by auto
  note th = start_manifest_layout[OF b r s p u, of toyCodec 0 "''u''", unfolded c]
  show ?thesis
    using b p u th by (auto simp: not_registered_emptyWorld l e ChunkSize_val)

qed

text \<open>
  Beyond that range the sum \<open>fileSize + chunkSize - 1\<close> wraps around and the chunk count
  is negative, so every start that is answered 200 is within the range, and its manifest
  has the layout above.
\<close>

lemma totalChunksOf_wraps:
  assumes "2 ^ 63 - ChunkSize < n" "n < 2 ^ 63"
  shows "totalChunksOf n < 0"
proof -
  let ?x = "n + ChunkSize - 1"
  have r: "2 ^ 63 \<le> ?x" "?x < 2 ^ 63 + ChunkSize" using assms by simp_all
  have "(?x + 2 ^ 63) mod 2 ^ 64 = (?x - 2 ^ 63 + 2 ^ 64 * 1) mod 2 ^ 64"
    by (simp add: algebra_simps)
  also have "\<dots> = (?x - 2 ^ 63) mod 2 ^ 64"
    by (simp only: mod_mult_self2)
  also have "\<dots> = ?x - 2 ^ 63"
    using r by (intro mod_pos_pos_trivial) (simp_all add: ChunkSize_val)
  finally have w: "wrap64 ?x = ?x - 2 ^ 64"
    by (simp add: wrap64_def)
  have neg: "?x - 2 ^ 64 < 0" using r by (simp add: ChunkSize_val)
  have big: "ChunkSize \<le> \<bar>?x - 2 ^ 64\<bar>" using r by (simp add: ChunkSize_val)
  have "0 < \<bar>?x - 2 ^ 64\<bar> div ChunkSize"
    using big ChunkSize_pos by (simp only: pos_imp_zdiv_pos_iff)
  then show ?thesis
    using neg ChunkSize_pos by (simp add: totalChunksOf_def w tdiv_def del: abs_if)
qed

lemma start_200_in_range:
  assumes "fst (startResumableUpload E F now uploadID req w) = (200, StartBody r)"
  shows "0 < reqFileSize req \<and> reqFileSize req \<le> 2 ^ 63 - ChunkSize"
proof -
  from assms have b: "bindStartOK req" and nn: "\<not> reqFileSize req < 0"
    and t: "\<not> totalChunksOf (reqFileSize req) < 0"
    by (auto simp: startResumableUpload_def Let_def split: if_splits prod.splits option.splits)
  from b nn have "0 < reqFileSize req" "reqFileSize req < 2 ^ 63"
    by (auto simp: bindStartOK_def is_int64_def)
  with t totalChunksOf_wraps[of "reqFileSize req"] show ?thesis by force
qed

text \<open>
  C6: the claim says that for every \<open>fileSize > 0\<close> the manifest built by start has
  \<open>ceil(fileSize / chunkSize)\<close> chunks with the offsets and sizes of the layout. The
  program computes \<open>totalChunks\<close> as \<open>int((fileSize + ChunkSize - 1) / ChunkSize)\<close> in
  \<open>int64\<close>, the usual ceiling, without a guard for the sum. At \<open>fileSize = 2^63 - 1\<close>, which
  the binding accepts, the sum wraps around: the manifest that start saves has
  \<open>totalChunks = -1759218604440\<close> and no chunk, where the ceiling is \<open>1759218604442\<close>, and
  the call is answered 500 with that manifest left on disk, when the pre-sizing of the
  backing file succeeds (the panic of \<open>make\<close> with a negative capacity) and when it fails.
\<close>

theorem start_manifest_overflow:
  "bindStartOK (startReq (2 ^ 63 - 1)) \<and> 0 < reqFileSize (startReq (2 ^ 63 - 1))
   \<and> \<not> registered emptyWorld ''s'' ''f''
   \<and> fst (startResumableUpload toyCodec noFaults 0 ''u'' (startReq (2 ^ 63 - 1)) emptyWorld)
       = (500, ErrorBody ErrPanic)
   \<and> disk (snd (startResumableUpload toyCodec noFaults 0 ''u'' (startReq (2 ^ 63 - 1)) emptyWorld))
       (configPathOf ''s'' ''f'') = Some (ConfigJSON (buildConfig 0 (startReq (2 ^ 63 - 1))))
   \<and> fst (startResumableUpload toyCodec (noFaults\<lparr>truncateErr := True\<rparr>) 0 ''u''
            (startReq (2 ^ 63 - 1)) emptyWorld)
       = (500, ErrorBody ErrPrealloc)
   \<and> disk (snd (startResumableUpload toyCodec (noFaults\<lparr>truncateErr := True\<rparr>) 0 ''u''
            (startReq (2 ^ 63 - 1)) emptyWorld))
       (configPathOf ''s'' ''f'') = Some (ConfigJSON (buildConfig 0 (startReq (2 ^ 63 - 1))))
   \<and> TotalChunks (buildConfig 0 (startReq (2 ^ 63 - 1))) = - 1759218604440
   \<and> Chunks (buildConfig 0 (startReq (2 ^ 63 - 1))) = []
   \<and> \<lceil>real_of_int (reqFileSize (startReq (2 ^ 63 - 1))) / real_of_int ChunkSize\<rceil> = 1759218604442"
proof -
  have t: "totalChunksOf (2 ^ 63 - 1) = - 1759218604440"
    by (simp add: totalChunksOf_def wrap64_def tdiv_def ChunkSize_def)
  have b: "bindStartOK (startReq (2 ^ 63 - 1))"
    by (simp add: bindStartOK_startReq is_int64_def)
  have c: "\<lceil>real_of_int (reqFileSize (startReq (2 ^ 63 - 1))) / real_of_int ChunkSize\<rceil> = 1759218604442"
    by (simp add: ChunkSize_val ceiling_eq_iff)
  have cs: "Chunks (buildConfig 0 (startReq (2 ^ 63 - 1))) = []"
    using t by (simp add: initChunks_def)
  have tc: "TotalChunks (buildConfig 0 (startReq (2 ^ 63 - 1))) = - 1759218604440"
    using t by simp
  have run: "startResumableUpload toyCodec noFaults 0 ''u'' (startReq (2 ^ 63 - 1)) emptyWorld =
     ((500, ErrorBody ErrPanic),
      \<lparr>store = snd (GetOrCreateSession (store emptyWorld) ''s''),
       disk = (disk emptyWorld)
         (configPathOf ''s'' ''f'' \<mapsto> ConfigJSON (buildConfig 0 (startReq (2 ^ 63 - 1))),
          tempFilePathOf ''s'' ''f'' \<mapsto> Bytes (replicate (nat (2 ^ 63 - 1)) 0))\<rparr>)"
    using start_panics[OF b, of emptyWorld noFaults toyCodec 0 "''u''"] t
    by (simp add: not_registered_emptyWorld)
  have g: "GetOrCreateSession (store emptyWorld) ''s'' = (newSession ''s'', [''s'' \<mapsto> newSession ''s''])"
    by (simp add: GetOrCreateSession_def emptyWorld_def)
  have run2: "startResumableUpload toyCodec (noFaults\<lparr>truncateErr := True\<rparr>) 0 ''u''
            (startReq (2 ^ 63 - 1)) emptyWorld =
     ((500, ErrorBody ErrPrealloc),
      \<lparr>store = [''s'' \<mapsto> newSession ''s''],
       disk = (disk emptyWorld)
         (configPathOf ''s'' ''f'' \<mapsto> ConfigJSON (buildConfig 0 (startReq (2 ^ 63 - 1))),
          tempFilePathOf ''s'' ''f'' \<mapsto> Bytes [])\<rparr>)"
    using b
    by (simp add: startResumableUpload_def g newSession_def saveResumableConfig_def Let_def
          noFaults_def)
  show ?thesis
    unfolding run run2
    using b c cs tc temp_path_neq_config_path[of "''s''" "''f''"]
    by (simp add: not_registered_emptyWorld)
qed

section \<open>Properties: the branches of uploadChunk\<close>



lemma uploadChunk_size_mismatch:
  assumes "validForm form i chunkData"
    and "loadResumableConfig E (readFileErr F) (disk w)
           (configPathOf (fSessionID form) (fFileName form)) = Some config"
    and "map_of (Chunks config) i = Some chunkInfo" and "\<not> Completed chunkInfo"
    and "\<not> formOpenErr F" "\<not> formReadErr F"
    and "int (length chunkData) \<noteq> ciSize chunkInfo"
  shows "uploadChunk E F now form w = ((400, ErrorBody ErrSizeMismatch), w)"
  using assms by (simp add: uploadChunk_def validForm_def Let_def)

lemma uploadChunk_write_failed:
  assumes "validForm form i chunkData"
    and "loadResumableConfig E (readFileErr F) (disk w)
           (configPathOf (fSessionID form) (fFileName form)) = Some config"
    and "map_of (Chunks config) i = Some chunkInfo" and "\<not> Completed chunkInfo"
    and "\<not> formOpenErr F" "\<not> formReadErr F"
    and "int (length chunkData) = ciSize chunkInfo"
    and "writeChunkSafely E (writeAt F) (disk w) (cfgTempFilePath config) chunkData
           (Offset chunkInfo) = (True, d1)"
  shows "uploadChunk E F now form w = ((500, ErrorBody ErrWriteChunk), w\<lparr>disk := d1\<rparr>)"
  using assms by (simp add: uploadChunk_def validForm_def Let_def)

lemma uploadChunk_save_failed:
  assumes "validForm form i chunkData"
    and "loadResumableConfig E (readFileErr F) (disk w)
           (configPathOf (fSessionID form) (fFileName form)) = Some config"
    and "map_of (Chunks config) i = Some chunkInfo" and "\<not> Completed chunkInfo"
    and "\<not> formOpenErr F" "\<not> formReadErr F"
    and "int (length chunkData) = ciSize chunkInfo"
    and "writeChunkSafely E (writeAt F) (disk w) (cfgTempFilePath config) chunkData
           (Offset chunkInfo) = (False, d1)"
    and "saveResumableConfig E (writeFile F) d1 (configPathOf (fSessionID form) (fFileName form))
           (markCompleted E now i chunkInfo chunkData config) = (True, d2)"
  shows "uploadChunk E F now form w = ((500, ErrorBody ErrSaveConfig), w\<lparr>disk := d2\<rparr>)"
  using assms by (simp add: uploadChunk_def validForm_def Let_def)

lemma uploadChunk_saved:
  assumes "validForm form i chunkData"
    and "loadResumableConfig E (readFileErr F) (disk w)
           (configPathOf (fSessionID form) (fFileName form)) = Some config"
    and "map_of (Chunks config) i = Some chunkInfo" and "\<not> Completed chunkInfo"
    and "\<not> formOpenErr F" "\<not> formReadErr F"
    and "int (length chunkData) = ciSize chunkInfo"
    and "writeChunkSafely E (writeAt F) (disk w) (cfgTempFilePath config) chunkData
           (Offset chunkInfo) = (False, d1)"
    and "saveResumableConfig E (writeFile F) d1 (configPathOf (fSessionID form) (fFileName form))
           (markCompleted E now i chunkInfo chunkData config) = (False, d2)"
  defines "config' \<equiv> markCompleted E now i chunkInfo chunkData config"
  shows "uploadChunk E F now form w =
     (if list_all (\<lambda>(k, chunk). Completed chunk) (Chunks config')
      then ((200, ChunkBody \<lparr>rChunkIndex = i, rCompleted = True,
                             rProgress = calculateProgress config'\<rparr>),
            \<lparr>store = (snd (GetOrCreateSession (store w) (fSessionID form)))
                (fSessionID form \<mapsto> broadcastMessage
                    (uploadDoneFrame now (fSessionID form) config' (fFileName form))
                    (registerFile (fFileName form) config'
                       (fst (GetOrCreateSession (store w) (fSessionID form))))),
             disk = removeFile F d2 (configPathOf (fSessionID form) (fFileName form))\<rparr>)
      else ((200, ChunkBody \<lparr>rChunkIndex = i, rCompleted = False,
                             rProgress = calculateProgress config'\<rparr>), w\<lparr>disk := d2\<rparr>))"
  using assms(1-9)
  by (simp add: uploadChunk_def validForm_def Let_def config'_def split: prod.splits)

lemma totalChunksOf_5242881: "totalChunksOf 5242881 = 2"
  by (simp add: totalChunksOf_def wrap64_def tdiv_def ChunkSize_def)

lemma initChunks_two:
  "initChunks 5242881 2 =
     [(0, \<lparr>ChunkIndex = 0, ciSize = 5242880, Hash = [], Completed = False, Offset = 0\<rparr>),
      (1, \<lparr>ChunkIndex = 1, ciSize = 1, Hash = [], Completed = False, Offset = 5242880\<rparr>)]"
  by (simp add: initChunks_def initChunk_def upto.simps wrap64_def ChunkSize_def)

lemma Chunks_openConfig:
  "Chunks openConfig =
     [(0, \<lparr>ChunkIndex = 0, ciSize = 5242880, Hash = [], Completed = False, Offset = 0\<rparr>),
      (1, \<lparr>ChunkIndex = 1, ciSize = 1, Hash = replicate 32 (CHR ''0''), Completed = True, Offset = 5242880\<rparr>)]"
  by (simp add: openConfig_def markCompleted_def totalChunksOf_5242881 initChunks_two toyCodec_def)

lemma first_start:
  "startResumableUpload toyCodec noFaults 0 ''u'' (startReq 5242881) emptyWorld =
     ((200, StartBody \<lparr>UploadID = ''u'', rspChunkSize = ChunkSize, rspTotalChunks = 2,
              MissingChunks = [0, 1], ConfigPath = configPathOf ''s'' ''f''\<rparr>),
      \<lparr>store = [''s'' \<mapsto> newSession ''s''],
       disk = [configPathOf ''s'' ''f'' \<mapsto> ConfigJSON (buildConfig 0 (startReq 5242881)),
               tempFilePathOf ''s'' ''f'' \<mapsto> Bytes (replicate 5242881 0)]\<rparr>)"

proof -
  have b: "bindStartOK (startReq 5242881)"
    by (simp add: bindStartOK_startReq is_int64_def)
  have l: "[0..1::int] = [0, 1]" by (simp add: upto.simps)
  have r: "\<not> registered emptyWorld (reqSessionID (startReq 5242881)) (reqFileName (startReq 5242881))"
    by (rule not_registered_emptyWorld)
  have "startResumableUpload toyCodec noFaults 0 ''u'' (startReq 5242881) emptyWorld =
     ((200, StartBody \<lparr>UploadID = ''u'', rspChunkSize = ChunkSize,
              rspTotalChunks = totalChunksOf (reqFileSize (startReq 5242881)),
              MissingChunks = [0..totalChunksOf (reqFileSize (startReq 5242881)) - 1],
              ConfigPath = configPathOf (reqSessionID (startReq 5242881)) (reqFileName (startReq 5242881))\<rparr>),
      \<lparr>store = snd (GetOrCreateSession (store emptyWorld) (reqSessionID (startReq 5242881))),
       disk = (disk emptyWorld)
         (configPathOf (reqSessionID (startReq 5242881)) (reqFileName (startReq 5242881)) \<mapsto>
            ConfigJSON (buildConfig 0 (startReq 5242881)),
          tempFilePathOf (reqSessionID (startReq 5242881)) (reqFileName (startReq 5242881)) \<mapsto>
            Bytes (replicate (nat (reqFileSize (startReq 5242881))) 0))\<rparr>)"
    by (rule start_fresh[OF b r]) (simp_all add: totalChunksOf_5242881)
  then show ?thesis
    by (simp add: totalChunksOf_5242881 l emptyWorld_def GetOrCreateSession_def)

qed

lemma openWorld_eq:
  "openWorld = \<lparr>store = [''s'' \<mapsto> newSession ''s''],
                disk = [configPathOf ''s'' ''f'' \<mapsto> ConfigJSON openConfig,
                        tempFilePathOf ''s'' ''f'' \<mapsto> Bytes (replicate 5242880 0 @ [7])]\<rparr>"

proof -
  let ?w1 = "\<lparr>store = [''s'' \<mapsto> newSession ''s''],
       disk = [configPathOf ''s'' ''f'' \<mapsto> ConfigJSON (buildConfig 0 (startReq 5242881)),
               tempFilePathOf ''s'' ''f'' \<mapsto> Bytes (replicate 5242881 0)]\<rparr>"
  let ?ci = "\<lparr>ChunkIndex = 1, ciSize = 1, Hash = [], Completed = False, Offset = 5242880\<rparr>"
  have v: "validForm lastChunkForm 1 [7]"
    by (simp add: validForm_def lastChunkForm_def)
  have ne: "tempFilePathOf ''s'' ''f'' \<noteq> configPathOf ''s'' ''f''"
    by (rule temp_path_neq_config_path)
  have ld: "loadResumableConfig toyCodec (readFileErr noFaults) (disk ?w1)
              (configPathOf (fSessionID lastChunkForm) (fFileName lastChunkForm))
            = Some (buildConfig 0 (startReq 5242881))"
    using ne by (simp add: loadResumableConfig_def lastChunkForm_def)
  have m: "map_of (Chunks (buildConfig 0 (startReq 5242881))) 1 = Some ?ci"
    by (simp add: totalChunksOf_5242881 initChunks_two)
  have wr: "writeChunkSafely toyCodec (writeAt noFaults) (disk ?w1)
              (cfgTempFilePath (buildConfig 0 (startReq 5242881))) [7] (Offset ?ci)
            = (False, (disk ?w1)(tempFilePathOf ''s'' ''f'' \<mapsto> Bytes (replicate 5242880 0 @ [7])))"
    by (simp add: writeChunkSafely_def writeBytesAt_def pwrite_def bytesOf_def)
  have sv: "saveResumableConfig toyCodec (writeFile noFaults)
              ((disk ?w1)(tempFilePathOf ''s'' ''f'' \<mapsto> Bytes (replicate 5242880 0 @ [7])))
              (configPathOf (fSessionID lastChunkForm) (fFileName lastChunkForm))
              (markCompleted toyCodec 1 1 ?ci [7] (buildConfig 0 (startReq 5242881)))
            = (False, [configPathOf ''s'' ''f'' \<mapsto> ConfigJSON openConfig,
                        tempFilePathOf ''s'' ''f'' \<mapsto> Bytes (replicate 5242880 0 @ [7])])"
    using ne by (auto simp: saveResumableConfig_def lastChunkForm_def openConfig_def)
  have nall: "\<not> list_all (\<lambda>(k, chunk). Completed chunk) (Chunks openConfig)"
    by (simp add: Chunks_openConfig)
  show ?thesis
    unfolding openWorld_def first_start snd_conv
    using uploadChunk_saved[OF v ld m _ _ _ _ wr sv] nall
    by (simp add: openConfig_def)

qed

text \<open>
  C3 (as amended): start does not compare \<open>fileSize\<close> with \<open>MaxFileSize\<close>. Every request
  that passes binding with \<open>0 < fileSize \<le> 2^63 - chunkSize\<close> (exactly 100 GiB, and every
  larger size in that range) is answered 200 with every chunk listed as missing, and the
  manifest and the backing file of \<open>fileSize\<close> zero bytes are created, when the file is
  not registered and the system calls succeed.
\<close>

theorem start_no_size_limit:
  assumes bind: "bindStartOK req"
    and nreg: "\<not> registered w (reqSessionID req) (reqFileName req)"
    and ok: "writeFile F = WriteFileOk" "\<not> createErr F" "\<not> truncateErr F"
    and pos: "0 < reqFileSize req" and bound: "reqFileSize req \<le> 2 ^ 63 - ChunkSize"
  shows "fst (startResumableUpload E F now uploadID req w) =
           (200, StartBody \<lparr>UploadID = uploadID, rspChunkSize = ChunkSize,
                   rspTotalChunks = totalChunksOf (reqFileSize req),
                   MissingChunks = [0..totalChunksOf (reqFileSize req) - 1],
                   ConfigPath = configPathOf (reqSessionID req) (reqFileName req)\<rparr>)
         \<and> disk (snd (startResumableUpload E F now uploadID req w))
              (configPathOf (reqSessionID req) (reqFileName req))
             = Some (ConfigJSON (buildConfig now req))
         \<and> disk (snd (startResumableUpload E F now uploadID req w))
              (tempFilePathOf (reqSessionID req) (reqFileName req))
             = Some (Bytes (replicate (nat (reqFileSize req)) 0))"

proof -
  have t: "0 \<le> totalChunksOf (reqFileSize req)"
    using totalChunksOf_bounds(3)[OF pos bound] by simp
  show ?thesis
    using temp_path_neq_config_path[of "reqSessionID req" "reqFileName req"]
    by (simp add: start_fresh[OF bind nreg ok pos t])

qed

lemma MaxFileSize_val: "MaxFileSize = 107374182400"
  by (simp add: MaxFileSize_def)

theorem start_no_size_limit_witness:
  "bindStartOK (startReq MaxFileSize) \<and> \<not> registered emptyWorld ''s'' ''f''
   \<and> writeFile noFaults = WriteFileOk \<and> \<not> createErr noFaults \<and> \<not> truncateErr noFaults
   \<and> 0 < reqFileSize (startReq MaxFileSize) \<and> reqFileSize (startReq MaxFileSize) \<le> 2 ^ 63 - ChunkSize
   \<and> fst (startResumableUpload toyCodec noFaults 0 ''u'' (startReq MaxFileSize) emptyWorld) =
           (200, StartBody \<lparr>UploadID = ''u'', rspChunkSize = ChunkSize,
                   rspTotalChunks = 20480, MissingChunks = [0..20479],
                   ConfigPath = configPathOf ''s'' ''f''\<rparr>)
   \<and> disk (snd (startResumableUpload toyCodec noFaults 0 ''u'' (startReq MaxFileSize) emptyWorld))
        (configPathOf ''s'' ''f'') = Some (ConfigJSON (buildConfig 0 (startReq MaxFileSize)))
   \<and> disk (snd (startResumableUpload toyCodec noFaults 0 ''u'' (startReq MaxFileSize) emptyWorld))
        (tempFilePathOf ''s'' ''f'') = Some (Bytes (replicate (nat MaxFileSize) 0))"

proof -
  have b: "bindStartOK (startReq MaxFileSize)"
    by (simp add: bindStartOK_startReq is_int64_def MaxFileSize_val)
  have r: "\<not> registered emptyWorld (reqSessionID (startReq MaxFileSize)) (reqFileName (startReq MaxFileSize))"
    by (rule not_registered_emptyWorld)
  have p: "0 < reqFileSize (startReq MaxFileSize)" by (simp add: MaxFileSize_val)
  have u: "reqFileSize (startReq MaxFileSize) \<le> 2 ^ 63 - ChunkSize"
    by (simp add: ChunkSize_val MaxFileSize_val)
  have t: "totalChunksOf MaxFileSize = 20480"
    by (simp add: totalChunksOf_def wrap64_def tdiv_def ChunkSize_def MaxFileSize_def)
  have k: "[0..20480 - 1] = [0..20479::int]" by (simp only: diff_numeral_special arith_simps)
  note th = start_no_size_limit[OF b r _ _ _ p u, of noFaults toyCodec 0 "''u''"]
  show ?thesis
    using b p u th by (simp add: not_registered_emptyWorld t del: upto_rec_numeral)

qed

text \<open>
  The claim as stated fails at \<open>fileSize = 100 GiB + 1\<close>: the request is answered 200 and
  the manifest (20481 chunks) and the backing file are created.
\<close>

theorem start_no_size_limit_counterexample:
  "bindStartOK (startReq (MaxFileSize + 1)) \<and> \<not> registered emptyWorld ''s'' ''f''
   \<and> MaxFileSize < reqFileSize (startReq (MaxFileSize + 1))
   \<and> fst (fst (startResumableUpload toyCodec noFaults 0 ''u'' (startReq (MaxFileSize + 1)) emptyWorld)) = 200
   \<and> disk (snd (startResumableUpload toyCodec noFaults 0 ''u'' (startReq (MaxFileSize + 1)) emptyWorld))
        (configPathOf ''s'' ''f'') = Some (ConfigJSON (buildConfig 0 (startReq (MaxFileSize + 1))))
   \<and> TotalChunks (buildConfig 0 (startReq (MaxFileSize + 1))) = 20481
   \<and> disk (snd (startResumableUpload toyCodec noFaults 0 ''u'' (startReq (MaxFileSize + 1)) emptyWorld))
        (tempFilePathOf ''s'' ''f'') = Some (Bytes (replicate (nat (MaxFileSize + 1)) 0))"

proof -
  have b: "bindStartOK (startReq (MaxFileSize + 1))"
    by (simp add: bindStartOK_startReq is_int64_def MaxFileSize_val)
  have r: "\<not> registered emptyWorld (reqSessionID (startReq (MaxFileSize + 1)))
             (reqFileName (startReq (MaxFileSize + 1)))"
    by (rule not_registered_emptyWorld)
  have t: "totalChunksOf (MaxFileSize + 1) = 20481"
    by (simp add: totalChunksOf_def wrap64_def tdiv_def ChunkSize_def MaxFileSize_def)
  have run: "startResumableUpload toyCodec noFaults 0 ''u'' (startReq (MaxFileSize + 1)) emptyWorld =
     ((200, StartBody \<lparr>UploadID = ''u'', rspChunkSize = ChunkSize,
              rspTotalChunks = totalChunksOf (reqFileSize (startReq (MaxFileSize + 1))),
              MissingChunks = [0..totalChunksOf (reqFileSize (startReq (MaxFileSize + 1))) - 1],
              ConfigPath = configPathOf (reqSessionID (startReq (MaxFileSize + 1))) (reqFileName (startReq (MaxFileSize + 1)))\<rparr>),
      \<lparr>store = snd (GetOrCreateSession (store emptyWorld) (reqSessionID (startReq (MaxFileSize + 1)))),
       disk = (disk emptyWorld)
         (configPathOf (reqSessionID (startReq (MaxFileSize + 1))) (reqFileName (startReq (MaxFileSize + 1))) \<mapsto>
            ConfigJSON (buildConfig 0 (startReq (MaxFileSize + 1))),
          tempFilePathOf (reqSessionID (startReq (MaxFileSize + 1))) (reqFileName (startReq (MaxFileSize + 1))) \<mapsto>
            Bytes (replicate (nat (reqFileSize (startReq (MaxFileSize + 1)))) 0))\<rparr>)"
    by (rule start_fresh[OF b r]) (simp_all add: t, simp add: MaxFileSize_val)
  show ?thesis
    unfolding run
    using b t temp_path_neq_config_path[of "''s''" "''f''"]
    by (simp add: not_registered_emptyWorld)

qed

text \<open>
  C2 (as amended): a start for a file that is not registered does not read the manifest
  or the backing file that an earlier start and earlier chunks left: its result is the
  result of the same start in the world without them. The response lists every chunk as
  missing, the manifest on disk is the fresh one in which no chunk is completed, and the
  backing file is \<open>fileSize\<close> zero bytes.
\<close>

theorem start_ignores_open_upload:
  assumes bind: "bindStartOK req"
    and nreg: "\<not> registered w (reqSessionID req) (reqFileName req)"
    and ok: "writeFile F = WriteFileOk" "\<not> createErr F" "\<not> truncateErr F"
    and pos: "0 < reqFileSize req" and bound: "reqFileSize req \<le> 2 ^ 63 - ChunkSize"
  shows "startResumableUpload E F now uploadID req w =
           startResumableUpload E F now uploadID req
             (forgetUpload (reqSessionID req) (reqFileName req) w)
         \<and> fst (startResumableUpload E F now uploadID req w) =
             (200, StartBody \<lparr>UploadID = uploadID, rspChunkSize = ChunkSize,
                   rspTotalChunks = totalChunksOf (reqFileSize req),
                   MissingChunks = [0..totalChunksOf (reqFileSize req) - 1],
                   ConfigPath = configPathOf (reqSessionID req) (reqFileName req)\<rparr>)
         \<and> loadResumableConfig E False (disk (snd (startResumableUpload E F now uploadID req w)))
              (configPathOf (reqSessionID req) (reqFileName req)) = Some (buildConfig now req)
         \<and> list_all (\<lambda>(k, chunk). \<not> Completed chunk) (Chunks (buildConfig now req))
         \<and> disk (snd (startResumableUpload E F now uploadID req w))
              (tempFilePathOf (reqSessionID req) (reqFileName req))
             = Some (Bytes (replicate (nat (reqFileSize req)) 0))"

proof -
  have t: "0 \<le> totalChunksOf (reqFileSize req)"
    using totalChunksOf_bounds(3)[OF pos bound] by simp
  have nreg': "\<not> registered (forgetUpload (reqSessionID req) (reqFileName req) w)
                  (reqSessionID req) (reqFileName req)"
    using nreg by (simp add: registered_def forgetUpload_def)
  have same: "startResumableUpload E F now uploadID req w =
           startResumableUpload E F now uploadID req
             (forgetUpload (reqSessionID req) (reqFileName req) w)"
    unfolding start_fresh[OF bind nreg ok pos t] start_fresh[OF bind nreg' ok pos t]
    by (auto simp: forgetUpload_def fun_eq_iff)
  have fresh: "list_all (\<lambda>(k, chunk). \<not> Completed chunk) (Chunks (buildConfig now req))"
    by (auto simp: list_all_iff dest: initChunks_not_completed)
  note res = start_fresh[OF bind nreg ok pos t, of E now uploadID]
  have rest: "fst (startResumableUpload E F now uploadID req w) =
             (200, StartBody \<lparr>UploadID = uploadID, rspChunkSize = ChunkSize,
                   rspTotalChunks = totalChunksOf (reqFileSize req),
                   MissingChunks = [0..totalChunksOf (reqFileSize req) - 1],
                   ConfigPath = configPathOf (reqSessionID req) (reqFileName req)\<rparr>)
         \<and> loadResumableConfig E False (disk (snd (startResumableUpload E F now uploadID req w)))
              (configPathOf (reqSessionID req) (reqFileName req)) = Some (buildConfig now req)
         \<and> disk (snd (startResumableUpload E F now uploadID req w))
              (tempFilePathOf (reqSessionID req) (reqFileName req))
             = Some (Bytes (replicate (nat (reqFileSize req)) 0))"
    unfolding res
    using temp_path_neq_config_path[of "reqSessionID req" "reqFileName req"]
    by (simp add: loadResumableConfig_def)
  from same fresh rest show ?thesis by blast

qed

lemma store_openWorld: "store openWorld = [''s'' \<mapsto> newSession ''s'']"
  by (simp add: openWorld_eq)

lemma not_registered_openWorld: "\<not> registered openWorld ''s'' ''f''"
  by (simp add: registered_def store_openWorld newSession_def)

lemma manifest_openWorld:
  "loadResumableConfig toyCodec False (disk openWorld) (configPathOf ''s'' ''f'') = Some openConfig"
  using temp_path_neq_config_path[of "''s''" "''f''"]
  by (simp add: openWorld_eq loadResumableConfig_def)

lemma backing_openWorld:
  "disk openWorld (tempFilePathOf ''s'' ''f'') = Some (Bytes (replicate 5242880 0 @ [7]))"
  by (simp add: openWorld_eq)

lemma bind_5242881: "bindStartOK (startReq 5242881)"
  by (simp add: bindStartOK_startReq is_int64_def)

theorem start_ignores_open_upload_witness:
  "bindStartOK (startReq 5242881) \<and> \<not> registered openWorld ''s'' ''f''
   \<and> writeFile noFaults = WriteFileOk \<and> \<not> createErr noFaults \<and> \<not> truncateErr noFaults
   \<and> 0 < reqFileSize (startReq 5242881) \<and> reqFileSize (startReq 5242881) \<le> 2 ^ 63 - ChunkSize
   \<and> startResumableUpload toyCodec noFaults 2 ''v'' (startReq 5242881) openWorld =
       startResumableUpload toyCodec noFaults 2 ''v'' (startReq 5242881) (forgetUpload ''s'' ''f'' openWorld)
   \<and> fst (startResumableUpload toyCodec noFaults 2 ''v'' (startReq 5242881) openWorld) =
       (200, StartBody \<lparr>UploadID = ''v'', rspChunkSize = ChunkSize, rspTotalChunks = 2,
               MissingChunks = [0, 1], ConfigPath = configPathOf ''s'' ''f''\<rparr>)
   \<and> loadResumableConfig toyCodec False
        (disk (snd (startResumableUpload toyCodec noFaults 2 ''v'' (startReq 5242881) openWorld)))
        (configPathOf ''s'' ''f'') = Some (buildConfig 2 (startReq 5242881))
   \<and> list_all (\<lambda>(k, chunk). \<not> Completed chunk) (Chunks (buildConfig 2 (startReq 5242881)))
   \<and> disk (snd (startResumableUpload toyCodec noFaults 2 ''v'' (startReq 5242881) openWorld))
        (tempFilePathOf ''s'' ''f'') = Some (Bytes (replicate 5242881 0))"

proof -
  have r: "\<not> registered openWorld (reqSessionID (startReq 5242881)) (reqFileName (startReq 5242881))"
    by (simp add: not_registered_openWorld)
  have p: "0 < reqFileSize (startReq 5242881)" by simp
  have u: "reqFileSize (startReq 5242881) \<le> 2 ^ 63 - ChunkSize" by (simp add: ChunkSize_val)
  have l: "[0..1::int] = [0, 1]" by (simp add: upto.simps)
  note th = start_ignores_open_upload[OF bind_5242881 r _ _ _ p u, of noFaults toyCodec 2 "''v''"]
  show ?thesis
    using bind_5242881 th
    by (auto simp: not_registered_openWorld ChunkSize_val totalChunksOf_5242881 l)

qed

text \<open>
  The counterexample: the upload of \<open>openWorld\<close> is OPEN with chunk 1 recorded as completed
  and its byte in the backing file; a second start lists both chunks as missing, resets
  the flag and zeroes the file.

\<close>

theorem start_twice_counterexample:
  "loadResumableConfig toyCodec False (disk openWorld) (configPathOf ''s'' ''f'') = Some openConfig
   \<and> chunkDone openConfig 1 \<and> \<not> chunkDone openConfig 0
   \<and> filter (\<lambda>i. \<not> chunkDone openConfig i) [0..TotalChunks openConfig - 1] = [0]
   \<and> disk openWorld (tempFilePathOf ''s'' ''f'') = Some (Bytes (replicate 5242880 0 @ [7]))
   \<and> fst (startResumableUpload toyCodec noFaults 2 ''v'' (startReq 5242881) openWorld) =
       (200, StartBody \<lparr>UploadID = ''v'', rspChunkSize = ChunkSize, rspTotalChunks = 2,
               MissingChunks = [0, 1], ConfigPath = configPathOf ''s'' ''f''\<rparr>)
   \<and> loadResumableConfig toyCodec False
        (disk (snd (startResumableUpload toyCodec noFaults 2 ''v'' (startReq 5242881) openWorld)))
        (configPathOf ''s'' ''f'') = Some (buildConfig 2 (startReq 5242881))
   \<and> \<not> chunkDone (buildConfig 2 (startReq 5242881)) 1
   \<and> disk (snd (startResumableUpload toyCodec noFaults 2 ''v'' (startReq 5242881) openWorld))
        (tempFilePathOf ''s'' ''f'') = Some (Bytes (replicate 5242881 0))
   \<and> replicate 5242881 (0::byte) \<noteq> replicate 5242880 0 @ [7]"

proof -
  have r: "\<not> registered openWorld (reqSessionID (startReq 5242881)) (reqFileName (startReq 5242881))"
    by (simp add: not_registered_openWorld)
  have l: "[0..1::int] = [0, 1]" by (simp add: upto.simps)
  have run: "startResumableUpload toyCodec noFaults 2 ''v'' (startReq 5242881) openWorld =
     ((200, StartBody \<lparr>UploadID = ''v'', rspChunkSize = ChunkSize,
              rspTotalChunks = totalChunksOf (reqFileSize (startReq 5242881)),
              MissingChunks = [0..totalChunksOf (reqFileSize (startReq 5242881)) - 1],
              ConfigPath = configPathOf (reqSessionID (startReq 5242881)) (reqFileName (startReq 5242881))\<rparr>),
      \<lparr>store = snd (GetOrCreateSession (store openWorld) (reqSessionID (startReq 5242881))),
       disk = (disk openWorld)
         (configPathOf (reqSessionID (startReq 5242881)) (reqFileName (startReq 5242881)) \<mapsto>
            ConfigJSON (buildConfig 2 (startReq 5242881)),
          tempFilePathOf (reqSessionID (startReq 5242881)) (reqFileName (startReq 5242881)) \<mapsto>
            Bytes (replicate (nat (reqFileSize (startReq 5242881))) 0))\<rparr>)"
    by (rule start_fresh[OF bind_5242881 r]) (simp_all add: totalChunksOf_5242881)
  have tc: "TotalChunks openConfig = 2"
    by (simp add: openConfig_def markCompleted_def totalChunksOf_5242881)
  have d1: "chunkDone openConfig 1" and d0: "\<not> chunkDone openConfig 0"
    by (simp_all add: chunkDone_def Chunks_openConfig)
  have nd: "\<not> chunkDone (buildConfig 2 (startReq 5242881)) 1"
    by (simp add: chunkDone_def totalChunksOf_5242881 initChunks_two)
  have ne: "replicate 5242881 (0::byte) \<noteq> replicate 5242880 0 @ [7]"
  proof
    assume "replicate 5242881 (0::byte) = replicate 5242880 0 @ [7]"
    then have "last (replicate 5242881 (0::byte)) = last (replicate 5242880 0 @ [7])" by simp
    then show False by simp
  qed
  show ?thesis
    unfolding run
    using manifest_openWorld backing_openWorld d1 d0 nd ne
      temp_path_neq_config_path[of "''s''" "''f''"]
    by (simp add: tc l totalChunksOf_5242881 loadResumableConfig_def)

qed

section \<open>Properties of uploadChunk and completeUpload\<close>

lemma fields_buildConfig [simp]:
  "FileSize (buildConfig now req) = reqFileSize req"
  "FileName (buildConfig now req) = reqFileName req"
  "FileHash (buildConfig now req) = reqFileHash req"
  by (simp_all add: buildConfig_def)

lemma totalChunksOf_3: "totalChunksOf 3 = 1"
  by (simp add: totalChunksOf_def wrap64_def tdiv_def ChunkSize_def)

lemma initChunks_one:
  "initChunks 3 1 = [(0, \<lparr>ChunkIndex = 0, ciSize = 3, Hash = [], Completed = False, Offset = 0\<rparr>)]"
  by (simp add: initChunks_def initChunk_def wrap64_def ChunkSize_def)

lemma Chunks_doneConfig:
  "Chunks doneConfig =
     [(0, \<lparr>ChunkIndex = 0, ciSize = 3, Hash = replicate 32 (CHR ''0''), Completed = True, Offset = 0\<rparr>)]"
  by (simp add: doneConfig_def markCompleted_def totalChunksOf_3 initChunks_one toyCodec_def)

lemma startedWorld_eq:
  "startedWorld = \<lparr>store = [''s'' \<mapsto> newSession ''s''],
       disk = [configPathOf ''s'' ''f'' \<mapsto> ConfigJSON (buildConfig 0 (startReq 3)),
               tempFilePathOf ''s'' ''f'' \<mapsto> Bytes (replicate 3 0)]\<rparr>"

proof -
  have b: "bindStartOK (startReq 3)"
    by (simp add: bindStartOK_startReq is_int64_def)
  have r: "\<not> registered emptyWorld (reqSessionID (startReq 3)) (reqFileName (startReq 3))"
    by (rule not_registered_emptyWorld)
  have "startResumableUpload toyCodec noFaults 0 ''u'' (startReq 3) emptyWorld =
     ((200, StartBody \<lparr>UploadID = ''u'', rspChunkSize = ChunkSize,
              rspTotalChunks = totalChunksOf (reqFileSize (startReq 3)),
              MissingChunks = [0..totalChunksOf (reqFileSize (startReq 3)) - 1],
              ConfigPath = configPathOf (reqSessionID (startReq 3)) (reqFileName (startReq 3))\<rparr>),
      \<lparr>store = snd (GetOrCreateSession (store emptyWorld) (reqSessionID (startReq 3))),
       disk = (disk emptyWorld)
         (configPathOf (reqSessionID (startReq 3)) (reqFileName (startReq 3)) \<mapsto>
            ConfigJSON (buildConfig 0 (startReq 3)),
          tempFilePathOf (reqSessionID (startReq 3)) (reqFileName (startReq 3)) \<mapsto>
            Bytes (replicate (nat (reqFileSize (startReq 3))) 0))\<rparr>)"
    by (rule start_fresh[OF b r]) (simp_all add: totalChunksOf_3)
  then show ?thesis
    by (simp add: startedWorld_def emptyWorld_def GetOrCreateSession_def)

qed

lemma first_chunk_completes:
  "uploadChunk toyCodec noFaults 1 onlyChunkForm startedWorld =
     ((200, ChunkBody \<lparr>rChunkIndex = 0, rCompleted = True, rProgress = 100\<rparr>),
      \<lparr>store = [''s'' \<mapsto> receivedSession],
       disk = [tempFilePathOf ''s'' ''f'' \<mapsto> Bytes [1, 2, 3]]\<rparr>)"

proof -
  let ?ci = "\<lparr>ChunkIndex = 0, ciSize = 3, Hash = [], Completed = False, Offset = 0\<rparr>"
  let ?d1 = "[configPathOf ''s'' ''f'' \<mapsto> ConfigJSON (buildConfig 0 (startReq 3)),
              tempFilePathOf ''s'' ''f'' \<mapsto> Bytes [1, 2, 3]]"
  let ?d2 = "[configPathOf ''s'' ''f'' \<mapsto> ConfigJSON doneConfig,
              tempFilePathOf ''s'' ''f'' \<mapsto> Bytes [1, 2, 3]]"
  have v: "validForm onlyChunkForm 0 [1, 2, 3]"
    by (simp add: validForm_def onlyChunkForm_def)
  have ne: "tempFilePathOf ''s'' ''f'' \<noteq> configPathOf ''s'' ''f''"
    by (rule temp_path_neq_config_path)
  have ld: "loadResumableConfig toyCodec (readFileErr noFaults) (disk startedWorld)
              (configPathOf (fSessionID onlyChunkForm) (fFileName onlyChunkForm))
            = Some (buildConfig 0 (startReq 3))"
    using ne by (simp add: loadResumableConfig_def onlyChunkForm_def startedWorld_eq)
  have m: "map_of (Chunks (buildConfig 0 (startReq 3))) 0 = Some ?ci"
    by (simp add: totalChunksOf_3 initChunks_one)
  have wr: "writeChunkSafely toyCodec (writeAt noFaults) (disk startedWorld)
              (cfgTempFilePath (buildConfig 0 (startReq 3))) [1, 2, 3] (Offset ?ci)
            = (False, ?d1)"
    by (simp add: writeChunkSafely_def writeBytesAt_def pwrite_def bytesOf_def startedWorld_eq)
  have sv: "saveResumableConfig toyCodec (writeFile noFaults) ?d1
              (configPathOf (fSessionID onlyChunkForm) (fFileName onlyChunkForm))
              (markCompleted toyCodec 1 0 ?ci [1, 2, 3] (buildConfig 0 (startReq 3)))
            = (False, ?d2)"
    using ne by (auto simp: saveResumableConfig_def onlyChunkForm_def doneConfig_def)
  have all: "list_all (\<lambda>(k, chunk). Completed chunk) (Chunks doneConfig)"
    by (simp add: Chunks_doneConfig)
  have pr: "calculateProgress doneConfig = 100"
    by (simp add: calculateProgress_def completedChunks_def Chunks_doneConfig)
       (simp add: doneConfig_def markCompleted_def totalChunksOf_3)
  have rm: "removeFile noFaults ?d2 (configPathOf ''s'' ''f'') = [tempFilePathOf ''s'' ''f'' \<mapsto> Bytes [1, 2, 3]]"
    using ne by (auto simp: removeFile_def)
  have bc: "broadcastMessage (uploadDoneFrame 1 ''s'' doneConfig ''f'')
              (registerFile ''f'' doneConfig (newSession ''s'')) = receivedSession"
    by (simp add: broadcastMessage_def registerFile_def newSession_def receivedSession_def
          doneConfig_def markCompleted_def)
  have g: "GetOrCreateSession (store startedWorld) ''s'' = (newSession ''s'', [''s'' \<mapsto> newSession ''s''])"
    by (simp add: GetOrCreateSession_def startedWorld_eq)
  show ?thesis
    using uploadChunk_saved[OF v ld m _ _ _ _ wr sv] all pr rm bc g
    by (simp add: doneConfig_def onlyChunkForm_def)

qed

lemma completeWorld_eq:
  "completeWorld = \<lparr>store = [''s'' \<mapsto> receivedSession],
                    disk = [tempFilePathOf ''s'' ''f'' \<mapsto> Bytes [1, 2, 3]]\<rparr>"
  unfolding completeWorld_def first_chunk_completes by simp

lemma registered_completeWorld: "registered completeWorld ''s'' ''f''"
  by (simp add: registered_def completeWorld_eq receivedSession_def)

lemma no_manifest_completeWorld:
  "loadResumableConfig toyCodec False (disk completeWorld) (configPathOf ''s'' ''f'') = None"
  using temp_path_neq_config_path[of "''s''" "''f''"]
  by (auto simp: completeWorld_eq loadResumableConfig_def)

lemma loadResumableConfig_Some_readErr:
  "loadResumableConfig E readErr d p = Some c \<Longrightarrow> loadResumableConfig E False d p = Some c"
  by (simp add: loadResumableConfig_def split: if_splits)









lemma completeUpload_no_manifest:
  assumes "sessionID \<noteq> []" "fileName \<noteq> []"
    and "loadResumableConfig E (readFileErr F) (disk w) (configPathOf sessionID fileName) = None"
  shows "completeUpload E F sessionID fileName w = ((404, ErrorBody ErrConfigNotFound), w)"
  using assms by (simp add: completeUpload_def)

text \<open>
  C1: the claim says that \<open>complete\<close> on a COMPLETE upload is answered 200. In the
  program \<open>completeUpload\<close> loads the manifest before it looks at \<open>ReceivedFiles\<close>: after
  the chunk that completed the upload has registered the file and removed the manifest,
  \<open>complete\<close> is answered 404. The theorem runs start, the only chunk, and \<open>complete\<close>
  for a file of 3 bytes.
\<close>

theorem complete_after_completion_is_404:
  "completeWorld = snd (uploadChunk toyCodec noFaults 1 onlyChunkForm
                    (snd (startResumableUpload toyCodec noFaults 0 ''u'' (startReq 3) emptyWorld)))
   \<and> registered completeWorld ''s'' ''f''
   \<and> disk completeWorld (configPathOf ''s'' ''f'') = None
   \<and> completeUpload toyCodec noFaults ''s'' ''f'' completeWorld =
       ((404, ErrorBody ErrConfigNotFound), completeWorld)"

proof -
  have "loadResumableConfig toyCodec (readFileErr noFaults) (disk completeWorld)
          (configPathOf ''s'' ''f'') = None"
    by (simp add: no_manifest_completeWorld)
  then have "completeUpload toyCodec noFaults ''s'' ''f'' completeWorld =
       ((404, ErrorBody ErrConfigNotFound), completeWorld)"
    by (intro completeUpload_no_manifest) simp_all
  moreover have "disk completeWorld (configPathOf ''s'' ''f'') = None"
    using temp_path_neq_config_path[of "''s''" "''f''"] by (auto simp: completeWorld_eq)
  ultimately show ?thesis
    using registered_completeWorld by (simp add: completeWorld_def startedWorld_def)

qed

lemma writeBytesAt_other: "p \<noteq> path \<Longrightarrow> writeBytesAt E d path off data p = d p"
  by (simp add: writeBytesAt_def split: option.splits)

lemma writeChunkSafely_other:
  "p \<noteq> path \<Longrightarrow> snd (writeChunkSafely E out d path data offset) p = d p"
  by (simp add: writeChunkSafely_def writeBytesAt_other split: WriteAtOutcome.splits)

lemma writeChunkSafely_ok:
  assumes "\<not> fst (writeChunkSafely E out d path data offset)"
  shows "snd (writeChunkSafely E out d path data offset) = writeBytesAt E d path (nat offset) data"
    and "0 \<le> offset" and "d path \<noteq> None"
  using assms
  by (auto simp: writeChunkSafely_def split: WriteAtOutcome.splits if_splits)

lemma saveResumableConfig_other:
  "p \<noteq> path \<Longrightarrow> snd (saveResumableConfig E out d path c) p = d p"
  by (simp add: saveResumableConfig_def split: WriteFileOutcome.splits)

lemma removeFile_other: "p \<noteq> path \<Longrightarrow> removeFile F d path p = d p"
  by (simp add: removeFile_def)

text \<open>
  C9 (as amended): for a chunk call on a chunk that the manifest records as not
  completed (the manifest being one whose backing path is not its own path), a size
  mismatch or a failure of the positioned write gives an error response and leaves the
  manifest file as it was, so that it still records the chunk as not completed. And if
  the call touches the manifest file at all, then the bytes had the size of the chunk,
  the positioned write at the offset of the chunk succeeded in full and was synced, and
  the backing file holds the result of that write. (What a failed save leaves in the
  manifest file is not promised.)
\<close>

theorem chunk_failure_keeps_manifest:
  assumes v: "validForm form i chunkData"
    and ld: "loadResumableConfig E (readFileErr F) (disk w)
               (configPathOf (fSessionID form) (fFileName form)) = Some config"
    and m: "map_of (Chunks config) i = Some chunkInfo" and nc: "\<not> Completed chunkInfo"
    and wf: "cfgTempFilePath config \<noteq> configPathOf (fSessionID form) (fFileName form)"
  shows "(int (length chunkData) \<noteq> ciSize chunkInfo
          \<or> fst (writeChunkSafely E (writeAt F) (disk w) (cfgTempFilePath config) chunkData
                  (Offset chunkInfo))
          \<longrightarrow> fst (fst (uploadChunk E F now form w)) \<noteq> 200
              \<and> disk (snd (uploadChunk E F now form w))
                   (configPathOf (fSessionID form) (fFileName form))
                 = disk w (configPathOf (fSessionID form) (fFileName form))
              \<and> loadResumableConfig E False (disk (snd (uploadChunk E F now form w)))
                   (configPathOf (fSessionID form) (fFileName form)) = Some config)
       \<and> (disk (snd (uploadChunk E F now form w))
              (configPathOf (fSessionID form) (fFileName form))
            \<noteq> disk w (configPathOf (fSessionID form) (fFileName form))
          \<longrightarrow> int (length chunkData) = ciSize chunkInfo
              \<and> \<not> fst (writeChunkSafely E (writeAt F) (disk w) (cfgTempFilePath config)
                        chunkData (Offset chunkInfo))
              \<and> 0 \<le> Offset chunkInfo
              \<and> disk (snd (uploadChunk E F now form w)) (cfgTempFilePath config)
                 = writeBytesAt E (disk w) (cfgTempFilePath config) (nat (Offset chunkInfo))
                     chunkData (cfgTempFilePath config))"

proof -
  let ?cp = "configPathOf (fSessionID form) (fFileName form)"
  let ?tp = "cfgTempFilePath config"
  let ?wr = "writeChunkSafely E (writeAt F) (disk w) ?tp chunkData (Offset chunkInfo)"
  let ?res = "uploadChunk E F now form w"
  let ?config' = "markCompleted E now i chunkInfo chunkData config"
  let ?sv = "saveResumableConfig E (writeFile F) (snd ?wr) ?cp ?config'"
  note ld0 = loadResumableConfig_Some_readErr[OF ld]
  have same_load: "loadResumableConfig E False d ?cp = Some config" if "d ?cp = disk w ?cp" for d
    using ld0 that by (simp add: loadResumableConfig_def)
  have early: "?res = (fst ?res, w) \<and> fst (fst ?res) \<noteq> 200"
    if "formOpenErr F \<or> formReadErr F \<or> int (length chunkData) \<noteq> ciSize chunkInfo"
    using that v ld m nc by (auto simp: uploadChunk_def validForm_def Let_def)
  have wfail: "?res = ((500, ErrorBody ErrWriteChunk), w\<lparr>disk := snd ?wr\<rparr>)"
    if "\<not> formOpenErr F" "\<not> formReadErr F" "int (length chunkData) = ciSize chunkInfo" "fst ?wr"
    using uploadChunk_write_failed[OF v ld m nc that(1,2,3), where ?d1.0 = "snd ?wr" and now = now] that(4)
    by (cases ?wr) simp
  have A: "fst (fst ?res) \<noteq> 200 \<and> disk (snd ?res) ?cp = disk w ?cp"
    if h: "formOpenErr F \<or> formReadErr F \<or> int (length chunkData) \<noteq> ciSize chunkInfo \<or> fst ?wr"
  proof (cases "formOpenErr F \<or> formReadErr F \<or> int (length chunkData) \<noteq> ciSize chunkInfo")
    case True
    from early[OF True] show ?thesis by (metis snd_conv)
  next
    case False
    with h have "fst ?wr" by simp
    from wfail[OF _ _ _ this] False wf show ?thesis
      by (simp add: writeChunkSafely_other)
  qed
  have B: "int (length chunkData) = ciSize chunkInfo \<and> \<not> fst ?wr \<and> 0 \<le> Offset chunkInfo
           \<and> disk (snd ?res) ?tp = writeBytesAt E (disk w) ?tp (nat (Offset chunkInfo)) chunkData ?tp"
    if ch: "disk (snd ?res) ?cp \<noteq> disk w ?cp"
  proof -
    from ch A have ok: "\<not> formOpenErr F" "\<not> formReadErr F"
      "int (length chunkData) = ciSize chunkInfo" "\<not> fst ?wr"
      by blast+
    from ok(4) have wr: "?wr = (False, snd ?wr)" by (cases ?wr) simp
    note w = writeChunkSafely_ok[OF ok(4)]
    have "disk (snd ?res) ?tp = snd ?wr ?tp"
    proof (cases "fst ?sv")
      case True
      then have "?sv = (True, snd ?sv)" by (cases ?sv) simp
      from uploadChunk_save_failed[OF v ld m nc ok(1,2,3) wr this] wf
      show ?thesis by (simp add: saveResumableConfig_other)
    next
      case False
      then have "?sv = (False, snd ?sv)" by (cases ?sv) simp
      from uploadChunk_saved[OF v ld m nc ok(1,2,3) wr this] wf
      show ?thesis
        by (simp add: saveResumableConfig_other removeFile_other)
    qed
    with ok w show ?thesis by simp
  qed
  show ?thesis
    using A B same_load by blast

qed

lemma started_manifest:
  "loadResumableConfig toyCodec False (disk startedWorld) (configPathOf ''s'' ''f'')
     = Some (buildConfig 0 (startReq 3))"
  using temp_path_neq_config_path[of "''s''" "''f''"]
  by (simp add: loadResumableConfig_def startedWorld_eq)

lemma started_chunk0:
  "map_of (Chunks (buildConfig 0 (startReq 3))) 0 =
     Some \<lparr>ChunkIndex = 0, ciSize = 3, Hash = [], Completed = False, Offset = 0\<rparr>"
  by (simp add: totalChunksOf_3 initChunks_one)

lemma started_write:
  "writeChunkSafely toyCodec WriteAtOk (disk startedWorld) (tempFilePathOf ''s'' ''f'') [1, 2, 3] 0
     = (False, (disk startedWorld)(tempFilePathOf ''s'' ''f'' \<mapsto> Bytes [1, 2, 3]))"
  by (simp add: writeChunkSafely_def writeBytesAt_def pwrite_def bytesOf_def startedWorld_eq)

theorem chunk_failure_keeps_manifest_witness:
  "validForm shortChunkForm 0 [1, 2] \<and> validForm onlyChunkForm 0 [1, 2, 3]
   \<and> loadResumableConfig toyCodec (readFileErr noFaults) (disk startedWorld)
        (configPathOf ''s'' ''f'') = Some (buildConfig 0 (startReq 3))
   \<and> map_of (Chunks (buildConfig 0 (startReq 3))) 0 =
        Some \<lparr>ChunkIndex = 0, ciSize = 3, Hash = [], Completed = False, Offset = 0\<rparr>
   \<and> cfgTempFilePath (buildConfig 0 (startReq 3)) \<noteq> configPathOf ''s'' ''f''
   \<and> int (length [1, 2 :: byte]) \<noteq> 3
   \<and> fst (fst (uploadChunk toyCodec noFaults 1 shortChunkForm startedWorld)) \<noteq> 200
   \<and> loadResumableConfig toyCodec False
        (disk (snd (uploadChunk toyCodec noFaults 1 shortChunkForm startedWorld)))
        (configPathOf ''s'' ''f'') = Some (buildConfig 0 (startReq 3))
   \<and> disk (snd (uploadChunk toyCodec noFaults 1 onlyChunkForm startedWorld)) (configPathOf ''s'' ''f'')
        \<noteq> disk startedWorld (configPathOf ''s'' ''f'')
   \<and> \<not> fst (writeChunkSafely toyCodec (writeAt noFaults) (disk startedWorld)
              (tempFilePathOf ''s'' ''f'') [1, 2, 3] 0)
   \<and> disk (snd (uploadChunk toyCodec noFaults 1 onlyChunkForm startedWorld))
        (tempFilePathOf ''s'' ''f'') = Some (Bytes [1, 2, 3])"

proof -
  let ?ci = "\<lparr>ChunkIndex = 0, ciSize = 3, Hash = [], Completed = False, Offset = 0\<rparr>"
  have v1: "validForm shortChunkForm 0 [1, 2]"
    by (simp add: validForm_def shortChunkForm_def)
  have v2: "validForm onlyChunkForm 0 [1, 2, 3]"
    by (simp add: validForm_def onlyChunkForm_def)
  have f: "fSessionID shortChunkForm = ''s''" "fFileName shortChunkForm = ''f''"
    "fSessionID onlyChunkForm = ''s''" "fFileName onlyChunkForm = ''f''"
    by (simp_all add: shortChunkForm_def onlyChunkForm_def)
  have ld: "loadResumableConfig toyCodec (readFileErr noFaults) (disk startedWorld)
        (configPathOf ''s'' ''f'') = Some (buildConfig 0 (startReq 3))"
    by (simp add: started_manifest)
  have wf: "cfgTempFilePath (buildConfig 0 (startReq 3)) \<noteq> configPathOf ''s'' ''f''"
    by (simp add: temp_path_neq_config_path)
  have nc: "\<not> Completed ?ci" by simp
  have changed: "disk (snd (uploadChunk toyCodec noFaults 1 onlyChunkForm startedWorld))
        (configPathOf ''s'' ''f'') \<noteq> disk startedWorld (configPathOf ''s'' ''f'')"
    unfolding first_chunk_completes
    using temp_path_neq_config_path[of "''s''" "''f''"] by (simp add: startedWorld_eq)
  note t1 = chunk_failure_keeps_manifest[OF v1 ld[folded f(1,2)] started_chunk0 nc wf[folded f(1,2)],
              of 1, unfolded f]
  note t2 = chunk_failure_keeps_manifest[OF v2 ld[folded f(3,4)] started_chunk0 nc wf[folded f(3,4)],
              of 1, unfolded f]
  from t1 have a: "fst (fst (uploadChunk toyCodec noFaults 1 shortChunkForm startedWorld)) \<noteq> 200
     \<and> loadResumableConfig toyCodec False
        (disk (snd (uploadChunk toyCodec noFaults 1 shortChunkForm startedWorld)))
        (configPathOf ''s'' ''f'') = Some (buildConfig 0 (startReq 3))"
    by simp
  from t2 changed have b: "\<not> fst (writeChunkSafely toyCodec (writeAt noFaults) (disk startedWorld)
              (tempFilePathOf ''s'' ''f'') [1, 2, 3] 0)
     \<and> disk (snd (uploadChunk toyCodec noFaults 1 onlyChunkForm startedWorld))
        (tempFilePathOf ''s'' ''f'') = Some (Bytes [1, 2, 3])"
    by (simp add: writeBytesAt_def pwrite_def bytesOf_def startedWorld_eq)
  from v1 v2 ld started_chunk0 wf a changed b show ?thesis by simp

qed

text \<open>
  The counterexample: the chunk arrives whole and is written, and the save of the
  manifest fails after \<open>os.WriteFile\<close> has truncated the file and written one byte. The
  call is answered 500, and the manifest on disk no longer loads: it does not record
  the chunk as \<open>completed = false\<close>.

\<close>

theorem chunk_save_failure_counterexample:
  "loadResumableConfig toyCodec False (disk startedWorld) (configPathOf ''s'' ''f'')
     = Some (buildConfig 0 (startReq 3))
   \<and> \<not> chunkDone (buildConfig 0 (startReq 3)) 0
   \<and> fst (uploadChunk toyCodec truncFaults 1 onlyChunkForm startedWorld)
       = (500, ErrorBody ErrSaveConfig)
   \<and> disk (snd (uploadChunk toyCodec truncFaults 1 onlyChunkForm startedWorld))
        (configPathOf ''s'' ''f'') = Some (Bytes [123])
   \<and> loadResumableConfig toyCodec False
        (disk (snd (uploadChunk toyCodec truncFaults 1 onlyChunkForm startedWorld)))
        (configPathOf ''s'' ''f'') = None"

proof -
  let ?ci = "\<lparr>ChunkIndex = 0, ciSize = 3, Hash = [], Completed = False, Offset = 0\<rparr>"
  let ?d1 = "(disk startedWorld)(tempFilePathOf ''s'' ''f'' \<mapsto> Bytes [1, 2, 3])"
  have v: "validForm onlyChunkForm 0 [1, 2, 3]"
    by (simp add: validForm_def onlyChunkForm_def)
  have f: "fSessionID onlyChunkForm = ''s''" "fFileName onlyChunkForm = ''f''"
    by (simp_all add: onlyChunkForm_def)
  have F: "readFileErr truncFaults = False" "formOpenErr truncFaults = False"
    "formReadErr truncFaults = False" "writeAt truncFaults = WriteAtOk"
    "writeFile truncFaults = WriteFileWriteErr 1"
    by (simp_all add: truncFaults_def noFaults_def)
  have ld: "loadResumableConfig toyCodec (readFileErr truncFaults) (disk startedWorld)
        (configPathOf (fSessionID onlyChunkForm) (fFileName onlyChunkForm))
        = Some (buildConfig 0 (startReq 3))"
    by (simp add: started_manifest f F)
  have wr: "writeChunkSafely toyCodec (writeAt truncFaults) (disk startedWorld)
              (cfgTempFilePath (buildConfig 0 (startReq 3))) [1, 2, 3] (Offset ?ci) = (False, ?d1)"
    by (simp add: F started_write)
  have sv: "saveResumableConfig toyCodec (writeFile truncFaults) ?d1
              (configPathOf (fSessionID onlyChunkForm) (fFileName onlyChunkForm))
              (markCompleted toyCodec 1 0 ?ci [1, 2, 3] (buildConfig 0 (startReq 3)))
            = (True, ?d1(configPathOf ''s'' ''f'' \<mapsto> Bytes [123]))"
    by (simp add: saveResumableConfig_def F f toyCodec_def)
  have run: "uploadChunk toyCodec truncFaults 1 onlyChunkForm startedWorld =
     ((500, ErrorBody ErrSaveConfig),
      startedWorld\<lparr>disk := ?d1(configPathOf ''s'' ''f'' \<mapsto> Bytes [123])\<rparr>)"
    by (rule uploadChunk_save_failed[OF v ld started_chunk0 _ _ _ _ wr sv]) (simp_all add: F)
  have nd: "\<not> chunkDone (buildConfig 0 (startReq 3)) 0"
    by (simp add: chunkDone_def totalChunksOf_3 initChunks_one)
  show ?thesis
    unfolding run using started_manifest nd
    by (simp add: loadResumableConfig_def toyCodec_def)

qed

lemma verifyFileHash_spec:
  "verifyFileHash E F d filePath expectedHash = None \<longleftrightarrow>
     (case d filePath of
        None \<Rightarrow> False
      | Some fc \<Rightarrow> \<not> hashOpenErr F \<and> \<not> hashCopyErr F
                   \<and> specHashCheck E (bytesOf E fc) expectedHash)"
  by (auto simp: verifyFileHash_def specHashCheck_def Let_def split: option.splits)

lemma incompleteChunks_zero:
  "incompleteChunks config = 0 \<longleftrightarrow> list_all (\<lambda>(k, chunk). Completed chunk) (Chunks config)"
  by (auto simp: incompleteChunks_def list_all_iff filter_empty_conv)

lemma registered_after_GetOrCreate:
  "registered (w\<lparr>store := snd (GetOrCreateSession (store w) sid)\<rparr>) sid' name
     = registered w sid' name"
  by (auto simp: registered_def GetOrCreateSession_def newSession_def split: option.splits)

lemma hashReq_simps [simp]:
  "reqSessionID hashReq = ''s''" "reqFileName hashReq = ''f''"
  "reqFileSize hashReq = 3" "reqFileHash hashReq = replicate 32 (CHR ''9'')"
  by (simp_all add: hashReq_def)

lemma hashStarted_eq:
  "snd (startResumableUpload toyCodec noFaults 0 ''u'' hashReq emptyWorld) =
     \<lparr>store = [''s'' \<mapsto> newSession ''s''],
       disk = [configPathOf ''s'' ''f'' \<mapsto> ConfigJSON (buildConfig 0 hashReq),
               tempFilePathOf ''s'' ''f'' \<mapsto> Bytes (replicate 3 0)]\<rparr>"
proof -
  have b: "bindStartOK hashReq"
    by (simp add: bindStartOK_def is_int64_def)
  have r: "\<not> registered emptyWorld (reqSessionID hashReq) (reqFileName hashReq)"
    by (rule not_registered_emptyWorld)
  have "startResumableUpload toyCodec noFaults 0 ''u'' hashReq emptyWorld =
     ((200, StartBody \<lparr>UploadID = ''u'', rspChunkSize = ChunkSize,
              rspTotalChunks = totalChunksOf (reqFileSize hashReq),
              MissingChunks = [0..totalChunksOf (reqFileSize hashReq) - 1],
              ConfigPath = configPathOf (reqSessionID hashReq) (reqFileName hashReq)\<rparr>),
      \<lparr>store = snd (GetOrCreateSession (store emptyWorld) (reqSessionID hashReq)),
       disk = (disk emptyWorld)
         (configPathOf (reqSessionID hashReq) (reqFileName hashReq) \<mapsto>
            ConfigJSON (buildConfig 0 hashReq),
          tempFilePathOf (reqSessionID hashReq) (reqFileName hashReq) \<mapsto>
            Bytes (replicate (nat (reqFileSize hashReq)) 0))\<rparr>)"
    by (rule start_fresh[OF b r]) (simp_all add: totalChunksOf_3)
  then show ?thesis
    by (simp add: emptyWorld_def GetOrCreateSession_def)
qed

lemma Chunks_unverifiedConfig:
  "Chunks unverifiedConfig =
     [(0, \<lparr>ChunkIndex = 0, ciSize = 3, Hash = replicate 32 (CHR ''0''), Completed = True, Offset = 0\<rparr>)]"
  by (simp add: unverifiedConfig_def markCompleted_def totalChunksOf_3 initChunks_one toyCodec_def)

lemma unverifiedConfig_fields:
  "FileSize unverifiedConfig = 3" "cfgTempFilePath unverifiedConfig = tempFilePathOf ''s'' ''f''"
  "FileHash unverifiedConfig = replicate 32 (CHR ''9'')" "TotalChunks unverifiedConfig = 1"
  by (simp_all add: unverifiedConfig_def markCompleted_def totalChunksOf_3)

lemma unverifiedWorld_eq:
  "uploadChunk toyCodec keepFaults 1 onlyChunkForm
       (snd (startResumableUpload toyCodec noFaults 0 ''u'' hashReq emptyWorld)) =
     ((200, ChunkBody \<lparr>rChunkIndex = 0, rCompleted = True, rProgress = 100\<rparr>),
      \<lparr>store = [''s'' \<mapsto> receivedSession],
       disk = [configPathOf ''s'' ''f'' \<mapsto> ConfigJSON unverifiedConfig,
               tempFilePathOf ''s'' ''f'' \<mapsto> Bytes [1, 2, 3]]\<rparr>)"
proof -
  let ?w = "snd (startResumableUpload toyCodec noFaults 0 ''u'' hashReq emptyWorld)"
  let ?ci = "\<lparr>ChunkIndex = 0, ciSize = 3, Hash = [], Completed = False, Offset = 0\<rparr>"
  let ?d1 = "[configPathOf ''s'' ''f'' \<mapsto> ConfigJSON (buildConfig 0 hashReq),
              tempFilePathOf ''s'' ''f'' \<mapsto> Bytes [1, 2, 3]]"
  let ?d2 = "[configPathOf ''s'' ''f'' \<mapsto> ConfigJSON unverifiedConfig,
              tempFilePathOf ''s'' ''f'' \<mapsto> Bytes [1, 2, 3]]"
  have kf: "\<not> readFileErr keepFaults" "\<not> formOpenErr keepFaults" "\<not> formReadErr keepFaults"
    "writeAt keepFaults = WriteAtOk" "writeFile keepFaults = WriteFileOk" "removeErr keepFaults p" for p
    by (simp_all add: keepFaults_def noFaults_def)
  have v: "validForm onlyChunkForm 0 [1, 2, 3]"
    by (simp add: validForm_def onlyChunkForm_def)
  have ne: "tempFilePathOf ''s'' ''f'' \<noteq> configPathOf ''s'' ''f''"
    by (rule temp_path_neq_config_path)
  have ld: "loadResumableConfig toyCodec (readFileErr keepFaults) (disk ?w)
              (configPathOf (fSessionID onlyChunkForm) (fFileName onlyChunkForm))
            = Some (buildConfig 0 hashReq)"
    using ne by (simp add: loadResumableConfig_def onlyChunkForm_def hashStarted_eq kf)
  have m: "map_of (Chunks (buildConfig 0 hashReq)) 0 = Some ?ci"
    by (simp add: totalChunksOf_3 initChunks_one)
  have wr: "writeChunkSafely toyCodec (writeAt keepFaults) (disk ?w)
              (cfgTempFilePath (buildConfig 0 hashReq)) [1, 2, 3] (Offset ?ci)
            = (False, ?d1)"
    by (simp add: writeChunkSafely_def writeBytesAt_def pwrite_def bytesOf_def hashStarted_eq kf)
  have sv: "saveResumableConfig toyCodec (writeFile keepFaults) ?d1
              (configPathOf (fSessionID onlyChunkForm) (fFileName onlyChunkForm))
              (markCompleted toyCodec 1 0 ?ci [1, 2, 3] (buildConfig 0 hashReq))
            = (False, ?d2)"
    using ne by (auto simp: saveResumableConfig_def onlyChunkForm_def unverifiedConfig_def kf)
  have all: "list_all (\<lambda>(k, chunk). Completed chunk) (Chunks unverifiedConfig)"
    by (simp add: Chunks_unverifiedConfig)
  have pr: "calculateProgress unverifiedConfig = 100"
    by (simp add: calculateProgress_def completedChunks_def Chunks_unverifiedConfig
          unverifiedConfig_fields)
  have rm: "removeFile keepFaults ?d2 (configPathOf ''s'' ''f'') = ?d2"
    by (simp add: removeFile_def kf)
  have bc: "broadcastMessage (uploadDoneFrame 1 ''s'' unverifiedConfig ''f'')
              (registerFile ''f'' unverifiedConfig (newSession ''s'')) = receivedSession"
    by (simp add: broadcastMessage_def registerFile_def newSession_def receivedSession_def
          unverifiedConfig_fields)
  have g: "GetOrCreateSession (store ?w) ''s'' = (newSession ''s'', [''s'' \<mapsto> newSession ''s''])"
    by (simp add: GetOrCreateSession_def hashStarted_eq)
  show ?thesis
    using uploadChunk_saved[OF v ld m _ kf(2) kf(3) _ wr sv] all pr rm bc g
    by (simp add: unverifiedConfig_def onlyChunkForm_def)
qed

lemma unverifiedWorld_val:
  "unverifiedWorld = \<lparr>store = [''s'' \<mapsto> receivedSession],
       disk = [configPathOf ''s'' ''f'' \<mapsto> ConfigJSON unverifiedConfig,
               tempFilePathOf ''s'' ''f'' \<mapsto> Bytes [1, 2, 3]]\<rparr>"
  unfolding unverifiedWorld_def unverifiedWorld_eq by simp

lemma completeUpload_registered:
  assumes "sessionID \<noteq> []" "fileName \<noteq> []"
    and "loadResumableConfig E (readFileErr F) (disk w)
               (configPathOf sessionID fileName) = Some config"
    and "store w sessionID = Some session"
    and "map_of (ReceivedFiles session) fileName = Some existingFile"
  shows "completeUpload E F sessionID fileName w
           = ((200, CompleteBody fileName (Size existingFile)), w)"
  using assms by (simp add: completeUpload_def GetOrCreateSession_existing Let_def)

text \<open>
  C8 (as amended): for \<open>complete\<close> on an upload whose manifest has every chunk completed
  and a non-empty \<open>fileHash\<close>. When the file is not yet in \<open>ReceivedFiles\<close>, the call is
  answered 200 and registers the file when \<open>verifyFileHash\<close> passes, and is answered 400
  (integrity) and leaves the file unregistered otherwise; \<open>verifyFileHash\<close> passes exactly
  when the backing file can be read and its MD5 equals a hash of 32 characters or its
  SHA-256 equals a hash of 64 characters, so a mismatch and a hash of any other length
  fail. When the file is already in \<open>ReceivedFiles\<close>, the call is answered 200 and changes
  nothing, whatever the hash.
\<close>

theorem complete_verifies_hash:
  assumes p: "sessionID \<noteq> []" "fileName \<noteq> []"
    and ld: "loadResumableConfig E (readFileErr F) (disk w)
               (configPathOf sessionID fileName) = Some config"
    and all: "list_all (\<lambda>(k, chunk). Completed chunk) (Chunks config)"
    and h: "FileHash config \<noteq> []"
  defines "check \<equiv> verifyFileHash E F (disk w) (cfgTempFilePath config) (FileHash config)"
  shows "(\<not> registered w sessionID fileName \<longrightarrow>
            completeUpload E F sessionID fileName w =
              (if check = None
               then ((200, CompleteBody fileName (FileSize config)),
                     w\<lparr>store := (snd (GetOrCreateSession (store w) sessionID))
                        (sessionID \<mapsto> registerFile fileName config
                           (fst (GetOrCreateSession (store w) sessionID)))\<rparr>)
               else ((400, ErrorBody ErrHashVerify),
                     w\<lparr>store := snd (GetOrCreateSession (store w) sessionID)\<rparr>))
          \<and> (check \<noteq> None
                \<longrightarrow> \<not> registered (snd (completeUpload E F sessionID fileName w)) sessionID fileName))
         \<and> (check = None
              \<longleftrightarrow> (case disk w (cfgTempFilePath config) of
                     None \<Rightarrow> False
                   | Some fc \<Rightarrow> \<not> hashOpenErr F \<and> \<not> hashCopyErr F
                       \<and> ((length (FileHash config) = 32
                             \<and> md5hex E (bytesOf E fc) = FileHash config)
                          \<or> (length (FileHash config) = 64
                             \<and> sha256hex E (bytesOf E fc) = FileHash config))))
         \<and> (store w sessionID = Some session
              \<and> map_of (ReceivedFiles session) fileName = Some existingFile \<longrightarrow>
            completeUpload E F sessionID fileName w
              = ((200, CompleteBody fileName (Size existingFile)), w))"
proof -
  obtain session0 st where g: "GetOrCreateSession (store w) sessionID = (session0, st)"
    by (cases "GetOrCreateSession (store w) sessionID")
  have z: "incompleteChunks config = 0"
    using all by (simp add: incompleteChunks_zero)
  have fresh: "completeUpload E F sessionID fileName w =
              (if check = None
               then ((200, CompleteBody fileName (FileSize config)),
                     w\<lparr>store := (snd (GetOrCreateSession (store w) sessionID))
                        (sessionID \<mapsto> registerFile fileName config
                           (fst (GetOrCreateSession (store w) sessionID)))\<rparr>)
               else ((400, ErrorBody ErrHashVerify),
                     w\<lparr>store := snd (GetOrCreateSession (store w) sessionID)\<rparr>))
          \<and> (check \<noteq> None
                \<longrightarrow> \<not> registered (snd (completeUpload E F sessionID fileName w)) sessionID fileName)"
    if nreg: "\<not> registered w sessionID fileName"
  proof -
    have nr: "map_of (ReceivedFiles session0) fileName = None"
      using not_registered_lookup[OF nreg] g by simp
    have run: "completeUpload E F sessionID fileName w =
           (if check = None
            then ((200, CompleteBody fileName (FileSize config)),
                  w\<lparr>store := (st(sessionID \<mapsto> registerFile fileName config session0))\<rparr>)
            else ((400, ErrorBody ErrHashVerify), w\<lparr>store := st\<rparr>))"
      using p ld h by (simp add: completeUpload_def g nr z Let_def check_def)
    have st: "st = snd (GetOrCreateSession (store w) sessionID)" using g by simp
    have nreg': "\<not> registered (w\<lparr>store := st\<rparr>) sessionID fileName"
      unfolding st using nreg by (simp add: registered_after_GetOrCreate)
    show ?thesis
      using run nreg' g by simp
  qed
  have spec: "check = None
              \<longleftrightarrow> (case disk w (cfgTempFilePath config) of
                     None \<Rightarrow> False
                   | Some fc \<Rightarrow> \<not> hashOpenErr F \<and> \<not> hashCopyErr F
                       \<and> ((length (FileHash config) = 32
                             \<and> md5hex E (bytesOf E fc) = FileHash config)
                          \<or> (length (FileHash config) = 64
                             \<and> sha256hex E (bytesOf E fc) = FileHash config)))"
    unfolding check_def by (simp add: verifyFileHash_spec specHashCheck_def split: option.splits)
  have reg: "completeUpload E F sessionID fileName w
              = ((200, CompleteBody fileName (Size existingFile)), w)"
    if "store w sessionID = Some session \<and> map_of (ReceivedFiles session) fileName = Some existingFile"
    using that completeUpload_registered[OF p ld] by blast
  show ?thesis
    using fresh spec reg by blast
qed

lemma doneConfig_fields:
  "FileSize doneConfig = 3" "cfgTempFilePath doneConfig = tempFilePathOf ''s'' ''f''"
  by (simp_all add: doneConfig_def markCompleted_def)

theorem complete_verifies_hash_witness:
  "''s'' \<noteq> [] \<and> ''f'' \<noteq> []
   \<and> loadResumableConfig toyCodec (readFileErr noFaults) (disk (hashWorld (replicate 32 (CHR ''0''))))
        (configPathOf ''s'' ''f'') = Some (doneConfig\<lparr>FileHash := replicate 32 (CHR ''0'')\<rparr>)
   \<and> loadResumableConfig toyCodec (readFileErr noFaults) (disk (hashWorld (replicate 32 (CHR ''9''))))
        (configPathOf ''s'' ''f'') = Some (doneConfig\<lparr>FileHash := replicate 32 (CHR ''9'')\<rparr>)
   \<and> list_all (\<lambda>(k, chunk). Completed chunk) (Chunks doneConfig)
   \<and> \<not> registered (hashWorld (replicate 32 (CHR ''0''))) ''s'' ''f''
   \<and> \<not> registered (hashWorld (replicate 32 (CHR ''9''))) ''s'' ''f''
   \<and> verifyFileHash toyCodec noFaults (disk (hashWorld (replicate 32 (CHR ''0''))))
        (tempFilePathOf ''s'' ''f'') (replicate 32 (CHR ''0'')) = None
   \<and> fst (completeUpload toyCodec noFaults ''s'' ''f'' (hashWorld (replicate 32 (CHR ''0''))))
        = (200, CompleteBody ''f'' 3)
   \<and> registered (snd (completeUpload toyCodec noFaults ''s'' ''f'' (hashWorld (replicate 32 (CHR ''0'')))))
        ''s'' ''f''
   \<and> verifyFileHash toyCodec noFaults (disk (hashWorld (replicate 32 (CHR ''9''))))
        (tempFilePathOf ''s'' ''f'') (replicate 32 (CHR ''9'')) \<noteq> None
   \<and> fst (completeUpload toyCodec noFaults ''s'' ''f'' (hashWorld (replicate 32 (CHR ''9''))))
        = (400, ErrorBody ErrHashVerify)
   \<and> \<not> registered (snd (completeUpload toyCodec noFaults ''s'' ''f'' (hashWorld (replicate 32 (CHR ''9'')))))
        ''s'' ''f''
   \<and> loadResumableConfig toyCodec (readFileErr noFaults) (disk unverifiedWorld)
        (configPathOf ''s'' ''f'') = Some unverifiedConfig
   \<and> list_all (\<lambda>(k, chunk). Completed chunk) (Chunks unverifiedConfig)
   \<and> FileHash unverifiedConfig \<noteq> []
   \<and> store unverifiedWorld ''s'' = Some receivedSession
   \<and> map_of (ReceivedFiles receivedSession) ''f''
        = Some \<lparr>Name = ''f'', Size = 3, TempFilePath = tempFilePathOf ''s'' ''f''\<rparr>
   \<and> completeUpload toyCodec noFaults ''s'' ''f'' unverifiedWorld
        = ((200, CompleteBody ''f'' 3), unverifiedWorld)"
proof -
  let ?good = "replicate 32 (CHR ''0'')" and ?bad = "replicate 32 (CHR ''9'')"
  let ?fi = "\<lparr>Name = ''f'', Size = 3, TempFilePath = tempFilePathOf ''s'' ''f''\<rparr>"
  have ne: "tempFilePathOf ''s'' ''f'' \<noteq> configPathOf ''s'' ''f''"
    by (rule temp_path_neq_config_path)
  have ld: "loadResumableConfig toyCodec (readFileErr noFaults) (disk (hashWorld h))
        (configPathOf ''s'' ''f'') = Some (doneConfig\<lparr>FileHash := h\<rparr>)" for h
    using ne by (simp add: loadResumableConfig_def hashWorld_def)
  have all: "list_all (\<lambda>(k, chunk). Completed chunk) (Chunks (doneConfig\<lparr>FileHash := h\<rparr>))" for h
    by (simp add: Chunks_doneConfig)
  have nreg: "\<not> registered (hashWorld h) ''s'' ''f''" for h
    by (simp add: registered_def hashWorld_def)
  have vg: "verifyFileHash toyCodec noFaults (disk (hashWorld ?good))
        (tempFilePathOf ''s'' ''f'') ?good = None"
    by (simp add: verifyFileHash_def hashWorld_def toyCodec_def bytesOf_def)
  have vb: "verifyFileHash toyCodec noFaults (disk (hashWorld ?bad))
        (tempFilePathOf ''s'' ''f'') ?bad \<noteq> None"
    by (simp add: verifyFileHash_def hashWorld_def toyCodec_def bytesOf_def)
  have ldu: "loadResumableConfig toyCodec (readFileErr noFaults) (disk unverifiedWorld)
        (configPathOf ''s'' ''f'') = Some unverifiedConfig"
    using ne by (simp add: loadResumableConfig_def unverifiedWorld_val)
  have allu: "list_all (\<lambda>(k, chunk). Completed chunk) (Chunks unverifiedConfig)"
    by (simp add: Chunks_unverifiedConfig)
  have hu: "FileHash unverifiedConfig \<noteq> []"
    by (simp add: unverifiedConfig_fields)
  have su: "store unverifiedWorld ''s'' = Some receivedSession"
    by (simp add: unverifiedWorld_val)
  have mu: "map_of (ReceivedFiles receivedSession) ''f'' = Some ?fi"
    by (simp add: receivedSession_def)
  have hg: "FileHash (doneConfig\<lparr>FileHash := ?good\<rparr>) \<noteq> []" by simp
  have hb: "FileHash (doneConfig\<lparr>FileHash := ?bad\<rparr>) \<noteq> []" by simp
  note tg = complete_verifies_hash[where sessionID = "''s''" and fileName = "''f''"
      and E = toyCodec and F = noFaults, OF _ _ ld[of ?good] all hg]
  note tb = complete_verifies_hash[where sessionID = "''s''" and fileName = "''f''"
      and E = toyCodec and F = noFaults, OF _ _ ld[of ?bad] all hb]
  note tu = complete_verifies_hash[where sessionID = "''s''" and fileName = "''f''"
      and E = toyCodec and F = noFaults and session = receivedSession and existingFile = ?fi,
      OF _ _ ldu allu hu]
  have g: "fst (completeUpload toyCodec noFaults ''s'' ''f'' (hashWorld ?good)) = (200, CompleteBody ''f'' 3)
     \<and> registered (snd (completeUpload toyCodec noFaults ''s'' ''f'' (hashWorld ?good))) ''s'' ''f''"
    using tg vg nreg[of ?good]
    by (simp add: doneConfig_fields registered_def registerFile_def update_conv')
  have b: "fst (completeUpload toyCodec noFaults ''s'' ''f'' (hashWorld ?bad)) = (400, ErrorBody ErrHashVerify)
     \<and> \<not> registered (snd (completeUpload toyCodec noFaults ''s'' ''f'' (hashWorld ?bad))) ''s'' ''f''"
    using tb vb nreg[of ?bad]
    by (simp add: doneConfig_fields registered_after_GetOrCreate)
  have u: "completeUpload toyCodec noFaults ''s'' ''f'' unverifiedWorld
        = ((200, CompleteBody ''f'' 3), unverifiedWorld)"
    using tu su mu by simp
  from ld[of ?good] ld[of ?bad] all[of "[]"] nreg[of ?good] nreg[of ?bad] vg vb g b
    ldu allu hu su mu u
  show ?thesis by simp
qed

text \<open>
  The claim as stated, for every \<open>complete\<close> on a manifest with all chunks completed and a
  hash, fails when the file is already registered. The chunk call that completes an
  upload registers the file without any check of the hash; here the removal of the
  manifest after it fails, so the manifest stays, with every chunk completed and the
  hash of the start request, which the file does not have. \<open>complete\<close> is answered 200,
  and the file is registered.
\<close>

theorem complete_unverified_counterexample:
  "unverifiedWorld = snd (uploadChunk toyCodec keepFaults 1 onlyChunkForm
       (snd (startResumableUpload toyCodec noFaults 0 ''u'' hashReq emptyWorld)))
   \<and> reqFileHash hashReq = replicate 32 (CHR ''9'')
   \<and> loadResumableConfig toyCodec (readFileErr noFaults) (disk unverifiedWorld)
        (configPathOf ''s'' ''f'') = Some unverifiedConfig
   \<and> list_all (\<lambda>(k, chunk). Completed chunk) (Chunks unverifiedConfig)
   \<and> FileHash unverifiedConfig = replicate 32 (CHR ''9'')
   \<and> disk unverifiedWorld (tempFilePathOf ''s'' ''f'') = Some (Bytes [1, 2, 3])
   \<and> md5hex toyCodec [1, 2, 3] = replicate 32 (CHR ''0'')
   \<and> verifyFileHash toyCodec noFaults (disk unverifiedWorld) (tempFilePathOf ''s'' ''f'')
        (replicate 32 (CHR ''9''))
        = Some (HashMismatch (replicate 32 (CHR ''9'')) (replicate 32 (CHR ''0'')))
   \<and> completeUpload toyCodec noFaults ''s'' ''f'' unverifiedWorld
        = ((200, CompleteBody ''f'' 3), unverifiedWorld)
   \<and> registered unverifiedWorld ''s'' ''f''"
proof -
  have ne: "tempFilePathOf ''s'' ''f'' \<noteq> configPathOf ''s'' ''f''"
    by (rule temp_path_neq_config_path)
  have ld: "loadResumableConfig toyCodec (readFileErr noFaults) (disk unverifiedWorld)
        (configPathOf ''s'' ''f'') = Some unverifiedConfig"
    using ne by (simp add: loadResumableConfig_def unverifiedWorld_val)
  have d: "disk unverifiedWorld (tempFilePathOf ''s'' ''f'') = Some (Bytes [1, 2, 3])"
    by (simp add: unverifiedWorld_val)
  have v: "verifyFileHash toyCodec noFaults (disk unverifiedWorld) (tempFilePathOf ''s'' ''f'')
        (replicate 32 (CHR ''9''))
        = Some (HashMismatch (replicate 32 (CHR ''9'')) (replicate 32 (CHR ''0'')))"
    by (simp add: verifyFileHash_def d toyCodec_def bytesOf_def)
  have s: "store unverifiedWorld ''s'' = Some receivedSession"
    by (simp add: unverifiedWorld_val)
  have m: "map_of (ReceivedFiles receivedSession) ''f''
             = Some \<lparr>Name = ''f'', Size = 3, TempFilePath = tempFilePathOf ''s'' ''f''\<rparr>"
    by (simp add: receivedSession_def)
  have c: "completeUpload toyCodec noFaults ''s'' ''f'' unverifiedWorld
        = ((200, CompleteBody ''f'' 3), unverifiedWorld)"
    using completeUpload_registered[OF _ _ ld s m] by simp
  have r: "registered unverifiedWorld ''s'' ''f''"
    by (simp add: registered_def s m)
  show ?thesis
    using ld d v c r
    by (simp add: unverifiedWorld_def Chunks_unverifiedConfig unverifiedConfig_fields toyCodec_def)
qed

section \<open>Properties of the WebSocket file_chunk path\<close>

lemma expectedChunks_ceiling:
  assumes "0 \<le> rfSize rf" "rfSize rf \<le> 2 ^ 63 - ChunkSize"
  shows "expectedChunks rf = \<lceil>real_of_int (rfSize rf) / real_of_int ChunkSize\<rceil>"

proof -
  have "is_int64 (rfSize rf + ChunkSize - 1)"
    using assms by (simp add: is_int64_def ChunkSize_def)
  moreover have "0 \<le> rfSize rf + ChunkSize - 1"
    using assms ChunkSize_pos by simp
  ultimately show ?thesis
    by (simp add: expectedChunks_def wrap64_id tdiv_nonneg ChunkSize_pos ceil_div)

qed

lemma map_of_delete_same: "map_of (AList.delete k al) k = None"
  by (simp add: delete_conv')

lemma ReceivedChunks_openReceiver:
  "openReceiver F sid msg session d = Some (rf, d1) \<Longrightarrow>
     ReceivedChunks rf = (case map_of (ReceivingFiles session) (mName msg) of
                            None \<Rightarrow> 0 | Some old \<Rightarrow> ReceivedChunks old)"
  by (auto simp: openReceiver_def split: option.splits if_splits)

text \<open>
  C10 (as amended): for a \<open>file_chunk\<close> message that is processed (the receiver \<open>rf\<close> is
  found or created, and the write succeeds), whatever its \<open>currentChunk\<close> and whatever
  chunks the receiver already holds: the counter of the receiver, 0 for a new receiver,
  goes up by one. The target is \<open>totalChunks\<close> when \<open>totalChunks\<close> is positive, and the
  chunk count computed from the size when \<open>totalChunks\<close> is zero or negative; that count
  is the ceiling of \<open>size / chunkSize\<close> for \<open>0 \<le> size \<le> 2^63 - chunkSize\<close>. When the new
  count is positive and equals the target, the file is registered in \<open>ReceivedFiles\<close>, the
  receiver is removed, and the file frame is broadcast: every client whose channel holds
  fewer than 1024 frames has the frame appended to its channel, and every other client
  is removed from the session. Otherwise the receiver stays with the new count, and
  \<open>ReceivedFiles\<close> and the clients are as before.
\<close>

theorem file_chunk_counts_messages:
  assumes op: "openReceiver F sid msg session d = Some (rf, d1)"
    and ok: "handleFileChunk E F now sid msg session d = Some (session', d')"
    and key: "rfName rf = mName msg"
  defines "count \<equiv> ReceivedChunks rf + 1"
    and "target \<equiv> (if 0 < rfTotalChunks rf then rfTotalChunks rf else expectedChunks rf)"
    and "path \<equiv> tempFilePathOf sid (mName msg)"
    and "frame \<equiv> \<lparr>mType = ''file'', mContent = [], mName = mName msg, mSize = rfSize rf,
           mData = DataString ''file saved on the server, get it by the download link'',
           mSessionID = sid, mTimestamp = now, mClients = 0, mTotalChunks = 0,
           mCurrentChunk = 0, mIsLastChunk = False,
           mTempFilePath = tempFilePathOf sid (mName msg)\<rparr>"
  shows "ReceivedChunks rf = (case map_of (ReceivingFiles session) (mName msg) of
                               None \<Rightarrow> 0 | Some old \<Rightarrow> ReceivedChunks old)
       \<and> (count = target \<and> 0 < count \<longrightarrow>
            map_of (ReceivedFiles session') (mName msg)
              = Some \<lparr>Name = mName msg, Size = rfSize rf, TempFilePath = path\<rparr>
          \<and> map_of (ReceivingFiles session') (mName msg) = None
          \<and> Clients session'
              = map (\<lambda>(c, q). (c, q @ [frame]))
                  (filter (\<lambda>(c, q). length q < 1024) (Clients session)))
       \<and> (\<not> (count = target \<and> 0 < count) \<longrightarrow>
            (\<exists>rf'. map_of (ReceivingFiles session') (mName msg) = Some rf'
                   \<and> ReceivedChunks rf' = count \<and> rfTotalChunks rf' = rfTotalChunks rf)
          \<and> ReceivedFiles session' = ReceivedFiles session
          \<and> Clients session' = Clients session)
       \<and> (0 \<le> rfSize rf \<and> rfSize rf \<le> 2 ^ 63 - ChunkSize \<longrightarrow>
            expectedChunks rf = \<lceil>real_of_int (rfSize rf) / real_of_int ChunkSize\<rceil>)"
proof -
  let ?rf1 = "storeChunk msg rf"
  have all: "(allChunksReceived ?rf1 \<and> 0 < ReceivedChunks ?rf1) = (count = target \<and> 0 < count)"
    by (auto simp: allChunksReceived_def storeChunk_def expectedChunks_def count_def target_def)
  have f: "rfName ?rf1 = mName msg" "rfSize ?rf1 = rfSize rf"
    "ReceivedChunks ?rf1 = count" "rfTotalChunks ?rf1 = rfTotalChunks rf"
    using key by (simp_all add: storeChunk_def count_def)
  have fr: "fileFrame now sid (mName msg) (rfSize rf) path = frame"
    by (simp add: fileFrame_def emptyMessage_def savedOnServer_def frame_def path_def)
  have res: "session' =
      (if count = target \<and> 0 < count
       then finishReceiving now sid ?rf1
              (session\<lparr>ReceivingFiles := AList.update (mName msg) ?rf1 (ReceivingFiles session)\<rparr>)
       else session\<lparr>ReceivingFiles := AList.update (mName msg) ?rf1 (ReceivingFiles session)\<rparr>)"
    using ok op all
    by (auto simp: handleFileChunk_def Let_def split: if_splits)
  have fin: "map_of (ReceivedFiles session') (mName msg)
              = Some \<lparr>Name = mName msg, Size = rfSize rf, TempFilePath = path\<rparr>
          \<and> map_of (ReceivingFiles session') (mName msg) = None
          \<and> Clients session'
              = map (\<lambda>(c, q). (c, q @ [frame]))
                  (filter (\<lambda>(c, q). length q < 1024) (Clients session))"
    if c: "count = target \<and> 0 < count"
  proof -
    have "session' = finishReceiving now sid ?rf1
              (session\<lparr>ReceivingFiles := AList.update (mName msg) ?rf1 (ReceivingFiles session)\<rparr>)"
      unfolding res using c by auto
    then show ?thesis
      using f fr by (simp add: finishReceiving_def Let_def update_conv' map_of_delete_same
          broadcastMessage_def path_def)
  qed
  have cont: "(\<exists>rf'. map_of (ReceivingFiles session') (mName msg) = Some rf'
                   \<and> ReceivedChunks rf' = count \<and> rfTotalChunks rf' = rfTotalChunks rf)
          \<and> ReceivedFiles session' = ReceivedFiles session
          \<and> Clients session' = Clients session"
    if c: "\<not> (count = target \<and> 0 < count)"
  proof -
    have "session' = session\<lparr>ReceivingFiles := AList.update (mName msg) ?rf1 (ReceivingFiles session)\<rparr>"
      unfolding res using c by auto
    then show ?thesis
      using f by (simp add: update_conv')
  qed
  show ?thesis
    using ReceivedChunks_openReceiver[OF op] fin cont expectedChunks_ceiling[of rf]
    by blast
qed

lemma dupChunkMsg_simps [simp]:
  "mName dupChunkMsg = ''g''" "mSize dupChunkMsg = 5242881" "mTotalChunks dupChunkMsg = 2"
  "mCurrentChunk dupChunkMsg = 0" "msgBytes dupChunkMsg = [9]"
  by (simp_all add: dupChunkMsg_def emptyMessage_def msgBytes_def)

lemma negChunkMsg_simps [simp]:
  "mName negChunkMsg = ''g''" "mSize negChunkMsg = 5242881" "mTotalChunks negChunkMsg = - 1"
  "mCurrentChunk negChunkMsg = 0" "msgBytes negChunkMsg = [9]"
  by (simp_all add: negChunkMsg_def dupChunkMsg_def emptyMessage_def msgBytes_def)

lemma expectedChunks_5242881: "rfSize rf = 5242881 \<Longrightarrow> expectedChunks rf = 2"
  by (simp add: expectedChunks_def wrap64_def tdiv_def ChunkSize_def)

lemma write_first: 
  "writeBytesAt toyCodec [tempFilePathOf ''s'' ''g'' \<mapsto> Bytes (replicate 5242881 0)]
             (tempFilePathOf ''s'' ''g'') 0 [9] = receivingDisk"
  by (simp add: writeBytesAt_def pwrite_def bytesOf_def receivingDisk_def)

lemma write_again:
  "writeBytesAt toyCodec receivingDisk (tempFilePathOf ''s'' ''g'') 0 [9] = receivingDisk"
  by (simp add: writeBytesAt_def pwrite_def bytesOf_def receivingDisk_def)

lemma open_fresh:
  "openReceiver noFaults ''s'' dupChunkMsg joinedSession Map.empty =
     Some (freshReceiver, [tempFilePathOf ''s'' ''g'' \<mapsto> Bytes (replicate 5242881 0)])"
  by (simp add: openReceiver_def joinedSession_def newSession_def freshReceiver_def)

lemma open_existing:
  "openReceiver noFaults ''s'' dupChunkMsg receivingSession receivingDisk =
     Some (oneChunkReceiver, receivingDisk)"
  by (simp add: openReceiver_def receivingSession_def oneChunkReceiver_def)

lemma first_file_chunk:
  "handleFileChunk toyCodec noFaults 1 ''s'' dupChunkMsg joinedSession Map.empty =
     Some (receivingSession, receivingDisk)"
proof -
  have e: "expectedChunks (storeChunk dupChunkMsg freshReceiver) = 2"
    by (rule expectedChunks_5242881) (simp add: storeChunk_def freshReceiver_def)
  show ?thesis
    using write_first
    by (simp add: handleFileChunk_def open_fresh Let_def chunkOffset_def wsWriteFails_def
          allChunksReceived_def)
       (simp add: storeChunk_def freshReceiver_def receivingSession_def oneChunkReceiver_def
          joinedSession_def newSession_def)
qed

lemma second_file_chunk:
  "handleFileChunk toyCodec noFaults 2 ''s'' dupChunkMsg receivingSession receivingDisk =
     Some (completedSession, receivingDisk)"
proof -
  have fr: "fileFrame 2 ''s'' ''g'' 5242881 (tempFilePathOf ''s'' ''g'') = receivedFrame"
    by (simp add: fileFrame_def emptyMessage_def savedOnServer_def receivedFrame_def)
  show ?thesis
    using write_again
    by (simp add: handleFileChunk_def open_existing Let_def chunkOffset_def wsWriteFails_def
          allChunksReceived_def)
       (simp add: storeChunk_def oneChunkReceiver_def receivingSession_def finishReceiving_def
          broadcastMessage_def joinedSession_def newSession_def completedSession_def fr)
qed

text \<open>
  The witness: two \<open>file_chunk\<close> messages for a file of two chunks, both with
  \<open>currentChunk = 0\<close>. The first creates the receiver and counts 1; the second counts 2,
  which is \<open>totalChunks\<close>, and completes the file, though chunk 1 was never written: the
  frame reaches client 1, and client 2, whose channel is full, is removed.
\<close>

theorem file_chunk_counts_messages_witness:
  "openReceiver noFaults ''s'' dupChunkMsg joinedSession Map.empty =
     Some (freshReceiver, [tempFilePathOf ''s'' ''g'' \<mapsto> Bytes (replicate 5242881 0)])
   \<and> handleFileChunk toyCodec noFaults 1 ''s'' dupChunkMsg joinedSession Map.empty =
        Some (receivingSession, receivingDisk)
   \<and> rfName freshReceiver = mName dupChunkMsg
   \<and> \<not> (ReceivedChunks freshReceiver + 1 = 2 \<and> 0 < ReceivedChunks freshReceiver + 1)
   \<and> map_of (ReceivingFiles receivingSession) ''g'' = Some oneChunkReceiver
   \<and> ReceivedChunks oneChunkReceiver = 1
   \<and> ReceivedFiles receivingSession = []
   \<and> Clients receivingSession = [(1, []), (2, replicate 1024 emptyMessage)]
   \<and> openReceiver noFaults ''s'' dupChunkMsg receivingSession receivingDisk =
        Some (oneChunkReceiver, receivingDisk)
   \<and> handleFileChunk toyCodec noFaults 2 ''s'' dupChunkMsg receivingSession receivingDisk =
        Some (completedSession, receivingDisk)
   \<and> rfName oneChunkReceiver = mName dupChunkMsg
   \<and> (ReceivedChunks oneChunkReceiver + 1 = 2 \<and> 0 < ReceivedChunks oneChunkReceiver + 1)
   \<and> map_of (ReceivedFiles completedSession) ''g''
        = Some \<lparr>Name = ''g'', Size = 5242881, TempFilePath = tempFilePathOf ''s'' ''g''\<rparr>
   \<and> map_of (ReceivingFiles completedSession) ''g'' = None
   \<and> Clients completedSession = [(1, [receivedFrame])]
   \<and> mType receivedFrame = ''file'' \<and> mName receivedFrame = ''g''
   \<and> 0 \<le> rfSize oneChunkReceiver \<and> rfSize oneChunkReceiver \<le> 2 ^ 63 - ChunkSize
   \<and> expectedChunks oneChunkReceiver = 2
   \<and> receivingDisk (tempFilePathOf ''s'' ''g'') = Some (Bytes (9 # replicate 5242880 0))"
proof -
  have k0: "rfName freshReceiver = mName dupChunkMsg" by (simp add: freshReceiver_def)
  have k1: "rfName oneChunkReceiver = mName dupChunkMsg" by (simp add: oneChunkReceiver_def)
  have c: "\<lceil>real_of_int 5242881 / real_of_int ChunkSize\<rceil> = 2"
    by (simp add: ChunkSize_val ceiling_eq_iff)
  note t1 = file_chunk_counts_messages[OF open_fresh first_file_chunk k0]
  note t2 = file_chunk_counts_messages[OF open_existing second_file_chunk k1]
  have f0: "ReceivedChunks freshReceiver = 0" "rfTotalChunks freshReceiver = 2"
    by (simp_all add: freshReceiver_def)
  have f1: "ReceivedChunks oneChunkReceiver = 1" "rfTotalChunks oneChunkReceiver = 2"
    "rfSize oneChunkReceiver = 5242881"
    by (simp_all add: oneChunkReceiver_def)
  have cl: "Clients joinedSession = [(1, []), (2, replicate 1024 emptyMessage)]"
    "Clients receivingSession = [(1, []), (2, replicate 1024 emptyMessage)]"
    by (simp_all add: receivingSession_def joinedSession_def)
  from t1 have a: "map_of (ReceivingFiles receivingSession) ''g'' = Some oneChunkReceiver
     \<and> ReceivedFiles receivingSession = []"
    by (auto simp: f0 receivingSession_def joinedSession_def newSession_def)
  from t2 have b: "map_of (ReceivedFiles completedSession) ''g''
        = Some \<lparr>Name = ''g'', Size = 5242881, TempFilePath = tempFilePathOf ''s'' ''g''\<rparr>
      \<and> map_of (ReceivingFiles completedSession) ''g'' = None
      \<and> Clients completedSession = [(1, [receivedFrame])]
      \<and> expectedChunks oneChunkReceiver = 2"
    using c by (simp add: f1 cl ChunkSize_val receivedFrame_def)
  from open_fresh first_file_chunk open_existing second_file_chunk k0 k1 a b
  show ?thesis
    by (simp add: f0 f1 cl ChunkSize_val receivingDisk_def receivedFrame_def)
qed

lemma open_neg_fresh:
  "openReceiver noFaults ''s'' negChunkMsg (newSession ''s'') Map.empty =
     Some (negReceiver\<lparr>rfChunks := [], ReceivedChunks := 0\<rparr>,
           [tempFilePathOf ''s'' ''g'' \<mapsto> Bytes (replicate 5242881 0)])"
  by (simp add: openReceiver_def newSession_def negReceiver_def)

lemma open_neg_existing:
  "openReceiver noFaults ''s'' negChunkMsg
       ((newSession ''s'')\<lparr>ReceivingFiles := [(''g'', negReceiver)]\<rparr>) receivingDisk =
     Some (negReceiver, receivingDisk)"
  by (simp add: openReceiver_def negReceiver_def)

text \<open>
  The claim as stated takes \<open>totalChunks\<close> as the target unless it is zero. For a file of
  two chunks announced with \<open>totalChunks = -1\<close> the program takes the count computed from
  the size: the first message, with the count 1, does not complete the file, and the
  second, with the count 2, completes it, while \<open>totalChunks\<close> is \<open>-1\<close>.
\<close>

theorem negative_total_chunks_counterexample:
  "mTotalChunks negChunkMsg = - 1 \<and> mSize negChunkMsg = 5242881
   \<and> handleFileChunk toyCodec noFaults 1 ''s'' negChunkMsg (newSession ''s'') Map.empty =
        Some ((newSession ''s'')\<lparr>ReceivingFiles := [(''g'', negReceiver)]\<rparr>, receivingDisk)
   \<and> rfTotalChunks negReceiver = - 1 \<and> ReceivedChunks negReceiver = 1
   \<and> handleFileChunk toyCodec noFaults 2 ''s'' negChunkMsg
        ((newSession ''s'')\<lparr>ReceivingFiles := [(''g'', negReceiver)]\<rparr>) receivingDisk =
        Some ((newSession ''s'')\<lparr>ReceivedFiles :=
                 [(''g'', \<lparr>Name = ''g'', Size = 5242881, TempFilePath = tempFilePathOf ''s'' ''g''\<rparr>)]\<rparr>,
              receivingDisk)
   \<and> \<lceil>real_of_int 5242881 / real_of_int ChunkSize\<rceil> = 2"
proof -
  have c: "\<lceil>real_of_int 5242881 / real_of_int ChunkSize\<rceil> = 2"
    by (simp add: ChunkSize_val ceiling_eq_iff)
  have e1: "expectedChunks (storeChunk negChunkMsg (negReceiver\<lparr>rfChunks := [], ReceivedChunks := 0\<rparr>)) = 2"
    by (rule expectedChunks_5242881) (simp add: storeChunk_def negReceiver_def)
  have e2: "expectedChunks (storeChunk negChunkMsg negReceiver) = 2"
    by (rule expectedChunks_5242881) (simp add: storeChunk_def negReceiver_def)
  have s1: "handleFileChunk toyCodec noFaults 1 ''s'' negChunkMsg (newSession ''s'') Map.empty =
        Some ((newSession ''s'')\<lparr>ReceivingFiles := [(''g'', negReceiver)]\<rparr>, receivingDisk)"
    using write_first e1
    by (simp add: handleFileChunk_def open_neg_fresh Let_def chunkOffset_def wsWriteFails_def
          allChunksReceived_def)
       (simp add: storeChunk_def negReceiver_def newSession_def)
  have s2: "handleFileChunk toyCodec noFaults 2 ''s'' negChunkMsg
        ((newSession ''s'')\<lparr>ReceivingFiles := [(''g'', negReceiver)]\<rparr>) receivingDisk =
        Some ((newSession ''s'')\<lparr>ReceivedFiles :=
                 [(''g'', \<lparr>Name = ''g'', Size = 5242881, TempFilePath = tempFilePathOf ''s'' ''g''\<rparr>)]\<rparr>,
              receivingDisk)"
    using write_again e2
    by (simp add: handleFileChunk_def open_neg_existing Let_def chunkOffset_def wsWriteFails_def
          allChunksReceived_def)
       (simp add: storeChunk_def negReceiver_def finishReceiving_def broadcastMessage_def
          newSession_def)
  from s1 s2 c show ?thesis
    by (simp add: negReceiver_def)
qed

section \<open>Properties of the session registry\<close>

lemma keeps_refl: "keeps sid w w"
  by (simp add: keeps_def split: option.splits)

lemma keeps_trans: "keeps sid w w1 \<Longrightarrow> keeps sid w1 w2 \<Longrightarrow> keeps sid w w2"
  by (auto simp: keeps_def split: option.splits)

lemma keeps_disk: "keeps sid w (w\<lparr>disk := d\<rparr>)"
  by (simp add: keeps_def split: option.splits)

lemma keeps_same_store: "store w' = store w \<Longrightarrow> keeps sid w w'"
  by (simp add: keeps_def split: option.splits)

lemma keeps_GetOrCreate:
  "store w' = snd (GetOrCreateSession (store w) sid') \<Longrightarrow> keeps sid w w'"
  by (auto simp: keeps_def GetOrCreateSession_def split: option.splits)

text \<open>
  An update of the looked-up session by a function that does not add clients.

\<close>

lemma keeps_update:
  assumes "store w' = (snd (GetOrCreateSession (store w) sid'))
                        (sid' \<mapsto> f (fst (GetOrCreateSession (store w) sid')))"
    and "\<And>s. Clients s = [] \<Longrightarrow> Clients (f s) = []"
  shows "keeps sid w w'"
  using assms
  by (auto simp: keeps_def GetOrCreateSession_def newSession_def split: option.splits)

lemma keeps_update_session:
  assumes "store w' = (snd (GetOrCreateSession (store w) sid'))(sid' \<mapsto> s')"
    and "Clients (fst (GetOrCreateSession (store w) sid')) = [] \<Longrightarrow> Clients s' = []"
  shows "keeps sid w w'"
  using assms
  by (auto simp: keeps_def GetOrCreateSession_def newSession_def split: option.splits)

lemma Clients_broadcastMessage: "Clients s = [] \<Longrightarrow> Clients (broadcastMessage m s) = []"
  by (simp add: broadcastMessage_def)

lemma Clients_broadcastClientsCount: "Clients s = [] \<Longrightarrow> Clients (broadcastClientsCount s) = []"
  by (simp add: broadcastClientsCount_def Clients_broadcastMessage)

lemma Clients_registerFile [simp]: "Clients (registerFile name c s) = Clients s"
  by (simp add: registerFile_def)

lemma keeps_start: "keeps sid w (snd (startResumableUpload E F now uploadID req w))"

proof -
  have "store (snd (startResumableUpload E F now uploadID req w)) = store w
      \<or> store (snd (startResumableUpload E F now uploadID req w))
           = snd (GetOrCreateSession (store w) (reqSessionID req))"
    by (auto simp: startResumableUpload_def Let_def split: prod.splits option.splits)
  then show ?thesis
    using keeps_same_store keeps_GetOrCreate by blast

qed

lemma keeps_complete: "keeps sid w (snd (completeUpload E F sid' fileName w))"

proof -
  let ?w' = "snd (completeUpload E F sid' fileName w)"
  have "store ?w' = store w
      \<or> store ?w' = snd (GetOrCreateSession (store w) sid')
      \<or> (\<exists>c. store ?w' = (snd (GetOrCreateSession (store w) sid'))
                        (sid' \<mapsto> registerFile fileName c (fst (GetOrCreateSession (store w) sid'))))"
    by (auto simp: completeUpload_def Let_def split: prod.splits option.splits)
  then show ?thesis
    using keeps_same_store keeps_GetOrCreate keeps_update[where f = "registerFile fileName c" for c]
    by (metis Clients_registerFile)

qed

lemma keeps_chunk: "keeps sid w (snd (uploadChunk E F now form w))"

proof -
  let ?w' = "snd (uploadChunk E F now form w)"
  have "store ?w' = store w
      \<or> (\<exists>m c. store ?w' = (snd (GetOrCreateSession (store w) (fSessionID form)))
              (fSessionID form \<mapsto> broadcastMessage m (registerFile (fFileName form) c
                   (fst (GetOrCreateSession (store w) (fSessionID form))))))"
    by (auto simp: uploadChunk_def Let_def split: prod.splits option.splits FormInt.splits)
  then show ?thesis
  proof (elim disjE exE)
    assume "store ?w' = store w" then show ?thesis by (rule keeps_same_store)
  next
    fix m c
    assume "store ?w' = (snd (GetOrCreateSession (store w) (fSessionID form)))
              (fSessionID form \<mapsto> broadcastMessage m (registerFile (fFileName form) c
                   (fst (GetOrCreateSession (store w) (fSessionID form)))))"
    then show ?thesis
      by (rule keeps_update[where f = "\<lambda>s. broadcastMessage m (registerFile (fFileName form) c s)"])
         (simp add: Clients_broadcastMessage)
  qed

qed

lemma keeps_history: "keeps sid w (snd (getSessionHistory sid' w))"
  by (rule keeps_GetOrCreate[where sid' = sid'])
     (auto simp: getSessionHistory_def split: prod.splits)

lemma keeps_download: "keeps sid w (snd (download sid' filename w))"
  by (rule keeps_GetOrCreate[where sid' = sid'])
     (auto simp: download_def split: prod.splits option.splits)

lemma keeps_handleWebSocket: "sid' \<noteq> sid \<Longrightarrow> keeps sid w (handleWebSocket now c sid' w)"
  by (auto simp: keeps_def handleWebSocket_def GetOrCreateSession_def Let_def
        split: option.splits prod.splits)

lemma keeps_writePump: "keeps sid w (writePump c sid' w)"
  by (auto simp: keeps_def writePump_def split: option.splits)

lemma keeps_RemoveClient: "keeps sid w (RemoveClient F c sid' w)"
  by (auto simp: keeps_def RemoveClient_def split: option.splits)

lemma keeps_readPumpExit: "keeps sid w (readPumpExit F c sid' w)"

proof -
  let ?w1 = "RemoveClient F c sid' w"
  have "keeps sid ?w1 (readPumpExit F c sid' w)"
    by (rule keeps_update[where f = broadcastClientsCount and sid' = sid'])
       (auto simp: readPumpExit_def Let_def Clients_broadcastClientsCount split: prod.splits)
  with keeps_RemoveClient show ?thesis by (rule keeps_trans)

qed

lemma Clients_handleFile:
  "handleFile F now sid' msg s d = Some (s', d') \<Longrightarrow> Clients s = [] \<Longrightarrow> Clients s' = []"
  by (auto simp: handleFile_def Let_def broadcastMessage_def split: if_splits)

lemma Clients_handleFileChunk:
  "handleFileChunk E F now sid' msg s d = Some (s', d') \<Longrightarrow> Clients s = [] \<Longrightarrow> Clients s' = []"
  by (auto simp: handleFileChunk_def finishReceiving_def Let_def broadcastMessage_def
        split: if_splits option.splits prod.splits)

lemma keeps_handleMessage:
  assumes "handleMessage E F now sid' msg w = Some w'"
  shows "keeps sid w w'"

proof -
  obtain session st where g: "GetOrCreateSession (store w) sid' = (session, st)"
    by (cases "GetOrCreateSession (store w) sid'")
  have "store w' = st \<or> (\<exists>s'. store w' = st(sid' \<mapsto> s') \<and> (Clients session = [] \<longrightarrow> Clients s' = []))"
    using assms g
    by (auto simp: handleMessage_def Let_def Clients_broadcastMessage
          dest: Clients_handleFile Clients_handleFileChunk split: if_splits)
  then show ?thesis
  proof (elim disjE exE conjE)
    assume "store w' = st"
    then show ?thesis using g by (intro keeps_GetOrCreate[where sid' = sid']) simp
  next
    fix s' assume "store w' = st(sid' \<mapsto> s')" "Clients session = [] \<longrightarrow> Clients s' = []"
    then show ?thesis using g by (intro keeps_update_session[where sid' = sid' and s' = s']) simp_all
  qed

qed

lemma keeps_step:
  assumes "step E F now op w = Some w'" and "\<not> connectsTo sid op"
  shows "keeps sid w w'"

proof (cases op)
  case (Connect c sid')
  with assms show ?thesis by (auto simp: connectsTo_def keeps_handleWebSocket)

next
  case (Recv sid' msg)
  with assms show ?thesis by (auto intro: keeps_handleMessage)

qed (use assms in \<open>auto simp: keeps_readPumpExit keeps_writePump keeps_history keeps_download
       keeps_start keeps_chunk keeps_complete keeps_refl\<close>)

lemma present_step:
  assumes "step E F now op w = Some w'" and "store w sid \<noteq> None"
  shows "store w' sid \<noteq> None"

proof (cases "connectsTo sid op")
  case False
  from keeps_step[OF assms(1) False] assms(2) show ?thesis
    by (auto simp: keeps_def split: option.splits)

next
  case True
  with assms show ?thesis
    by (auto simp: connectsTo_def handleWebSocket_def Let_def split: Op.splits prod.splits)

qed

lemma keeps_run:
  assumes "run E ops w = Some w'" and "\<forall>(F, now, op) \<in> set ops. \<not> connectsTo sid op"
  shows "keeps sid w w'"
  using assms

proof (induction ops arbitrary: w)
  case Nil
  then show ?case by (simp add: keeps_refl)

next
  case (Cons a ops)
  obtain F now op where a: "a = (F, now, op)" by (cases a)
  from Cons.prems(1) a obtain w1 where s: "step E F now op w = Some w1" and r: "run E ops w1 = Some w'"
    by (auto split: option.splits)
  from Cons.prems(2) a have n: "\<not> connectsTo sid op" and rest: "\<forall>(F, now, op) \<in> set ops. \<not> connectsTo sid op"
    by auto
  from keeps_step[OF s n] Cons.IH[OF r rest] show ?case by (rule keeps_trans)

qed

lemma present_run:
  assumes "run E ops w = Some w'" and "store w sid \<noteq> None"
  shows "store w' sid \<noteq> None"
  using assms

proof (induction ops arbitrary: w)
  case Nil
  then show ?case by simp

next
  case (Cons a ops)
  obtain F now op where a: "a = (F, now, op)" by (cases a)
  from Cons.prems(1) a obtain w1 where s: "step E F now op w = Some w1" and r: "run E ops w1 = Some w'"
    by (auto split: option.splits)
  from present_step[OF s Cons.prems(2)] Cons.IH[OF r] show ?case by simp

qed

lemma start_inserts:
  assumes "store w sid = None" "bindStartOK req" "reqSessionID req = sid"
  shows "store (snd (startResumableUpload E F now uploadID req w)) sid = Some (newSession sid)"
proof -
  have g: "GetOrCreateSession (store w) (reqSessionID req) = (newSession sid, (store w)(sid \<mapsto> newSession sid))"
    using assms by (simp add: GetOrCreateSession_def)
  have "store (snd (startResumableUpload E F now uploadID req w)) = (store w)(sid \<mapsto> newSession sid)"
    using assms(2)
    by (simp add: startResumableUpload_def g Let_def newSession_def split: prod.splits)
  then show ?thesis by simp
qed

lemma last_client_leaves:
  assumes "lastClient w sid c"
  shows "map_option Clients (store (readPumpExit F c sid w) sid) = Some []"
proof -
  from assms obtain s where s: "store w sid = Some s" and c: "map fst (Clients s) = [c]"
    by (auto simp: lastClient_def split: option.splits)
  from c obtain q where q: "Clients s = [(c, q)]"
    by (cases "Clients s") auto
  have "map_option Clients (store (RemoveClient F c sid w) sid) = Some []"
    by (simp add: RemoveClient_def s q)
  then show ?thesis
    by (auto simp: readPumpExit_def GetOrCreateSession_def Let_def Clients_broadcastClientsCount
          split: option.splits)
qed

text \<open>
  C5 (as amended): sessions without clients are long-lived in the registry. A history
  request, a download request, or an upload start that passes the binding of the
  request, for a session ID that is not in the registry, inserts a session without
  clients; a status request performs no lookup and leaves the registry as it is. When
  the only client of a session disconnects, the session stays in the registry without
  clients. No sequence of operations removes a session from the registry, and a session
  without clients stays in the registry without clients through every sequence of
  operations that has no WebSocket connection to its ID.
\<close>

theorem registry_keeps_sessions:
  assumes "run E ops w = Some w'"
  shows "(store w sid = None \<longrightarrow>
            store (snd (getSessionHistory sid w)) sid = Some (newSession sid)
          \<and> store (snd (download sid filename w)) sid = Some (newSession sid)
          \<and> (bindStartOK req \<and> reqSessionID req = sid \<longrightarrow>
               store (snd (startResumableUpload E F now uploadID req w)) sid = Some (newSession sid))
          \<and> step E F now (Status sid filename) w = Some w
          \<and> Clients (newSession sid) = [])
       \<and> (lastClient w sid c \<longrightarrow>
            map_option Clients (store (readPumpExit F c sid w) sid) = Some [])
       \<and> (store w sid \<noteq> None \<longrightarrow> store w' sid \<noteq> None)
       \<and> ((\<forall>(F, now, op) \<in> set ops. \<not> connectsTo sid op) \<longrightarrow> keeps sid w w')"
proof -
  have "store (snd (getSessionHistory sid w)) sid = Some (newSession sid)
          \<and> store (snd (download sid filename w)) sid = Some (newSession sid)
          \<and> Clients (newSession sid) = []" if "store w sid = None"
    using that
    by (simp add: getSessionHistory_def download_def GetOrCreateSession_def newSession_def)
  then show ?thesis
    using present_run[OF assms] keeps_run[OF assms] start_inserts last_client_leaves
    by (simp (no_asm_simp))
qed

lemma history_emptyWorld: "snd (getSessionHistory ''x'' emptyWorld) = lookedUpWorld"
  by (simp add: getSessionHistory_def GetOrCreateSession_def emptyWorld_def lookedUpWorld_def)

lemma run_lookupOps: "run toyCodec lookupOps lookedUpWorld = Some lookedUpWorld"
proof -
  have d: "snd (download ''x'' ''f'' lookedUpWorld) = lookedUpWorld"
    by (simp add: download_def GetOrCreateSession_def lookedUpWorld_def newSession_def)
  have e: "readPumpExit noFaults 7 ''x'' lookedUpWorld = lookedUpWorld"
    by (simp add: readPumpExit_def RemoveClient_def GetOrCreateSession_def lookedUpWorld_def
          newSession_def broadcastClientsCount_def broadcastMessage_def)
  have c: "snd (completeUpload toyCodec noFaults ''x'' ''f'' lookedUpWorld) = lookedUpWorld"
    by (simp add: completeUpload_def loadResumableConfig_def lookedUpWorld_def)
  show ?thesis
    by (simp add: lookupOps_def d e c)
qed

lemma lastClient_connected: "lastClient (handleWebSocket 0 1 ''y'' emptyWorld) ''y'' 1"
  by (simp add: lastClient_def handleWebSocket_def GetOrCreateSession_def emptyWorld_def
        newSession_def broadcastClientsCount_def broadcastMessage_def sendTo_def
        historyFrames_def Let_def)

theorem registry_keeps_sessions_witness:
  "run toyCodec lookupOps lookedUpWorld = Some lookedUpWorld
   \<and> store emptyWorld ''s'' = None
   \<and> store (snd (getSessionHistory ''s'' emptyWorld)) ''s'' = Some (newSession ''s'')
   \<and> store (snd (download ''s'' ''f'' emptyWorld)) ''s'' = Some (newSession ''s'')
   \<and> bindStartOK (startReq 3) \<and> reqSessionID (startReq 3) = ''s''
   \<and> store (snd (startResumableUpload toyCodec noFaults 0 ''u'' (startReq 3) emptyWorld)) ''s''
        = Some (newSession ''s'')
   \<and> step toyCodec noFaults 0 (Status ''s'' ''f'') emptyWorld = Some emptyWorld
   \<and> Clients (newSession ''s'') = []
   \<and> lastClient (handleWebSocket 0 1 ''y'' emptyWorld) ''y'' 1
   \<and> map_option Clients
        (store (readPumpExit noFaults 1 ''y'' (handleWebSocket 0 1 ''y'' emptyWorld)) ''y'') = Some []
   \<and> store lookedUpWorld ''x'' \<noteq> None
   \<and> \<not> connectsTo ''x'' (Disconnect 7 ''x'') \<and> \<not> connectsTo ''x'' (Download ''x'' ''f'')
   \<and> \<not> connectsTo ''x'' (Status ''x'' ''f'') \<and> \<not> connectsTo ''x'' (Complete ''x'' ''f'')
   \<and> Clients (newSession ''x'') = []
   \<and> keeps ''x'' lookedUpWorld lookedUpWorld"
proof -
  have r0: "run toyCodec [] emptyWorld = Some emptyWorld" by simp
  have r1: "run toyCodec [] (handleWebSocket 0 1 ''y'' emptyWorld)
              = Some (handleWebSocket 0 1 ''y'' emptyWorld)" by simp
  note t0 = registry_keeps_sessions[OF r0, where sid = "''s''" and filename = "''f''"
      and req = "startReq 3" and F = noFaults and now = 0 and uploadID = "''u''"]
  note t1 = registry_keeps_sessions[OF run_lookupOps, where sid = "''x''"]
  note t2 = registry_keeps_sessions[OF r1, where sid = "''y''" and c = 1 and F = noFaults]
  have n: "\<forall>(F, now, op) \<in> set lookupOps. \<not> connectsTo ''x'' op"
    by (simp add: lookupOps_def connectsTo_def)
  have e: "store emptyWorld ''s'' = None" by (simp add: emptyWorld_def)
  have p: "store lookedUpWorld ''x'' \<noteq> None" by (simp add: lookedUpWorld_def)
  have bd: "bindStartOK (startReq 3)" by (simp add: bindStartOK_startReq is_int64_def)
  from t0 e bd have a: "store (snd (getSessionHistory ''s'' emptyWorld)) ''s'' = Some (newSession ''s'')
     \<and> store (snd (download ''s'' ''f'' emptyWorld)) ''s'' = Some (newSession ''s'')
     \<and> store (snd (startResumableUpload toyCodec noFaults 0 ''u'' (startReq 3) emptyWorld)) ''s''
          = Some (newSession ''s'')
     \<and> Clients (newSession ''s'') = []" by simp
  from t1 n have b: "keeps ''x'' lookedUpWorld lookedUpWorld" by blast
  from t2 lastClient_connected have l: "map_option Clients
        (store (readPumpExit noFaults 1 ''y'' (handleWebSocket 0 1 ''y'' emptyWorld)) ''y'') = Some []"
    by blast
  from run_lookupOps e a p b bd l lastClient_connected show ?thesis
    by (simp add: connectsTo_def newSession_def)
qed

text \<open>
  The counterexample: a history request for a fresh session ID leaves a session without
  clients in the registry, and requests that follow do not remove it; a session whose
  only client connects and leaves stays in the registry without clients as well.

\<close>

theorem zero_client_session_counterexample:
  "store emptyWorld ''x'' = None
   \<and> run toyCodec ((noFaults, 0, History ''x'') # lookupOps) emptyWorld = Some lookedUpWorld
   \<and> store lookedUpWorld ''x'' = Some (newSession ''x'')
   \<and> Clients (newSession ''x'') = []
   \<and> map_option Clients
        (store (readPumpExit noFaults 1 ''y'' (handleWebSocket 0 1 ''y'' emptyWorld)) ''y'') = Some []"

proof -
  have a: "run toyCodec ((noFaults, 0, History ''x'') # lookupOps) emptyWorld = Some lookedUpWorld"
    by (simp add: history_emptyWorld run_lookupOps)
  have b: "map_option Clients
        (store (readPumpExit noFaults 1 ''y'' (handleWebSocket 0 1 ''y'' emptyWorld)) ''y'') = Some []"
    by (simp add: readPumpExit_def RemoveClient_def handleWebSocket_def GetOrCreateSession_def
          emptyWorld_def newSession_def broadcastClientsCount_def broadcastMessage_def
          sendTo_def historyFrames_def Let_def)
  from a b show ?thesis
    by (simp add: emptyWorld_def lookedUpWorld_def newSession_def)

qed

end
